(* ===== verification/Prelude.thy ===== *)
theory Prelude
  imports Complex_Main
begin

text \<open>
  Shared vocabulary of the development of \<^verbatim>\<open>src/newmodel.ipynb\<close>: Python's
  exceptions as values of \<open>py_error\<close>, the sum type \<open>'a result\<close> that every fallible
  call of the notebook returns and its bind \<open>bindE\<close>, the type of underworld's index
  sets of mesh vertices, and generic lemmas on windows of finite sums (the scatter step of
  finite-element assembly) and on lists updated row by row (numpy's indexed assignment).
  The collection \<open>grid_simps\<close> gathers the rewrite rules of the mesh geometry that the
  component theories add to it.
\<close>

named_theorems grid_simps "rewrite rules for the structured mesh and its grid fields"

section \<open>Python errors as values\<close>

datatype py_error =
    IndexError
  | NameError string
  | ZeroDivisionError
  | KeyError string
  | ValueError string
  | RuntimeError string

type_synonym 'a result = "py_error + 'a"

text \<open>The exception a computation raises, if any.\<close>

definition err_of :: "'a result \<Rightarrow> py_error option" where
  "err_of r = (case r of Inl e \<Rightarrow> Some e | Inr _ \<Rightarrow> None)"

text \<open>Sequencing of statements that may raise: the first exception ends the cell.\<close>

definition bindE :: "'a result \<Rightarrow> ('a \<Rightarrow> 'b result) \<Rightarrow> 'b result" where
  "bindE r f = (case r of Inl e \<Rightarrow> Inl e | Inr x \<Rightarrow> f x)"

text \<open>
  An underworld \<^verbatim>\<open>IndexSet\<close> of mesh vertices, as the list of its members in
  increasing order.
\<close>

type_synonym index_set = "nat list"

lemma bindE_Inl [simp]: "bindE (Inl e) f = Inl e"
  by (simp add: bindE_def)

lemma bindE_Inr [simp]: "bindE (Inr x) f = f x"
  by (simp add: bindE_def)

lemma err_of_simps [simp]: "err_of (Inl e) = Some e" "err_of (Inr x) = None"
  by (simp_all add: err_of_def)

lemma bindE_eq_Inr: "bindE r f = Inr y \<longleftrightarrow> (\<exists>x. r = Inr x \<and> f x = Inr y)"
  by (cases r) auto

lemma bindE_eq_Inl: "bindE r f = Inl e \<longleftrightarrow> r = Inl e \<or> (\<exists>x. r = Inr x \<and> f x = Inl e)"
  by (cases r) auto

section \<open>Windows of finite sums\<close>

text \<open>
  Finite-element assembly loops over all elements and scatters an element's contribution
  into the row of a node only when the node is one of the element's corners. Along one
  axis, node \<open>i\<close> is a corner of the elements \<open>i - 1\<close> and \<open>i\<close>, where they exist:
  the loop over \<open>n\<close> elements then adds at most two terms.
\<close>

lemma sum_window:
  fixes g :: "nat \<Rightarrow> 'a::comm_monoid_add"
  assumes "i \<le> n"
  shows "(\<Sum>e<n. if e \<le> i \<and> i \<le> Suc e then g e else 0) =
         (if 0 < i then g (i - 1) else 0) + (if i < n then g i else 0)"
proof -
  have "(\<Sum>e<n. if e \<le> i \<and> i \<le> Suc e then g e else 0) =
        sum g {e. e < n \<and> e \<le> i \<and> i \<le> Suc e}"
    by (simp add: sum.inter_filter [symmetric] lessThan_def)
  also have "{e. e < n \<and> e \<le> i \<and> i \<le> Suc e} =
             (if 0 < i then {i - 1} else {}) \<union> (if i < n then {i} else {})"
    using assms by (auto split: if_splits)
  also have "sum g \<dots> = (if 0 < i then g (i - 1) else 0) + (if i < n then g i else 0)"
    by (cases "0 < i"; cases "i < n") (auto simp: sum.union_disjoint add.commute)
  finally show ?thesis .
qed

text \<open>Row-major numbering: the position in the row and the row of a flat index.\<close>

lemma row_major_mod_div:
  fixes i j w :: nat
  assumes "i < w"
  shows "(i + j * w) mod w = i \<and> (i + j * w) div w = j"
  using assms by simp

text \<open>A property of every element survives replacing one of them by an element that has it.\<close>

lemma list_all_list_update:
  "list_all P xs \<Longrightarrow> P y \<Longrightarrow> list_all P (xs[i := y])"
  by (auto simp: list_all_iff dest: set_update_subset_insert [THEN subsetD])

text \<open>A sum over the two local indices \<open>0\<close> and \<open>1\<close> of a bilinear element.\<close>

lemma sum_lessThan_2 [simp]: "(\<Sum>b<2::nat. f b) = f 0 + f 1"
  by (simp add: numeral_2_eq_2)

end
