(* ===== verification/Mesh.thy ===== *)
theory Mesh
  imports Prelude
begin

text \<open>
  The model parameters and the mesh of cell 2 of the notebook
  (\<^verbatim>\<open>src/newmodel.ipynb\<close>, lines 41--51), and the vertex sets of cell 4
  (lines 74--76). \<^verbatim>\<open>uw.mesh.FeMesh_Cartesian\<close> builds a structured Cartesian mesh
  of \<open>resx \<times> resy\<close> bilinear (Q1) elements over a box; its vertices are numbered with
  the x index running fastest, vertex \<open>(i, j)\<close> having index \<open>i + j * (resx + 1)\<close>.
  The record \<open>mesh\<close> keeps the constructor's arguments; the geometry (element widths,
  vertex numbering and coordinates, the special vertex sets) is computed from them.
\<close>

section \<open>Parameters (cell 2)\<close>

record params =
  boxHeight :: real
  boxLength :: real
  resx :: nat
  resy :: nat

definition notebook_params :: params where
  "notebook_params = \<lparr>boxHeight = 1.0, boxLength = 2.0, resx = 16, resy = 8\<rparr>"

section \<open>The Cartesian mesh\<close>

record mesh =
  elementType :: string
  elementRes :: "nat \<times> nat"
  minCoord :: "real \<times> real"
  maxCoord :: "real \<times> real"

text \<open>
  The constructor rejects a resolution that is not positive and a box whose maximum
  coordinate does not exceed its minimum, raising \<open>ValueError\<close>.
\<close>

definition FeMesh_Cartesian ::
  "string \<Rightarrow> nat \<times> nat \<Rightarrow> real \<times> real \<Rightarrow> real \<times> real \<Rightarrow> mesh result" where
  "FeMesh_Cartesian ty res mn mx =
     (if fst res = 0 \<or> snd res = 0 then Inl (ValueError ''elementRes'')
      else if fst mx \<le> fst mn \<or> snd mx \<le> snd mn then Inl (ValueError ''maxCoord'')
      else Inr \<lparr>elementType = ty, elementRes = res, minCoord = mn, maxCoord = mx\<rparr>)"

text \<open>The call of cell 2, with the parameters bound by the cell.\<close>

definition make_mesh :: "params \<Rightarrow> mesh result" where
  "make_mesh p = FeMesh_Cartesian ''Q1/dQ0'' (resx p, resy p) (0, 0) (boxLength p, boxHeight p)"

subsection \<open>Geometry of the mesh\<close>

definition nelx :: "mesh \<Rightarrow> nat" where
  "nelx m = fst (elementRes m)"

definition nely :: "mesh \<Rightarrow> nat" where
  "nely m = snd (elementRes m)"

definition nnodes :: "mesh \<Rightarrow> nat" where
  "nnodes m = (nelx m + 1) * (nely m + 1)"

definition node_index :: "mesh \<Rightarrow> nat \<Rightarrow> nat \<Rightarrow> nat" where
  "node_index m i j = i + j * (nelx m + 1)"

definition hx :: "mesh \<Rightarrow> real" where
  "hx m = (fst (maxCoord m) - fst (minCoord m)) / real (nelx m)"

definition hy :: "mesh \<Rightarrow> real" where
  "hy m = (snd (maxCoord m) - snd (minCoord m)) / real (nely m)"

definition node_coord :: "mesh \<Rightarrow> nat \<Rightarrow> real \<times> real" where
  "node_coord m n =
     (fst (minCoord m) + real (n mod (nelx m + 1)) * hx m,
      snd (minCoord m) + real (n div (nelx m + 1)) * hy m)"

subsection \<open>Special vertex sets (cell 4)\<close>

definition Bottom_VertexSet :: "mesh \<Rightarrow> index_set" where
  "Bottom_VertexSet m = map (\<lambda>i. node_index m i 0) [0..<nelx m + 1]"

definition Top_VertexSet :: "mesh \<Rightarrow> index_set" where
  "Top_VertexSet m = map (\<lambda>i. node_index m i (nely m)) [0..<nelx m + 1]"

definition Left_VertexSet :: "mesh \<Rightarrow> index_set" where
  "Left_VertexSet m = map (\<lambda>j. node_index m 0 j) [0..<nely m + 1]"

definition Right_VertexSet :: "mesh \<Rightarrow> index_set" where
  "Right_VertexSet m = map (\<lambda>j. node_index m (nelx m) j) [0..<nely m + 1]"

text \<open>\<^verbatim>\<open>mesh.specialSets[name]\<close>: a dictionary lookup, \<open>KeyError\<close> for other names.\<close>

definition specialSets :: "mesh \<Rightarrow> string \<Rightarrow> index_set result" where
  "specialSets m s =
     (if s = ''Bottom_VertexSet'' then Inr (Bottom_VertexSet m)
      else if s = ''Top_VertexSet'' then Inr (Top_VertexSet m)
      else if s = ''Left_VertexSet'' then Inr (Left_VertexSet m)
      else if s = ''Right_VertexSet'' then Inr (Right_VertexSet m)
      else Inl (KeyError s))"

text \<open>\<^verbatim>\<open>botWalls + topWalls\<close>: the union of two index sets, kept in increasing order.\<close>

definition index_union :: "index_set \<Rightarrow> index_set \<Rightarrow> index_set" where
  "index_union a b = sort (remdups (a @ b))"

section \<open>Lemmas\<close>

lemma make_mesh_notebook:
  "make_mesh notebook_params =
     Inr \<lparr>elementType = ''Q1/dQ0'', elementRes = (16, 8), minCoord = (0, 0), maxCoord = (2, 1)\<rparr>"
  by (simp add: make_mesh_def notebook_params_def FeMesh_Cartesian_def)

lemma FeMesh_Cartesian_Inr:
  "FeMesh_Cartesian ty res mn mx = Inr m \<longleftrightarrow>
     0 < fst res \<and> 0 < snd res \<and> fst mn < fst mx \<and> snd mn < snd mx \<and>
     m = \<lparr>elementType = ty, elementRes = res, minCoord = mn, maxCoord = mx\<rparr>"
  by (auto simp: FeMesh_Cartesian_def)

lemma index_union_set [simp]: "set (index_union a b) = set a \<union> set b"
  by (simp add: index_union_def)

lemma index_union_sorted: "sorted (index_union a b) \<and> distinct (index_union a b)"
  by (simp add: index_union_def)

lemma node_index_mod [grid_simps]: "i \<le> nelx m \<Longrightarrow> node_index m i j mod Suc (nelx m) = i"
  unfolding node_index_def Suc_eq_plus1 by (rule row_major_mod_div [THEN conjunct1]) simp

lemma node_index_div [grid_simps]: "i \<le> nelx m \<Longrightarrow> node_index m i j div Suc (nelx m) = j"
  unfolding node_index_def Suc_eq_plus1 by (rule row_major_mod_div [THEN conjunct2]) simp

lemma node_index_inj [grid_simps]:
  assumes "i \<le> nelx m" "i' \<le> nelx m"
  shows "node_index m i j = node_index m i' j' \<longleftrightarrow> i = i' \<and> j = j'"
proof
  assume eq: "node_index m i j = node_index m i' j'"
  then have "node_index m i j mod Suc (nelx m) = node_index m i' j' mod Suc (nelx m)
           \<and> node_index m i j div Suc (nelx m) = node_index m i' j' div Suc (nelx m)"
    by simp
  with assms show "i = i' \<and> j = j'" by (simp only: node_index_mod node_index_div)
qed simp

lemma node_index_bound:
  "i \<le> nelx m \<Longrightarrow> j \<le> nely m \<Longrightarrow> node_index m i j < nnodes m"
proof -
  assume i: "i \<le> nelx m" and j: "j \<le> nely m"
  have "i + j * (nelx m + 1) < (nelx m + 1) + j * (nelx m + 1)" using i by simp
  also have "\<dots> = (j + 1) * (nelx m + 1)" by simp
  also have "\<dots> \<le> (nely m + 1) * (nelx m + 1)" using j by (intro mult_right_mono) auto
  finally show ?thesis by (simp add: node_index_def nnodes_def mult.commute)
qed

lemma node_index_surj:
  assumes "n < nnodes m"
  shows "n = node_index m (n mod (nelx m + 1)) (n div (nelx m + 1)) \<and>
         n mod (nelx m + 1) \<le> nelx m \<and> n div (nelx m + 1) \<le> nely m"
proof -
  have "n div (nelx m + 1) < nely m + 1"
    using assms by (simp add: nnodes_def less_mult_imp_div_less mult.commute)
  moreover have "n mod (nelx m + 1) < nelx m + 1" by simp
  ultimately show ?thesis
    by (simp only: node_index_def mod_div_mult_eq) simp
qed

lemma mem_Bottom_VertexSet [grid_simps]:
  "i \<le> nelx m \<Longrightarrow> node_index m i j \<in> set (Bottom_VertexSet m) \<longleftrightarrow> j = 0"
  by (auto simp: Bottom_VertexSet_def node_index_inj)

lemma mem_Top_VertexSet [grid_simps]:
  "i \<le> nelx m \<Longrightarrow> node_index m i j \<in> set (Top_VertexSet m) \<longleftrightarrow> j = nely m"
  by (auto simp: Top_VertexSet_def node_index_inj)

lemma mem_Bottom_VertexSet_flat:
  "n < nnodes m \<Longrightarrow> n \<in> set (Bottom_VertexSet m) \<longleftrightarrow> n div Suc (nelx m) = 0"
  using node_index_surj [of n m] mem_Bottom_VertexSet [of "n mod Suc (nelx m)" m "n div Suc (nelx m)"]
  by simp

lemma mem_Top_VertexSet_flat:
  "n < nnodes m \<Longrightarrow> n \<in> set (Top_VertexSet m) \<longleftrightarrow> n div Suc (nelx m) = nely m"
  using node_index_surj [of n m] mem_Top_VertexSet [of "n mod Suc (nelx m)" m "n div Suc (nelx m)"]
  by simp

lemma walls_in_range:
  "list_all (\<lambda>n. n < nnodes m) (Bottom_VertexSet m) \<and> list_all (\<lambda>n. n < nnodes m) (Top_VertexSet m)"
  by (auto simp: list_all_iff Bottom_VertexSet_def Top_VertexSet_def node_index_bound)

end
