(* ===== verification/Field.thy ===== *)
theory Field
  imports Mesh
begin

text \<open>
  The temperature field of cell 3 (\<^verbatim>\<open>src/newmodel.ipynb\<close>, lines 60--62), its
  boundary values set in cell 5 (lines 86--89), and the Dirichlet condition built in cell 4
  (line 77). A \<^verbatim>\<open>MeshVariable\<close> holds one row of \<open>nodeDofCount\<close> values per mesh
  vertex; its \<^verbatim>\<open>data\<close> array is modelled flat, row after row, so that the value of
  degree of freedom \<open>d\<close> at vertex \<open>n\<close> is at position \<open>n * nodeDofCount + d\<close>.
  \<^verbatim>\<open>add_variable\<close> allocates the array without initialising it: its initial contents
  are a parameter of the model. Indexed assignment \<^verbatim>\<open>data[idx] = v\<close> overwrites the
  rows named by \<open>idx\<close> and raises \<open>IndexError\<close> if one of them is out of range.
\<close>

record mesh_variable =
  var_mesh :: mesh
  nodeDofCount :: nat
  data :: "real list"

definition add_variable :: "mesh \<Rightarrow> nat \<Rightarrow> (nat \<Rightarrow> real) \<Rightarrow> mesh_variable" where
  "add_variable m d garbage =
     \<lparr>var_mesh = m, nodeDofCount = d, data = map garbage [0..<nnodes m * d]\<rparr>"

text \<open>\<^verbatim>\<open>temperatureField.data[:] = v\<close>\<close>

definition set_all :: "mesh_variable \<Rightarrow> real \<Rightarrow> mesh_variable" where
  "set_all f v = f\<lparr>data := map (\<lambda>_. v) (data f)\<rparr>"

text \<open>\<^verbatim>\<open>temperatureField.data[idx] = v\<close>, for an index set \<open>idx\<close> of vertices.\<close>

definition assign_rows :: "nat \<Rightarrow> real list \<Rightarrow> index_set \<Rightarrow> real \<Rightarrow> real list result" where
  "assign_rows d xs idx v =
     (if list_all (\<lambda>n. (n + 1) * d \<le> length xs) idx
      then Inr (map (\<lambda>p. if p div d \<in> set idx then v else xs ! p) [0..<length xs])
      else Inl IndexError)"

definition set_rows :: "mesh_variable \<Rightarrow> index_set \<Rightarrow> real \<Rightarrow> mesh_variable result" where
  "set_rows f idx v =
     bindE (assign_rows (nodeDofCount f) (data f) idx v) (\<lambda>xs. Inr (f\<lparr>data := xs\<rparr>))"

section \<open>Dirichlet conditions (cell 4)\<close>

text \<open>
  A variable is referred to by its address in the notebook's store of objects
  (\<open>var_ref\<close>), since the condition and the solver share the object with the notebook's
  name \<^verbatim>\<open>temperatureField\<close> and see every later write to its data.
  \<^verbatim>\<open>DirichletCondition\<close> takes one index set per degree of freedom and rejects a
  tuple of another length, and an index that is not a vertex of the mesh.
\<close>

type_synonym var_ref = nat

record dirichlet_condition =
  dc_variable :: var_ref
  indexSetsPerDof :: "index_set list"

definition DirichletCondition ::
  "var_ref \<Rightarrow> mesh_variable \<Rightarrow> index_set list \<Rightarrow> dirichlet_condition result" where
  "DirichletCondition r f sets =
     (if length sets \<noteq> nodeDofCount f then Inl (ValueError ''indexSetsPerDof'')
      else if list_all (list_all (\<lambda>n. n < nnodes (var_mesh f))) sets
      then Inr \<lparr>dc_variable = r, indexSetsPerDof = sets\<rparr>
      else Inl IndexError)"

section \<open>Grid fields\<close>

text \<open>
  A scalar field given by its value at each vertex \<open>(i, j)\<close>, laid out in the
  vertex numbering of the mesh, and the value of a scalar field at a vertex.
\<close>

definition grid_field :: "mesh \<Rightarrow> (nat \<Rightarrow> nat \<Rightarrow> real) \<Rightarrow> real list" where
  "grid_field m u = map (\<lambda>n. u (n mod (nelx m + 1)) (n div (nelx m + 1))) [0..<nnodes m]"

definition gval :: "mesh \<Rightarrow> real list \<Rightarrow> nat \<Rightarrow> nat \<Rightarrow> real" where
  "gval m xs i j = xs ! node_index m i j"

section \<open>Lemmas\<close>

lemma length_grid_field [simp]: "length (grid_field m u) = nnodes m"
  by (simp add: grid_field_def)

lemma gval_grid_field [grid_simps]:
  "i \<le> nelx m \<Longrightarrow> j \<le> nely m \<Longrightarrow> gval m (grid_field m u) i j = u i j"
  by (simp add: gval_def grid_field_def node_index_bound node_index_mod node_index_div)

lemma grid_field_gval:
  assumes "length xs = nnodes m"
  shows "grid_field m (gval m xs) = xs"
proof (rule nth_equalityI)
  show "length (grid_field m (gval m xs)) = length xs" using assms by simp
next
  fix n assume "n < length (grid_field m (gval m xs))"
  then have "n < nnodes m" by simp
  then show "grid_field m (gval m xs) ! n = xs ! n"
    using node_index_surj [of n m] by (simp add: grid_field_def gval_def)
qed

lemma grid_field_eqI:
  assumes "length xs = nnodes m" "length ys = nnodes m"
    and "\<And>i j. i \<le> nelx m \<Longrightarrow> j \<le> nely m \<Longrightarrow> gval m xs i j = gval m ys i j"
  shows "xs = ys"
proof -
  have "grid_field m (gval m xs) = grid_field m (gval m ys)"
    unfolding grid_field_def
    using assms(3) node_index_surj by (intro map_cong refl) (metis atLeastLessThan_iff set_upt)
  with assms(1,2) show ?thesis by (simp add: grid_field_gval)
qed

lemma length_data_set_all [simp]: "length (data (set_all f v)) = length (data f)"
  by (simp add: set_all_def)

lemma set_all_data: "data (set_all f v) = replicate (length (data f)) v"
  by (simp add: set_all_def map_replicate_const)

lemma set_all_fields [simp]:
  "var_mesh (set_all f v) = var_mesh f" "nodeDofCount (set_all f v) = nodeDofCount f"
  by (simp_all add: set_all_def)

lemma add_variable_fields [simp]:
  "var_mesh (add_variable m d g) = m" "nodeDofCount (add_variable m d g) = d"
  by (simp_all add: add_variable_def)

lemma length_data_add_variable [simp]: "length (data (add_variable m d g)) = nnodes m * d"
  by (simp add: add_variable_def)

lemma list_all_index_union [simp]:
  "list_all P (index_union a b) \<longleftrightarrow> list_all P a \<and> list_all P b"
  by (auto simp: list_all_iff)

lemma set_rows_dof1:
  assumes "nodeDofCount f = 1" "list_all (\<lambda>n. n < length (data f)) idx"
  shows "set_rows f idx v =
    Inr (f\<lparr>data := map (\<lambda>p. if p \<in> set idx then v else data f ! p) [0..<length (data f)]\<rparr>)"
  using assms by (simp add: set_rows_def assign_rows_def Suc_le_eq)

lemma data_add_variable_zeroed:
  "data (set_all (add_variable m d garbage) v) = replicate (nnodes m * d) v"
  by (simp add: set_all_def add_variable_def map_replicate_const)

lemma set_rows_Inr_fields:
  "set_rows f idx v = Inr f' \<Longrightarrow>
     var_mesh f' = var_mesh f \<and> nodeDofCount f' = nodeDofCount f \<and> length (data f') = length (data f)"
  by (auto simp: set_rows_def assign_rows_def split: if_splits)

lemma set_all_add_variable:
  "set_all (add_variable m d garbage) v =
     \<lparr>var_mesh = m, nodeDofCount = d, data = replicate (nnodes m * d) v\<rparr>"
  by (simp add: set_all_def add_variable_def map_replicate_const)

lemma grid_field_cong:
  assumes "\<And>i j. i \<le> nelx m \<Longrightarrow> j \<le> nely m \<Longrightarrow> u i j = v i j"
  shows "grid_field m u = grid_field m v"
  unfolding grid_field_def
proof (rule map_cong [OF refl])
  fix n assume "n \<in> set [0..<nnodes m]"
  then have "n < nnodes m" by simp
  from node_index_surj [OF this] assms
  show "u (n mod (nelx m + 1)) (n div (nelx m + 1)) = v (n mod (nelx m + 1)) (n div (nelx m + 1))"
    by simp
qed

lemma gval_replicate [simp]:
  "i \<le> nelx m \<Longrightarrow> j \<le> nely m \<Longrightarrow> gval m (replicate (nnodes m) v) i j = v"
  by (simp add: gval_def node_index_bound)

lemma walls_written_in_order:
  assumes "length xs = nnodes m"
  shows "map (\<lambda>p. if p \<in> set (Top_VertexSet m) then b
                 else map (\<lambda>p. if p \<in> set (Bottom_VertexSet m) then a else xs ! p)
                        [0..<nnodes m] ! p) [0..<nnodes m] =
         grid_field m (\<lambda>i j. if j = nely m then b else if j = 0 then a else gval m xs i j)"
proof (rule nth_equalityI)
  fix p assume "p < length (map (\<lambda>p. if p \<in> set (Top_VertexSet m) then b
                 else map (\<lambda>p. if p \<in> set (Bottom_VertexSet m) then a else xs ! p)
                        [0..<nnodes m] ! p) [0..<nnodes m])"
  then have p: "p < nnodes m" by simp
  then have "gval m xs (p mod Suc (nelx m)) (p div Suc (nelx m)) = xs ! p"
    using node_index_surj [OF p] by (simp add: gval_def)
  with p show "map (\<lambda>p. if p \<in> set (Top_VertexSet m) then b
                 else map (\<lambda>p. if p \<in> set (Bottom_VertexSet m) then a else xs ! p)
                        [0..<nnodes m] ! p) [0..<nnodes m] ! p =
        grid_field m (\<lambda>i j. if j = nely m then b else if j = 0 then a else gval m xs i j) ! p"
    by (simp add: grid_field_def mem_Bottom_VertexSet_flat mem_Top_VertexSet_flat)
qed simp

end
