(* ===== verification/Heat.thy ===== *)
theory Heat
  imports Field
begin

text \<open>
  The steady-state heat system of cell 7 (\<^verbatim>\<open>src/newmodel.ipynb\<close>, lines 136--143):
  \<^verbatim>\<open>uw.systems.SteadyStateHeat\<close> with diffusivity \<open>k\<close>, heating \<open>h\<close> (default
  \<open>0\<close>) and the Dirichlet condition of cell 4, and \<^verbatim>\<open>uw.systems.Solver(...).solve()\<close>.
  The solver computes the Galerkin finite-element solution of \<open>-div (k grad T) = h\<close> on the
  Q1 mesh: at every vertex that is not a Dirichlet vertex the assembled row of the stiffness
  matrix applied to the field equals the assembled load; at Dirichlet vertices the field keeps
  the value it had when \<^verbatim>\<open>solve()\<close> was called. Walls without a condition carry the
  natural zero-flux condition.

  \<^item> \<open>kloc\<close> is the element stiffness matrix of a bilinear element of width \<open>dx\<close> and
    height \<open>dy\<close>, the tensor product of the 1-d stiffness \<open>S1 / h\<close> and mass
    \<open>h / 6 * M1\<close> matrices (exact, as underworld's 2 x 2 Gauss rule is on rectangles);
  \<^item> \<open>assemble_row\<close> is the assembly loop over all elements, scattering an element's
    contribution into the row of a vertex that is one of its corners;
  \<^item> \<open>is_solution\<close> is the contract of \<^verbatim>\<open>solve()\<close>, a bool-valued check over all
    vertices.

  The main results: the solution is unique whenever the bottom wall is fixed, \<open>k \<noteq> 0\<close>
  and the elements' aspect ratio is between \<open>1/\<surd>2\<close> and \<open>\<surd>2\<close>
  (\<open>solution_unique\<close>, through a discrete maximum principle: every off-diagonal entry of
  the Q1 stiffness matrix is then non-positive), and with fixed values \<open>a\<close> on the bottom
  and \<open>b\<close> on the top wall and no heating the field linear in the height from \<open>a\<close>
  to \<open>b\<close> is a solution (\<open>linear_profile_solution\<close>), so it is the solution
  (\<open>heat_well_posed\<close>); without heating every solution lies between its least and
  greatest Dirichlet value (\<open>solution_bounded\<close>). With heating, the parabola
  \<open>parabola\<close> is the solution between walls held at 0 (\<open>heated_well_posed\<close>), which
  fixes the sign of the heating term against the notebook's markdown.
\<close>

section \<open>Element matrices and assembly\<close>

definition S1 :: "nat \<Rightarrow> nat \<Rightarrow> real" where
  "S1 a b = (if a = b then 1 else -1)"

definition M1 :: "nat \<Rightarrow> nat \<Rightarrow> real" where
  "M1 a b = (if a = b then 2 else 1)"

definition kloc :: "real \<Rightarrow> real \<Rightarrow> nat \<Rightarrow> nat \<Rightarrow> nat \<Rightarrow> nat \<Rightarrow> real" where
  "kloc dx dy a1 a2 b1 b2 =
     S1 a1 b1 / dx * (dy / 6 * M1 a2 b2) + dx / 6 * M1 a1 b1 * (S1 a2 b2 / dy)"

definition elem_row ::
  "real \<Rightarrow> real \<Rightarrow> (nat \<Rightarrow> nat \<Rightarrow> real) \<Rightarrow> nat \<Rightarrow> nat \<Rightarrow> nat \<Rightarrow> nat \<Rightarrow> real" where
  "elem_row dx dy u ex ey a1 a2 =
     (\<Sum>b1<2. \<Sum>b2<2. kloc dx dy a1 a2 b1 b2 * u (ex + b1) (ey + b2))"

definition assemble_row :: "mesh \<Rightarrow> (nat \<Rightarrow> nat \<Rightarrow> nat \<Rightarrow> nat \<Rightarrow> real) \<Rightarrow> nat \<Rightarrow> nat \<Rightarrow> real" where
  "assemble_row m c i j =
     (\<Sum>ex<nelx m. if ex \<le> i \<and> i \<le> Suc ex then
        (\<Sum>ey<nely m. if ey \<le> j \<and> j \<le> Suc ey then c ex ey (i - ex) (j - ey) else 0)
      else 0)"

definition stiffness_row :: "mesh \<Rightarrow> (nat \<Rightarrow> nat \<Rightarrow> real) \<Rightarrow> nat \<Rightarrow> nat \<Rightarrow> real" where
  "stiffness_row m u = assemble_row m (\<lambda>ex ey a1 a2. elem_row (hx m) (hy m) u ex ey a1 a2)"

text \<open>The load vector of a constant heating \<open>h\<close>: \<open>h\<close> times a quarter of the element area per corner.\<close>

definition load_row :: "mesh \<Rightarrow> real \<Rightarrow> nat \<Rightarrow> nat \<Rightarrow> real" where
  "load_row m h = assemble_row m (\<lambda>_ _ _ _. h * hx m * hy m / 4)"

section \<open>The system and its solver\<close>

record steady_state_heat =
  temperatureField :: var_ref
  fn_diffusivity :: real
  fn_heating :: real
  conditions :: dirichlet_condition

definition SteadyStateHeat ::
  "var_ref \<Rightarrow> mesh_variable \<Rightarrow> real \<Rightarrow> real \<Rightarrow> dirichlet_condition \<Rightarrow> steady_state_heat result" where
  "SteadyStateHeat r f k h cond =
     (if nodeDofCount f \<noteq> 1 then Inl (ValueError ''temperatureField'')
      else Inr \<lparr>temperatureField = r, fn_diffusivity = k, fn_heating = h, conditions = cond\<rparr>)"

text \<open>
  The system installs a Dirichlet condition only if it was built on its own temperature
  field; a condition on another variable is skipped.
\<close>

definition dirichlet_nodes :: "steady_state_heat \<Rightarrow> index_set" where
  "dirichlet_nodes eq =
     (if dc_variable (conditions eq) = temperatureField eq
      then concat (indexSetsPerDof (conditions eq)) else [])"

definition heat_residual :: "mesh \<Rightarrow> real \<Rightarrow> real \<Rightarrow> real list \<Rightarrow> nat \<Rightarrow> nat \<Rightarrow> real" where
  "heat_residual m k h xs i j = k * stiffness_row m (gval m xs) i j - load_row m h i j"

text \<open>A solver maps the mesh, the system and the field before the call to the field after it.\<close>

type_synonym solver = "mesh \<Rightarrow> steady_state_heat \<Rightarrow> real list \<Rightarrow> real list"

text \<open>The contract of \<^verbatim>\<open>solve()\<close>: \<open>xs0\<close> is the field before, \<open>xs\<close> after the call.\<close>

definition is_solution :: "mesh \<Rightarrow> steady_state_heat \<Rightarrow> real list \<Rightarrow> real list \<Rightarrow> bool" where
  "is_solution m eq xs0 xs \<longleftrightarrow> length xs = length xs0 \<and>
     list_all (\<lambda>n. if n \<in> set (dirichlet_nodes eq) then xs ! n = xs0 ! n
                   else heat_residual m (fn_diffusivity eq) (fn_heating eq) xs
                          (n mod (nelx m + 1)) (n div (nelx m + 1)) = 0)
       [0..<length xs0]"

text \<open>
  The closed form of the heated problem: with diffusivity \<open>k\<close>, heating \<open>h\<close> and the field
  held at 0 on the bottom and top walls, the temperature at row \<open>j\<close> is
  \<open>h / (2 k) * y * (H - y)\<close> with \<open>y = j * hy\<close> (an analysis definition, not a translation
  of code).
\<close>

definition parabola :: "mesh \<Rightarrow> real \<Rightarrow> real \<Rightarrow> nat \<Rightarrow> real" where
  "parabola m k h j = h * (hy m)\<^sup>2 / (2 * k) * real j * (real (nely m) - real j)"

section \<open>Assembly lemmas\<close>

lemma assemble_row_window:
  assumes "i \<le> nelx m" "j \<le> nely m"
  shows "assemble_row m c i j =
    (if 0 < i then (if 0 < j then c (i - 1) (j - 1) 1 1 else 0)
                 + (if j < nely m then c (i - 1) j 1 0 else 0) else 0) +
    (if i < nelx m then (if 0 < j then c i (j - 1) 0 1 else 0)
                      + (if j < nely m then c i j 0 0 else 0) else 0)"
proof -
  have inner: "(\<Sum>ey<nely m. if ey \<le> j \<and> j \<le> Suc ey then c ex ey a (j - ey) else 0) =
     (if 0 < j then c ex (j - 1) a 1 else 0) + (if j < nely m then c ex j a 0 else 0)" for ex a
  proof -
    have "0 < j \<Longrightarrow> j - (j - 1) = 1" by simp
    then show ?thesis using sum_window [OF assms(2), of "\<lambda>ey. c ex ey a (j - ey)"] by simp
  qed
  have "0 < i \<Longrightarrow> i - (i - 1) = 1" by simp
  then show ?thesis
    unfolding assemble_row_def
    using sum_window [OF assms(1), of "\<lambda>ex. \<Sum>ey<nely m. if ey \<le> j \<and> j \<le> Suc ey then c ex ey (i - ex) (j - ey) else 0"]
    by (simp add: inner)
qed

lemma elem_row_stencil:
  assumes "dx \<noteq> 0" "dy \<noteq> 0" "a1 < 2" "a2 < 2"
  shows "elem_row dx dy u ex ey a1 a2 =
     (dx / (6 * dy) - dy / (3 * dx)) * (u (ex + 1 - a1) (ey + a2) - u (ex + a1) (ey + a2)) +
     (dy / (6 * dx) - dx / (3 * dy)) * (u (ex + a1) (ey + 1 - a2) - u (ex + a1) (ey + a2)) -
     (dy / (6 * dx) + dx / (6 * dy)) * (u (ex + 1 - a1) (ey + 1 - a2) - u (ex + a1) (ey + a2))"
proof -
  consider "a1 = 0" "a2 = 0" | "a1 = 0" "a2 = 1" | "a1 = 1" "a2 = 0" | "a1 = 1" "a2 = 1"
    using assms(3,4) by linarith
  then show ?thesis
    by cases (simp_all add: elem_row_def kloc_def S1_def M1_def field_simps assms(1,2))
qed

section \<open>The discrete maximum principle\<close>

lemma stencil_sign:
  fixes cx cy cd ux uy ud ua :: real
  assumes "cx \<le> 0" "cy \<le> 0" "0 < cd" "ux \<le> ua" "uy \<le> ua" "ud \<le> ua"
  shows "0 \<le> cx * (ux - ua) + cy * (uy - ua) - cd * (ud - ua) \<and>
         (cx * (ux - ua) + cy * (uy - ua) - cd * (ud - ua) = 0 \<longrightarrow> ud = ua)"
proof -
  have t1: "0 \<le> cx * (ux - ua)" using assms by (intro mult_nonpos_nonpos) simp_all
  have t2: "0 \<le> cy * (uy - ua)" using assms by (intro mult_nonpos_nonpos) simp_all
  have t3: "cd * (ud - ua) \<le> 0" using assms by (intro mult_nonneg_nonpos) simp_all
  have "cx * (ux - ua) + cy * (uy - ua) - cd * (ud - ua) = 0 \<Longrightarrow> ud = ua"
  proof -
    assume "cx * (ux - ua) + cy * (uy - ua) - cd * (ud - ua) = 0"
    with t1 t2 t3 have "cd * (ud - ua) = 0" by linarith
    with assms(3) show "ud = ua" by simp
  qed
  with t1 t2 t3 show ?thesis by linarith
qed

lemma aspect_coeff_nonpos:
  fixes dx dy :: real
  assumes "0 < dx" "0 < dy" "dx\<^sup>2 \<le> 2 * dy\<^sup>2"
  shows "dx / (6 * dy) - dy / (3 * dx) \<le> 0"
proof -
  have "dx / (6 * dy) - dy / (3 * dx) = (dx\<^sup>2 - 2 * dy\<^sup>2) / (6 * dx * dy)"
    using assms(1,2) by (simp add: field_simps power2_eq_square)
  also have "\<dots> \<le> 0" using assms by (intro divide_nonpos_pos) simp_all
  finally show ?thesis .
qed

lemma elem_row_at_max:
  assumes "0 < dx" "0 < dy" "dx\<^sup>2 \<le> 2 * dy\<^sup>2" "dy\<^sup>2 \<le> 2 * dx\<^sup>2" "a1 < 2" "a2 < 2"
    and max: "\<And>b1 b2. b1 < 2 \<Longrightarrow> b2 < 2 \<Longrightarrow> u (ex + b1) (ey + b2) \<le> u (ex + a1) (ey + a2)"
  shows "0 \<le> elem_row dx dy u ex ey a1 a2 \<and>
         (elem_row dx dy u ex ey a1 a2 = 0 \<longrightarrow> u (ex + 1 - a1) (ey + 1 - a2) = u (ex + a1) (ey + a2))"
proof -
  have "1 - a1 < 2" "1 - a2 < 2" by simp_all
  then have "u (ex + 1 - a1) (ey + a2) \<le> u (ex + a1) (ey + a2)"
    "u (ex + a1) (ey + 1 - a2) \<le> u (ex + a1) (ey + a2)"
    "u (ex + 1 - a1) (ey + 1 - a2) \<le> u (ex + a1) (ey + a2)"
    using max [of "1 - a1" a2] max [of a1 "1 - a2"] max [of "1 - a1" "1 - a2"] assms(5,6)
    by simp_all
  moreover have "dx / (6 * dy) - dy / (3 * dx) \<le> 0" "dy / (6 * dx) - dx / (3 * dy) \<le> 0"
    using aspect_coeff_nonpos assms(1-4) by simp_all
  moreover have "0 < dy / (6 * dx) + dx / (6 * dy)"
    using assms(1,2) by (intro add_pos_pos divide_pos_pos) simp_all
  ultimately show ?thesis
    using assms(1,2,5,6) by (simp only: elem_row_stencil) (rule stencil_sign; simp)
qed

lemma stiffness_row_linear_profile:
  assumes "0 < hx m" "0 < hy m" "i \<le> nelx m" "0 < j" "j < nely m"
  shows "stiffness_row m (\<lambda>i j. a + b * real j) i j = 0"
proof -
  have j1: "real (j - 1) = real j - 1" using assms(4) by simp
  show ?thesis
    using assms
    by (simp add: stiffness_row_def assemble_row_window elem_row_stencil j1 algebra_simps)
qed

lemma stiffness_row_at_max:
  assumes mesh: "0 < nelx m" "0 < hx m" "0 < hy m" "(hx m)\<^sup>2 \<le> 2 * (hy m)\<^sup>2" "(hy m)\<^sup>2 \<le> 2 * (hx m)\<^sup>2"
    and node: "i \<le> nelx m" "0 < j" "j \<le> nely m"
    and max: "\<And>i' j'. i' \<le> nelx m \<Longrightarrow> j' \<le> nely m \<Longrightarrow> u i' j' \<le> u i j"
    and row: "stiffness_row m u i j \<le> 0"
  shows "\<exists>i' \<le> nelx m. u i' (j - 1) = u i j"
proof -
  let ?E = "\<lambda>ex ey a1 a2. elem_row (hx m) (hy m) u ex ey a1 a2"
  have nn: "0 \<le> ?E ex ey a1 a2 \<and> (?E ex ey a1 a2 = 0 \<longrightarrow> u (ex + 1 - a1) (ey + 1 - a2) = u i j)"
    if "ex < nelx m" "ey < nely m" "a1 < 2" "a2 < 2" "ex + a1 = i" "ey + a2 = j" for ex ey a1 a2
  proof -
    have "u (ex + b1) (ey + b2) \<le> u (ex + a1) (ey + a2)" if "b1 < 2" "b2 < 2" for b1 b2
      using max [of "ex + b1" "ey + b2"] that \<open>ex < nelx m\<close> \<open>ey < nely m\<close>
        \<open>ex + a1 = i\<close> \<open>ey + a2 = j\<close> by simp
    with mesh(2-5) that(3-6) show ?thesis using elem_row_at_max [of "hx m" "hy m" a1 a2 u ex ey] by simp
  qed
  have t11: "0 < i \<Longrightarrow> 0 \<le> ?E (i - 1) (j - 1) 1 1 \<and> (?E (i - 1) (j - 1) 1 1 = 0 \<longrightarrow> u (i - 1) (j - 1) = u i j)"
    using nn [of "i - 1" "j - 1" 1 1] node by simp
  have t10: "0 < i \<Longrightarrow> j < nely m \<Longrightarrow> 0 \<le> ?E (i - 1) j 1 0"
    using nn [of "i - 1" j 1 0] node by simp
  have t01: "i < nelx m \<Longrightarrow> 0 \<le> ?E i (j - 1) 0 1 \<and> (?E i (j - 1) 0 1 = 0 \<longrightarrow> u (i + 1) (j - 1) = u i j)"
    using nn [of i "j - 1" 0 1] node by simp
  have t00: "i < nelx m \<Longrightarrow> j < nely m \<Longrightarrow> 0 \<le> ?E i j 0 0"
    using nn [of i j 0 0] node by simp
  have sum: "(if 0 < i then (if 0 < j then ?E (i - 1) (j - 1) 1 1 else 0)
                             + (if j < nely m then ?E (i - 1) j 1 0 else 0) else 0)
           + (if i < nelx m then (if 0 < j then ?E i (j - 1) 0 1 else 0)
                             + (if j < nely m then ?E i j 0 0 else 0) else 0) \<le> 0"
    using row unfolding stiffness_row_def assemble_row_window [OF node(1) node(3)] .
  show ?thesis
  proof (cases "0 < i")
    case True
    then have "?E (i - 1) (j - 1) 1 1 = 0"
      using sum t11 t10 t01 t00 node(2) by (cases "j < nely m"; cases "i < nelx m") simp_all
    with True t11 node(1) show ?thesis by (intro exI [of _ "i - 1"]) simp
  next
    case False
    with mesh(1) have "i < nelx m" by simp
    with False have "?E i (j - 1) 0 1 = 0"
      using sum t01 t00 node(2) by (cases "j < nely m") simp_all
    with \<open>i < nelx m\<close> t01 show ?thesis by (intro exI [of _ "i + 1"]) simp
  qed
qed

lemma max_principle:
  assumes mesh: "0 < nelx m" "0 < hx m" "0 < hy m" "(hx m)\<^sup>2 \<le> 2 * (hy m)\<^sup>2" "(hy m)\<^sup>2 \<le> 2 * (hx m)\<^sup>2"
    and fixed: "\<And>i j. i \<le> nelx m \<Longrightarrow> j \<le> nely m \<Longrightarrow> \<not> free i j \<Longrightarrow> u i j \<le> 0"
    and free_above: "\<And>i j. free i j \<Longrightarrow> 0 < j"
    and harmonic: "\<And>i j. i \<le> nelx m \<Longrightarrow> j \<le> nely m \<Longrightarrow> free i j \<Longrightarrow> stiffness_row m u i j \<le> 0"
    and node: "i \<le> nelx m" "j \<le> nely m"
  shows "u i j \<le> 0"
proof -
  let ?V = "(\<lambda>(i, j). u i j) ` ({..nelx m} \<times> {..nely m})"
  define M where "M = Max ?V"
  have fin: "finite ?V" by simp
  have ub: "u i' j' \<le> M" if "i' \<le> nelx m" "j' \<le> nely m" for i' j'
    unfolding M_def using that by (intro Max_ge [OF fin]) auto
  obtain i0 j0 where p: "i0 \<le> nelx m" "j0 \<le> nely m" "u i0 j0 = M"
    using Max_in [OF fin] unfolding M_def by fastforce
  have reach: "\<forall>i. i \<le> nelx m \<longrightarrow> u i j = M \<longrightarrow> M \<le> 0" if "j \<le> nely m" for j
    using that
  proof (induction j rule: less_induct)
    case (less j)
    show ?case
    proof (intro allI impI)
      fix i assume i: "i \<le> nelx m" and eq: "u i j = M"
      show "M \<le> 0"
      proof (cases "free i j")
        case False
        with fixed i less.prems eq show ?thesis by fastforce
      next
        case True
        then have j: "0 < j" by (rule free_above)
        have "\<exists>i' \<le> nelx m. u i' (j - 1) = u i j"
          using ub eq harmonic [OF i less.prems True]
          by (intro stiffness_row_at_max [OF mesh i j less.prems]) simp_all
        then obtain i' where "i' \<le> nelx m" "u i' (j - 1) = M" using eq by auto
        with less.IH [of "j - 1"] j less.prems show ?thesis by simp
      qed
    qed
  qed
  have "M \<le> 0" using reach [OF p(2)] p(1,3) by blast
  with ub node show ?thesis by force
qed

section \<open>Existence and uniqueness of the solution\<close>

lemma assemble_row_cong:
  assumes "\<And>ex ey a1 a2. ex < nelx m \<Longrightarrow> ey < nely m \<Longrightarrow> c ex ey a1 a2 = c' ex ey a1 a2"
  shows "assemble_row m c i j = assemble_row m c' i j"
  unfolding assemble_row_def using assms by (intro sum.cong refl if_cong) simp_all

lemma elem_row_cong:
  assumes "\<And>b1 b2. b1 < 2 \<Longrightarrow> b2 < 2 \<Longrightarrow> u (ex + b1) (ey + b2) = v (ex + b1) (ey + b2)"
  shows "elem_row dx dy u ex ey a1 a2 = elem_row dx dy v ex ey a1 a2"
  using assms [of 0 0] assms [of 0 1] assms [of 1 0] assms [of 1 1] by (simp add: elem_row_def)

lemma stiffness_row_cong:
  assumes "\<And>i j. i \<le> nelx m \<Longrightarrow> j \<le> nely m \<Longrightarrow> u i j = v i j"
  shows "stiffness_row m u i j = stiffness_row m v i j"
  unfolding stiffness_row_def using assms by (intro assemble_row_cong elem_row_cong) simp

lemma stiffness_row_diff:
  assumes "i \<le> nelx m" "j \<le> nely m"
  shows "stiffness_row m (\<lambda>i j. u i j - v i j) i j = stiffness_row m u i j - stiffness_row m v i j"
  using assms by (simp add: stiffness_row_def assemble_row_window elem_row_def algebra_simps)

lemma load_row_zero [simp]: "load_row m 0 i j = 0"
  by (simp add: load_row_def assemble_row_def cong: if_cong)

lemma is_solution_grid:
  assumes "length xs0 = nnodes m"
  shows "is_solution m eq xs0 xs \<longleftrightarrow> length xs = nnodes m \<and>
    (\<forall>i \<le> nelx m. \<forall>j \<le> nely m.
       if node_index m i j \<in> set (dirichlet_nodes eq) then gval m xs i j = gval m xs0 i j
       else heat_residual m (fn_diffusivity eq) (fn_heating eq) xs i j = 0)"
proof -
  have "list_all P [0..<nnodes m] \<longleftrightarrow> (\<forall>i \<le> nelx m. \<forall>j \<le> nely m. P (node_index m i j))" for P
  proof
    assume "list_all P [0..<nnodes m]"
    then show "\<forall>i \<le> nelx m. \<forall>j \<le> nely m. P (node_index m i j)"
      by (auto simp: list_all_iff node_index_bound)
  next
    assume all: "\<forall>i \<le> nelx m. \<forall>j \<le> nely m. P (node_index m i j)"
    show "list_all P [0..<nnodes m]"
    proof (unfold list_all_iff, intro ballI)
      fix n assume "n \<in> set [0..<nnodes m]"
      then have "n < nnodes m" by simp
      from node_index_surj [OF this] all show "P n" by metis
    qed
  qed
  then show ?thesis
    using assms by (simp add: is_solution_def gval_def node_index_mod node_index_div)
qed

lemma load_row_scale: "load_row m h i j = h * load_row m 1 i j"
  unfolding load_row_def assemble_row_def
  by (simp add: sum_distrib_left if_distrib [of "(*) h"] mult.assoc cong: if_cong)

lemma load_row_nonneg: "0 < hx m \<Longrightarrow> 0 < hy m \<Longrightarrow> 0 \<le> load_row m 1 i j"
  unfolding load_row_def assemble_row_def by (auto intro!: sum_nonneg)

text \<open>
  The comparison principle: with the same Dirichlet vertices (the bottom wall among them), the
  same diffusivity, less heating (in the direction of \<open>k\<close>) and smaller Dirichlet values,
  the solution is smaller everywhere.
\<close>

lemma comparison_principle:
  assumes mesh: "0 < nelx m" "0 < hx m" "0 < hy m"
      "(hx m)\<^sup>2 \<le> 2 * (hy m)\<^sup>2" "(hy m)\<^sup>2 \<le> 2 * (hx m)\<^sup>2"
    and k: "fn_diffusivity eq2 = fn_diffusivity eq1" "fn_diffusivity eq1 \<noteq> 0"
    and heat: "0 \<le> (fn_heating eq2 - fn_heating eq1) * fn_diffusivity eq1"
    and nodes: "dirichlet_nodes eq2 = dirichlet_nodes eq1"
    and bottom: "set (Bottom_VertexSet m) \<subseteq> set (dirichlet_nodes eq1)"
    and len: "length xs01 = nnodes m" "length xs02 = nnodes m"
    and below: "\<And>i j. i \<le> nelx m \<Longrightarrow> j \<le> nely m \<Longrightarrow>
                  node_index m i j \<in> set (dirichlet_nodes eq1) \<Longrightarrow> gval m xs01 i j \<le> gval m xs02 i j"
    and sol1: "is_solution m eq1 xs01 xs1" and sol2: "is_solution m eq2 xs02 xs2"
    and ij: "i \<le> nelx m" "j \<le> nely m"
  shows "gval m xs1 i j \<le> gval m xs2 i j"
proof -
  let ?k = "fn_diffusivity eq1" and ?dn = "set (dirichlet_nodes eq1)"
  let ?free = "\<lambda>i j. i \<le> nelx m \<and> node_index m i j \<notin> ?dn"
  have g1: "\<forall>i \<le> nelx m. \<forall>j \<le> nely m.
     if node_index m i j \<in> ?dn then gval m xs1 i j = gval m xs01 i j
     else heat_residual m ?k (fn_heating eq1) xs1 i j = 0"
    using sol1 by (simp add: is_solution_grid [OF len(1)])
  have "\<forall>i \<le> nelx m. \<forall>j \<le> nely m.
     if node_index m i j \<in> set (dirichlet_nodes eq2) then gval m xs2 i j = gval m xs02 i j
     else heat_residual m (fn_diffusivity eq2) (fn_heating eq2) xs2 i j = 0"
    using sol2 by (simp add: is_solution_grid [OF len(2)])
  note g2 = this [unfolded nodes k(1)]
  have fixed: "gval m xs1 i j - gval m xs2 i j \<le> 0"
    if "i \<le> nelx m" "j \<le> nely m" "\<not> ?free i j" for i j
    using g1 g2 that below [of i j] by force
  have above: "0 < j" if "?free i j" for i j
    using that bottom mem_Bottom_VertexSet [of i m j] by (cases j) auto
  have sub: "stiffness_row m (\<lambda>i j. gval m xs1 i j - gval m xs2 i j) i j \<le> 0"
    if "i \<le> nelx m" "j \<le> nely m" "?free i j" for i j
  proof -
    let ?L = "load_row m 1 i j" and ?r = "stiffness_row m (\<lambda>i j. gval m xs1 i j - gval m xs2 i j) i j"
    have "heat_residual m ?k (fn_heating eq1) xs1 i j = 0" "heat_residual m ?k (fn_heating eq2) xs2 i j = 0"
      using g1 g2 that by force+
    then have eq: "?k * ?r = - ((fn_heating eq2 - fn_heating eq1) * ?L)"
      using that(1,2) by (simp add: heat_residual_def stiffness_row_diff load_row_scale [of m "fn_heating eq1"]
        load_row_scale [of m "fn_heating eq2"] algebra_simps)
    have L: "0 \<le> ?L" using mesh(2,3) by (rule load_row_nonneg)
    have "?k * (?k * ?r) \<le> 0"
      using mult_nonneg_nonneg [OF heat L] by (simp only: eq) (simp add: algebra_simps)
    then have "?k * ?k * ?r \<le> 0" by (simp add: mult.assoc)
    moreover have "0 < ?k * ?k" using k(2) by (auto simp: zero_less_mult_iff linorder_neq_iff)
    ultimately show ?thesis using mult_le_cancel_left_pos [of "?k * ?k" ?r 0] by simp
  qed
  have "gval m xs1 i j - gval m xs2 i j \<le> 0" using max_principle [OF mesh fixed above sub ij] .
  then show ?thesis by simp
qed

lemma solutions_agree:
  assumes mesh: "0 < nelx m" "0 < hx m" "0 < hy m"
      "(hx m)\<^sup>2 \<le> 2 * (hy m)\<^sup>2" "(hy m)\<^sup>2 \<le> 2 * (hx m)\<^sup>2"
    and k: "fn_diffusivity eq \<noteq> 0"
    and bottom: "set (Bottom_VertexSet m) \<subseteq> set (dirichlet_nodes eq)"
    and len: "length xs0 = nnodes m"
    and sol1: "is_solution m eq xs0 xs1" and sol2: "is_solution m eq xs0 xs2"
  shows "length xs1 = nnodes m \<and> length xs2 = nnodes m \<and>
         (\<forall>i \<le> nelx m. \<forall>j \<le> nely m. gval m xs1 i j = gval m xs2 i j)"
proof (intro conjI allI impI)
  show "length xs1 = nnodes m" "length xs2 = nnodes m"
    using sol1 sol2 len by (simp_all add: is_solution_def)
  fix i j assume ij: "i \<le> nelx m" "j \<le> nely m"
  have "gval m xs1 i j \<le> gval m xs2 i j"
    by (rule comparison_principle [OF mesh _ k _ _ bottom len len _ sol1 sol2 ij]) simp_all
  moreover have "gval m xs2 i j \<le> gval m xs1 i j"
    by (rule comparison_principle [OF mesh _ k _ _ bottom len len _ sol2 sol1 ij]) simp_all
  ultimately show "gval m xs1 i j = gval m xs2 i j" by simp
qed

text \<open>
  C3. The problem cell 7 poses has at most one solution: on a mesh whose elements are not
  too elongated (each side at most \<open>sqrt 2\<close> times the other), with a nonzero
  diffusivity and Dirichlet values on at least the bottom wall, two fields that both meet
  the solver's contract are equal.
\<close>

theorem solution_unique:
  assumes mesh: "0 < nelx m" "0 < hx m" "0 < hy m"
      "(hx m)\<^sup>2 \<le> 2 * (hy m)\<^sup>2" "(hy m)\<^sup>2 \<le> 2 * (hx m)\<^sup>2"
    and k: "fn_diffusivity eq \<noteq> 0"
    and bottom: "set (Bottom_VertexSet m) \<subseteq> set (dirichlet_nodes eq)"
    and len: "length xs0 = nnodes m"
    and sol1: "is_solution m eq xs0 xs1" and sol2: "is_solution m eq xs0 xs2"
  shows "xs1 = xs2"
  using solutions_agree [OF mesh k bottom len sol1 sol2] by (blast intro: grid_field_eqI)

theorem linear_profile_solution:
  assumes mesh: "0 < nely m" "0 < hx m" "0 < hy m"
    and h: "fn_heating eq = 0"
    and walls: "set (dirichlet_nodes eq) = set (Bottom_VertexSet m) \<union> set (Top_VertexSet m)"
    and len: "length xs0 = nnodes m"
    and bot: "\<And>i. i \<le> nelx m \<Longrightarrow> gval m xs0 i 0 = a"
    and top: "\<And>i. i \<le> nelx m \<Longrightarrow> gval m xs0 i (nely m) = b"
  shows "is_solution m eq xs0 (grid_field m (\<lambda>i j. a + (b - a) / real (nely m) * real j))"
proof -
  let ?p = "\<lambda>i j. a + (b - a) / real (nely m) * real j"
  have "if node_index m i j \<in> set (dirichlet_nodes eq)
          then gval m (grid_field m ?p) i j = gval m xs0 i j
          else heat_residual m (fn_diffusivity eq) (fn_heating eq) (grid_field m ?p) i j = 0"
    if ij: "i \<le> nelx m" "j \<le> nely m" for i j
  proof (cases "j = 0 \<or> j = nely m")
    case True
    with ij walls mesh(1) bot top show ?thesis
      by (auto simp: mem_Bottom_VertexSet mem_Top_VertexSet gval_grid_field)
  next
    case False
    with ij have inner: "0 < j" "j < nely m" by auto
    have "stiffness_row m (gval m (grid_field m ?p)) i j = stiffness_row m ?p i j"
      by (rule stiffness_row_cong) (simp add: gval_grid_field)
    also have "\<dots> = 0" using stiffness_row_linear_profile [OF mesh(2,3) ij(1) inner] .
    finally show ?thesis
      using False ij walls h by (simp add: mem_Bottom_VertexSet mem_Top_VertexSet heat_residual_def)
  qed
  moreover have "length (grid_field m ?p) = nnodes m" by simp
  ultimately show ?thesis unfolding is_solution_grid [OF len] by blast
qed

text \<open>
  C4. With no heating and Dirichlet values \<open>a\<close> on the bottom wall and \<open>b\<close> on the top
  wall (the set-up of cells 4 and 5), the solver's contract has exactly one solution: the
  linear profile from \<open>a\<close> to \<open>b\<close> in the vertical coordinate.
\<close>

theorem heat_well_posed:
  assumes mesh: "0 < nelx m" "0 < nely m" "0 < hx m" "0 < hy m"
      "(hx m)\<^sup>2 \<le> 2 * (hy m)\<^sup>2" "(hy m)\<^sup>2 \<le> 2 * (hx m)\<^sup>2"
    and k: "fn_diffusivity eq \<noteq> 0"
    and h: "fn_heating eq = 0"
    and walls: "set (dirichlet_nodes eq) = set (Bottom_VertexSet m) \<union> set (Top_VertexSet m)"
    and len: "length xs0 = nnodes m"
    and bot: "\<And>i. i \<le> nelx m \<Longrightarrow> gval m xs0 i 0 = a"
    and top: "\<And>i. i \<le> nelx m \<Longrightarrow> gval m xs0 i (nely m) = b"
  shows "is_solution m eq xs0 xs \<longleftrightarrow>
         xs = grid_field m (\<lambda>i j. a + (b - a) / real (nely m) * real j)"
proof
  let ?p = "grid_field m (\<lambda>i j. a + (b - a) / real (nely m) * real j)"
  have lin: "is_solution m eq xs0 ?p"
    using linear_profile_solution [OF mesh(2,3,4) h walls len bot top] .
  have bottom: "set (Bottom_VertexSet m) \<subseteq> set (dirichlet_nodes eq)" using walls by simp
  assume sol: "is_solution m eq xs0 xs"
  from solutions_agree [OF mesh(1,3-6) k bottom len sol lin] show "xs = ?p"
    by (blast intro: grid_field_eqI)
next
  assume "xs = grid_field m (\<lambda>i j. a + (b - a) / real (nely m) * real j)"
  then show "is_solution m eq xs0 xs"
    using linear_profile_solution [OF mesh(2,3,4) h walls len bot top] by simp
qed

lemma stiffness_row_const:
  assumes "0 < hx m" "0 < hy m" "i \<le> nelx m" "j \<le> nely m"
  shows "stiffness_row m (\<lambda>i j. c) i j = 0"
  using assms by (simp add: stiffness_row_def assemble_row_window elem_row_stencil)

lemma constant_solution:
  assumes "0 < hx m" "0 < hy m" "fn_heating eq = 0" "length xs0 = nnodes m"
    and "\<And>i j. i \<le> nelx m \<Longrightarrow> j \<le> nely m \<Longrightarrow>
           node_index m i j \<in> set (dirichlet_nodes eq) \<Longrightarrow> gval m xs0 i j = c"
  shows "is_solution m eq xs0 (replicate (nnodes m) c)"
proof -
  have "heat_residual m (fn_diffusivity eq) (fn_heating eq) (replicate (nnodes m) c) i j = 0"
    if "i \<le> nelx m" "j \<le> nely m" for i j
  proof -
    have "stiffness_row m (gval m (replicate (nnodes m) c)) i j = stiffness_row m (\<lambda>i j. c) i j"
      by (rule stiffness_row_cong) simp
    then show ?thesis using assms that by (simp add: heat_residual_def stiffness_row_const)
  qed
  moreover have "node_index m i j \<in> set (dirichlet_nodes eq) \<Longrightarrow>
                 gval m (replicate (nnodes m) c) i j = gval m xs0 i j"
    if "i \<le> nelx m" "j \<le> nely m" for i j
    using assms(5) that by simp
  ultimately show ?thesis using assms(4) by (simp add: is_solution_grid)
qed

lemma list_all_grid:
  assumes len: "length xs = nnodes m"
    and grid: "\<And>i j. i \<le> nelx m \<Longrightarrow> j \<le> nely m \<Longrightarrow> P (gval m xs i j)"
  shows "list_all P xs"
proof (unfold list_all_iff, intro ballI)
  fix v assume "v \<in> set xs"
  then obtain n where n: "n < length xs" "v = xs ! n" by (auto simp: in_set_conv_nth)
  with len have "n < nnodes m" by simp
  from node_index_surj [OF this] grid [of "n mod (nelx m + 1)" "n div (nelx m + 1)"] n
  show "P v" by (simp add: gval_def)
qed

text \<open>
  C5. Discrete maximum principle: with no heating, every value of a solution lies between the
  least and the greatest of the Dirichlet values the field held when the system was built.
\<close>

theorem solution_bounded:
  assumes mesh: "0 < nelx m" "0 < hx m" "0 < hy m"
      "(hx m)\<^sup>2 \<le> 2 * (hy m)\<^sup>2" "(hy m)\<^sup>2 \<le> 2 * (hx m)\<^sup>2"
    and k: "fn_diffusivity eq \<noteq> 0"
    and h: "fn_heating eq = 0"
    and bottom: "set (Bottom_VertexSet m) \<subseteq> set (dirichlet_nodes eq)"
    and len: "length xs0 = nnodes m"
    and bounds: "list_all (\<lambda>n. lo \<le> xs0 ! n \<and> xs0 ! n \<le> hi) (dirichlet_nodes eq)"
    and sol: "is_solution m eq xs0 xs"
  shows "list_all (\<lambda>v. lo \<le> v \<and> v \<le> hi) xs"
proof -
  have lenr: "length (replicate (nnodes m) c) = nnodes m" for c by simp
  have in_range: "i \<le> nelx m \<Longrightarrow> j \<le> nely m \<Longrightarrow> node_index m i j < nnodes m" for i j
    by (rule node_index_bound)
  have dn: "node_index m i j \<in> set (dirichlet_nodes eq) \<Longrightarrow>
            lo \<le> gval m xs0 i j \<and> gval m xs0 i j \<le> hi" for i j
    using bounds by (simp add: list_all_iff gval_def)
  have grid: "lo \<le> gval m xs i j \<and> gval m xs i j \<le> hi" if ij: "i \<le> nelx m" "j \<le> nely m" for i j
  proof
    show "gval m xs i j \<le> hi"
      using comparison_principle [OF mesh _ k _ _ bottom len lenr _ sol
          constant_solution [OF mesh(2,3) h lenr, where c = hi] ij]
        dn ij by (simp add: in_range gval_def)
    show "lo \<le> gval m xs i j"
      using comparison_principle [OF mesh _ k _ _ bottom lenr len _
          constant_solution [OF mesh(2,3) h lenr, where c = lo] sol ij]
        dn ij by (simp add: in_range gval_def)
  qed
  have lenx: "length xs = nnodes m" using sol len by (simp add: is_solution_def)
  from lenx grid show ?thesis by (rule list_all_grid)
qed

section \<open>Heating\<close>

text \<open>
  For a field that depends on the row alone the Q1 stencil is a second difference in \<open>j\<close>,
  weighted by the number of element columns that meet the vertex; the load row carries the
  same weight.
\<close>

lemma stiffness_row_y_profile:
  assumes "0 < hx m" "0 < hy m" "i \<le> nelx m" "0 < j" "j < nely m"
  shows "stiffness_row m (\<lambda>i j. f j) i j =
    ((if 0 < i then 1 else 0) + (if i < nelx m then 1 else 0)) * (hx m / (2 * hy m)) *
    (2 * f j - f (j - 1) - f (Suc j))"
  using assms
  by (simp add: stiffness_row_def assemble_row_window elem_row_stencil field_simps)

lemma load_row_y_interior:
  assumes "i \<le> nelx m" "0 < j" "j < nely m"
  shows "load_row m h i j =
    ((if 0 < i then 1 else 0) + (if i < nelx m then 1 else 0)) * (h * hx m * hy m / 2)"
  using assms
  by (simp add: load_row_def assemble_row_window field_simps)

lemma parabola_second_difference:
  assumes "0 < j" "k \<noteq> 0"
  shows "2 * parabola m k h j - parabola m k h (j - 1) - parabola m k h (Suc j) =
         h * (hy m)\<^sup>2 / k"
proof -
  have "real (j - 1) = real j - 1" using assms by (simp add: of_nat_diff)
  then show ?thesis using assms(2) by (simp add: parabola_def field_simps power2_eq_square)
qed

lemma parabola_solution:
  assumes mesh: "0 < nely m" "0 < hx m" "0 < hy m"
    and k: "fn_diffusivity eq \<noteq> 0"
    and walls: "set (dirichlet_nodes eq) = set (Bottom_VertexSet m) \<union> set (Top_VertexSet m)"
    and len: "length xs0 = nnodes m"
    and bot: "\<And>i. i \<le> nelx m \<Longrightarrow> gval m xs0 i 0 = 0"
    and top: "\<And>i. i \<le> nelx m \<Longrightarrow> gval m xs0 i (nely m) = 0"
  shows "is_solution m eq xs0
           (grid_field m (\<lambda>i j. parabola m (fn_diffusivity eq) (fn_heating eq) j))"
proof -
  let ?f = "parabola m (fn_diffusivity eq) (fn_heating eq)"
  let ?p = "\<lambda>i j. ?f j"
  have "if node_index m i j \<in> set (dirichlet_nodes eq)
          then gval m (grid_field m ?p) i j = gval m xs0 i j
          else heat_residual m (fn_diffusivity eq) (fn_heating eq) (grid_field m ?p) i j = 0"
    if ij: "i \<le> nelx m" "j \<le> nely m" for i j
  proof (cases "j = 0 \<or> j = nely m")
    case True
    with ij walls mesh(1) bot top show ?thesis
      by (auto simp: mem_Bottom_VertexSet mem_Top_VertexSet gval_grid_field parabola_def)
  next
    case False
    with ij have inner: "0 < j" "j < nely m" by auto
    let ?c = "(if 0 < i then 1 else 0) + (if i < nelx m then 1 else (0::real))"
    have "stiffness_row m (gval m (grid_field m ?p)) i j = stiffness_row m ?p i j"
      by (rule stiffness_row_cong) (simp add: gval_grid_field)
    also have "\<dots> = ?c * (hx m / (2 * hy m)) * (fn_heating eq * (hy m)\<^sup>2 / fn_diffusivity eq)"
      using stiffness_row_y_profile [OF mesh(2,3) ij(1) inner, of ?f]
        parabola_second_difference [OF inner(1) k] by simp
    finally have st: "stiffness_row m (gval m (grid_field m ?p)) i j =
        ?c * (hx m / (2 * hy m)) * (fn_heating eq * (hy m)\<^sup>2 / fn_diffusivity eq)" .
    have "heat_residual m (fn_diffusivity eq) (fn_heating eq) (grid_field m ?p) i j = 0"
      unfolding heat_residual_def st load_row_y_interior [OF ij(1) inner]
      using k mesh by (simp add: field_simps power2_eq_square)
    then show ?thesis
      using False ij walls by (simp add: mem_Bottom_VertexSet mem_Top_VertexSet)
  qed
  moreover have "length (grid_field m ?p) = nnodes m" by simp
  ultimately show ?thesis unfolding is_solution_grid [OF len] by blast
qed

text \<open>
  The sign of the heating term. With heating \<open>h\<close>, diffusivity \<open>k \<noteq> 0\<close> and the field
  held at 0 on the bottom and top walls, the solver's contract has exactly one solution, the
  parabola \<open>h / (2 k) * y * (H - y)\<close>: the system solves \<open>-div (k grad T) = h\<close>, so a
  positive source warms the box. The notebook's markdown (line 13) writes the equation as
  \<open>div (k grad T) = h\<close>, whose solution is the opposite parabola; the notebook itself passes
  no heating, so its run is not affected.
\<close>

theorem heated_well_posed:
  assumes mesh: "0 < nelx m" "0 < nely m" "0 < hx m" "0 < hy m"
      "(hx m)\<^sup>2 \<le> 2 * (hy m)\<^sup>2" "(hy m)\<^sup>2 \<le> 2 * (hx m)\<^sup>2"
    and k: "fn_diffusivity eq \<noteq> 0"
    and walls: "set (dirichlet_nodes eq) = set (Bottom_VertexSet m) \<union> set (Top_VertexSet m)"
    and len: "length xs0 = nnodes m"
    and bot: "\<And>i. i \<le> nelx m \<Longrightarrow> gval m xs0 i 0 = 0"
    and top: "\<And>i. i \<le> nelx m \<Longrightarrow> gval m xs0 i (nely m) = 0"
  shows "is_solution m eq xs0 xs \<longleftrightarrow>
         xs = grid_field m (\<lambda>i j. parabola m (fn_diffusivity eq) (fn_heating eq) j)"
proof
  let ?p = "grid_field m (\<lambda>i j. parabola m (fn_diffusivity eq) (fn_heating eq) j)"
  have par: "is_solution m eq xs0 ?p"
    using parabola_solution [OF mesh(2,3,4) k walls len bot top] .
  have bottom: "set (Bottom_VertexSet m) \<subseteq> set (dirichlet_nodes eq)" using walls by simp
  assume sol: "is_solution m eq xs0 xs"
  from solutions_agree [OF mesh(1,3-6) k bottom len sol par] show "xs = ?p"
    by (blast intro: grid_field_eqI)
next
  assume "xs = grid_field m (\<lambda>i j. parabola m (fn_diffusivity eq) (fn_heating eq) j)"
  then show "is_solution m eq xs0 xs"
    using parabola_solution [OF mesh(2,3,4) k walls len bot top] by simp
qed

end
