(* ===== verification/Integral.thy ===== *)
theory Integral
  imports Field
begin

text \<open>
  The check of cell 9 (\<^verbatim>\<open>src/newmodel.ipynb\<close>, lines 175--180).
  \<^verbatim>\<open>uw.utils.Integral(temperatureField, mesh).evaluate()\<close> integrates the
  finite-element interpolant of the field over the mesh and returns one value per component
  of the field; on a bilinear element the integral of the interpolant is the element's area
  times the mean of its four corner values (exact for the Gauss rule underworld uses).
  The average divides it by the box area; \<^verbatim>\<open>np.isclose\<close> compares with numpy's
  default tolerances \<open>rtol = 10\<^sup>-\<^sup>5\<close> and \<open>atol = 10\<^sup>-\<^sup>8\<close>, and
  the cell raises \<open>RuntimeError\<close> when the comparison fails.
\<close>

definition integral :: "mesh \<Rightarrow> real list \<Rightarrow> real" where
  "integral m xs =
     (\<Sum>ex<nelx m. \<Sum>ey<nely m. hx m * hy m / 4 *
        (gval m xs ex ey + gval m xs (ex + 1) ey + gval m xs ex (ey + 1) + gval m xs (ex + 1) (ey + 1)))"

definition Integral_evaluate :: "mesh \<Rightarrow> real list \<Rightarrow> real list" where
  "Integral_evaluate m xs = [integral m xs]"

definition isclose :: "real \<Rightarrow> real \<Rightarrow> bool" where
  "isclose a b \<longleftrightarrow> \<bar>a - b\<bar> \<le> 1 / 10 ^ 8 + 1 / 10 ^ 5 * \<bar>b\<bar>"

text \<open>Line 178: \<^verbatim>\<open>avtemp = tottemp.evaluate()[0] / (boxHeight*boxLength)\<close>.\<close>

definition average :: "params \<Rightarrow> mesh \<Rightarrow> real list \<Rightarrow> real result" where
  "average p m xs =
     (case Integral_evaluate m xs of
        [] \<Rightarrow> Inl IndexError
      | tottemp # _ \<Rightarrow>
          (if boxHeight p * boxLength p = 0 then Inl ZeroDivisionError
           else Inr (tottemp / (boxHeight p * boxLength p))))"

text \<open>Lines 179--180: \<^verbatim>\<open>if not np.isclose(avtemp,0.5): raise RuntimeError(...)\<close>.\<close>

definition check_close :: "real \<Rightarrow> unit result" where
  "check_close avtemp =
     (if \<not> isclose avtemp 0.5
      then Inl (RuntimeError ''Incorrect average temperature produced by model. '')
      else Inr ())"

section \<open>Lemmas\<close>

lemma sum_consecutive_affine:
  fixes a c :: real
  shows "(\<Sum>y<n. (a + c * real y) + (a + c * real (Suc y))) = real n * ((a + a) + c * real n)"
  by (induction n) (simp_all add: algebra_simps)

lemma integral_rows:
  "integral m (grid_field m (\<lambda>i j. f j)) =
     real (nelx m) * (hx m * hy m / 2 * (\<Sum>ey<nely m. f ey + f (Suc ey)))"
proof -
  have "integral m (grid_field m (\<lambda>i j. f j)) =
        (\<Sum>ex<nelx m. \<Sum>ey<nely m. hx m * hy m / 2 * (f ey + f (Suc ey)))"
    unfolding integral_def
    by (intro sum.cong refl) (simp add: gval_grid_field algebra_simps)
  also have "\<dots> = real (nelx m) * (hx m * hy m / 2 * (\<Sum>ey<nely m. f ey + f (Suc ey)))"
    by (simp add: sum_distrib_left)
  finally show ?thesis .
qed

lemma integral_const:
  "integral m (replicate (nnodes m) c) = real (nelx m) * real (nely m) * hx m * hy m * c"
proof -
  have "integral m (replicate (nnodes m) c) = (\<Sum>ex<nelx m. \<Sum>ey<nely m. hx m * hy m * c)"
    unfolding integral_def by (intro sum.cong refl) simp
  then show ?thesis by simp
qed

lemma isclose_refl: "isclose a a"
  by (simp add: isclose_def)

lemma nelx_hx:
  "0 < nelx m \<Longrightarrow> real (nelx m) * hx m = fst (maxCoord m) - fst (minCoord m)"
  by (simp add: hx_def)

lemma nely_hy:
  "0 < nely m \<Longrightarrow> real (nely m) * hy m = snd (maxCoord m) - snd (minCoord m)"
  by (simp add: hy_def)

theorem integral_linear_profile:
  assumes "0 < nelx m" "0 < nely m"
  shows "integral m (grid_field m (\<lambda>i j. a + (b - a) / real (nely m) * real j)) =
         (fst (maxCoord m) - fst (minCoord m)) * (snd (maxCoord m) - snd (minCoord m)) * (a + b) / 2"
proof -
  let ?c = "(b - a) / real (nely m)"
  have "(\<Sum>ey<nely m. (a + ?c * real ey) + (a + ?c * real (Suc ey))) =
        real (nely m) * ((a + a) + ?c * real (nely m))"
    by (rule sum_consecutive_affine)
  also have "\<dots> = real (nely m) * (a + b)" using assms(2) by simp
  finally have "integral m (grid_field m (\<lambda>i j. a + ?c * real j)) =
             (real (nelx m) * hx m) * (real (nely m) * hy m) * (a + b) / 2"
    by (simp add: integral_rows algebra_simps)
  then show ?thesis using assms by (simp add: nelx_hx nely_hy)
qed

text \<open>
  C6. For any parameters of cell 2 that give a mesh, line 178 of cell 9 applied to the field
  linear in the height from \<open>a\<close> at the bottom to \<open>b\<close> at the top raises nothing and
  computes the average \<open>(a + b) / 2\<close>: the integral of the interpolant is exact on the
  profile, and the box area is not zero.
\<close>

theorem average_profile:
  assumes "make_mesh p = Inr m"
  shows "average p m (grid_field m (\<lambda>i j. a + (b - a) / real (nely m) * real j)) = Inr ((a + b) / 2)"
proof -
  from assms have p: "0 < resx p" "0 < resy p" "0 < boxLength p" "0 < boxHeight p"
    and m: "m = \<lparr>elementType = ''Q1/dQ0'', elementRes = (resx p, resy p), minCoord = (0, 0),
                 maxCoord = (boxLength p, boxHeight p)\<rparr>"
    by (simp_all add: make_mesh_def FeMesh_Cartesian_Inr)
  have int: "integral m (grid_field m (\<lambda>i j. a + (b - a) / real (nely m) * real j)) =
        boxLength p * boxHeight p * (a + b) / 2"
    using integral_linear_profile [of m a b] p by (simp add: m nelx_def nely_def)
  have avg: "integral m (grid_field m (\<lambda>i j. a + (b - a) / real (nely m) * real j)) /
        (boxHeight p * boxLength p) = (a + b) / 2"
    unfolding int using p by simp
  have "boxHeight p * boxLength p \<noteq> 0" using p by simp
  then show ?thesis
    unfolding average_def Integral_evaluate_def list.case avg by simp
qed

end
