(* ===== verification/Figure.thy ===== *)
theory Figure
  imports Field
begin

text \<open>
  The glucifer figure of cells 6 and 8 (\<^verbatim>\<open>src/newmodel.ipynb\<close>, lines 113--117 and
  165--166). A \<^verbatim>\<open>glucifer.Figure\<close> holds its size and the list of drawing objects
  appended to it; a \<^verbatim>\<open>Surface\<close> object keeps a reference to the variable it colours
  (its address in the store of variables), not a copy of its values. \<^verbatim>\<open>fig.show()\<close>
  renders every object with the data the referenced variables hold at the time of the call.
  The image is modelled by what it depicts (the mesh drawn, the values coloured and the colour
  map), not by its pixels.
\<close>

datatype drawing =
    DrawMesh mesh
  | DrawSurface mesh var_ref string

record figure =
  figsize :: "nat \<times> nat"
  fig_objects :: "drawing list"

datatype rendered =
    RMesh mesh
  | RSurface mesh "real list" string

record image =
  img_size :: "nat \<times> nat"
  img_objects :: "rendered list"

text \<open>\<^verbatim>\<open>glucifer.Figure(figsize=size)\<close> and \<^verbatim>\<open>fig.append(obj)\<close>.\<close>

definition Figure :: "nat \<times> nat \<Rightarrow> figure" where
  "Figure sz = \<lparr>figsize = sz, fig_objects = []\<rparr>"

definition fig_append :: "figure \<Rightarrow> drawing \<Rightarrow> figure" where
  "fig_append f d = f\<lparr>fig_objects := fig_objects f @ [d]\<rparr>"

text \<open>\<^verbatim>\<open>fig.show()\<close>: every object is drawn from the current store.\<close>

fun render :: "mesh_variable list \<Rightarrow> drawing \<Rightarrow> rendered" where
  "render st (DrawMesh m) = RMesh m"
| "render st (DrawSurface m r c) = RSurface m (data (st ! r)) c"

definition fig_show :: "mesh_variable list \<Rightarrow> figure \<Rightarrow> image" where
  "fig_show st f = \<lparr>img_size = figsize f, img_objects = map (render st) (fig_objects f)\<rparr>"

text \<open>A drawing refers only to variables of a store of the given size.\<close>

fun drawing_ok :: "nat \<Rightarrow> drawing \<Rightarrow> bool" where
  "drawing_ok n (DrawMesh m) = True"
| "drawing_ok n (DrawSurface m r c) = (r < n)"

section \<open>Lemmas\<close>

lemma fig_objects_append [simp]: "fig_objects (fig_append f d) = fig_objects f @ [d]"
  by (simp add: fig_append_def)

lemma figsize_append [simp]: "figsize (fig_append f d) = figsize f"
  by (simp add: fig_append_def)

lemma fig_objects_Figure [simp]: "fig_objects (Figure sz) = []" "figsize (Figure sz) = sz"
  by (simp_all add: Figure_def)

lemma drawing_ok_mono: "drawing_ok n d \<Longrightarrow> n \<le> n' \<Longrightarrow> drawing_ok n' d"
  by (cases d) auto

lemma drawings_ok_Suc: "list_all (drawing_ok n) ds \<Longrightarrow> list_all (drawing_ok (Suc n)) ds"
  by (auto simp: list_all_iff intro: drawing_ok_mono)

end
