(* ===== verification/Notebook.thy ===== *)
theory Notebook
  imports Heat Integral Figure
begin

text \<open>
  The notebook \<^verbatim>\<open>src/newmodel.ipynb\<close> as a program: its code cells are lists of
  statements, the Python namespace of the kernel is the state. The namespace binds the names
  the cells define (\<open>None\<close>: not yet bound, so that reading the name raises
  \<open>NameError\<close>), and a store of the \<^verbatim>\<open>MeshVariable\<close> objects the kernel has
  allocated: the name \<^verbatim>\<open>temperatureField\<close>, the Dirichlet condition, the heat system, the
  figure's surface and the integral of cell 9 all refer to a variable by its address in the
  store, so that the values written in cell 5 are the ones the solver of cell 7 sees. Each
  statement is one definition, reading the names in Python's evaluation order; a cell runs its
  statements until one raises and keeps what the earlier ones did, as a Jupyter kernel does,
  and Run All (\<open>run_cells\<close>) stops at the first cell that raises. Two things the notebook
  does not determine are parameters: the contents of the array \<^verbatim>\<open>add_variable\<close>
  allocates (\<open>garbage\<close>) and the solver (\<open>solver\<close>), whose contract is
  \<open>Heat.is_solution\<close>. The inductive \<open>reachable\<close> collects the namespaces of
  executions in any order, \<open>ns_wf\<close> is the invariant they keep. On it each cell
  makes progress: it raises only \<open>NameError\<close> or the check's \<open>RuntimeError\<close>
  (\<open>notebook_error\<close>), and a cell whose reads (\<open>cell_reads\<close>) are bound raises no
  \<open>NameError\<close> and binds its names (\<open>cell_binds\<close>), which gives the soundness of the
  definite-initialisation check \<open>definit\<close> for sequences of cells.
\<close>

datatype cell =
    Imports | Setup_mesh | Create_field | Make_bc | Set_bc_values
  | Show_initial | Solve | Show_solution | Check_average

record namespace =
  uw_imported :: bool
  glucifer_imported :: bool
  ns_params :: "params option"
  ns_mesh :: "mesh option"
  ns_store :: "mesh_variable list"
  ns_temperatureField :: "var_ref option"
  ns_botWalls :: "index_set option"
  ns_topWalls :: "index_set option"
  ns_bcWalls :: "index_set option"
  ns_tempBC :: "dirichlet_condition option"
  ns_fig :: "figure option"
  ns_heatequation :: "steady_state_heat option"
  ns_heatsolver :: "steady_state_heat option"
  ns_tottemp :: "(var_ref \<times> mesh) option"
  ns_avtemp :: "real option"
  ns_output :: "image list"

definition empty_ns :: namespace where
  "empty_ns = \<lparr>uw_imported = False, glucifer_imported = False, ns_params = None, ns_mesh = None,
     ns_store = [], ns_temperatureField = None, ns_botWalls = None, ns_topWalls = None,
     ns_bcWalls = None, ns_tempBC = None, ns_fig = None, ns_heatequation = None,
     ns_heatsolver = None, ns_tottemp = None, ns_avtemp = None, ns_output = []\<rparr>"

text \<open>Reading a name of the namespace.\<close>

definition need :: "'a option \<Rightarrow> string \<Rightarrow> 'a result" where
  "need v name = (case v of None \<Rightarrow> Inl (NameError name) | Some x \<Rightarrow> Inr x)"

definition need_uw :: "namespace \<Rightarrow> unit result" where
  "need_uw ns = (if uw_imported ns then Inr () else Inl (NameError ''uw''))"

definition need_glucifer :: "namespace \<Rightarrow> unit result" where
  "need_glucifer ns = (if glucifer_imported ns then Inr () else Inl (NameError ''glucifer''))"

text \<open>
  A statement maps the namespace to the new namespace or the exception it raises. A cell runs
  its statements in order; an exception ends the cell, and the namespace keeps what the
  statements before it did, as in a Jupyter kernel.
\<close>

type_synonym stmt = "namespace \<Rightarrow> namespace result"

fun run_stmts :: "stmt list \<Rightarrow> namespace \<Rightarrow> namespace \<times> py_error option" where
  "run_stmts [] ns = (ns, None)"
| "run_stmts (st # sts) ns = (case st ns of Inl e \<Rightarrow> (ns, Some e) | Inr ns' \<Rightarrow> run_stmts sts ns')"

section \<open>The statements\<close>

text \<open>Cell 1 (lines 31--32).\<close>

definition import_uw :: stmt where
  "import_uw ns = Inr (ns\<lparr>uw_imported := True\<rparr>)"

definition import_glucifer :: stmt where
  "import_glucifer ns = Inr (ns\<lparr>glucifer_imported := True\<rparr>)"

text \<open>Cell 2 (lines 42--51): the four parameters, then the mesh built from them.\<close>

definition assign_params :: stmt where
  "assign_params ns = Inr (ns\<lparr>ns_params := Some notebook_params\<rparr>)"

definition assign_mesh :: stmt where
  "assign_mesh ns =
     bindE (need_uw ns) (\<lambda>_.
     bindE (need (ns_params ns) ''resx'') (\<lambda>p.
     bindE (make_mesh p) (\<lambda>m.
     Inr (ns\<lparr>ns_mesh := Some m\<rparr>))))"

text \<open>Cell 3 (lines 61--62): allocate the variable and bind the name, then zero its data.\<close>

definition assign_temperatureField :: "(nat \<Rightarrow> real) \<Rightarrow> stmt" where
  "assign_temperatureField garbage ns =
     bindE (need (ns_mesh ns) ''mesh'') (\<lambda>m.
     Inr (ns\<lparr>ns_store := ns_store ns @ [add_variable m 1 garbage],
             ns_temperatureField := Some (length (ns_store ns))\<rparr>))"

definition zero_temperatureField :: stmt where
  "zero_temperatureField ns =
     bindE (need (ns_temperatureField ns) ''temperatureField'') (\<lambda>r.
     Inr (ns\<lparr>ns_store := (ns_store ns)[r := set_all (ns_store ns ! r) 0]\<rparr>))"

text \<open>Cell 4 (lines 74--77): the wall vertex sets and the Dirichlet condition.\<close>

definition assign_botWalls :: stmt where
  "assign_botWalls ns =
     bindE (need (ns_mesh ns) ''mesh'') (\<lambda>m.
     bindE (specialSets m ''Bottom_VertexSet'') (\<lambda>bot.
     Inr (ns\<lparr>ns_botWalls := Some bot\<rparr>)))"

definition assign_topWalls :: stmt where
  "assign_topWalls ns =
     bindE (need (ns_mesh ns) ''mesh'') (\<lambda>m.
     bindE (specialSets m ''Top_VertexSet'') (\<lambda>top.
     Inr (ns\<lparr>ns_topWalls := Some top\<rparr>)))"

definition assign_bcWalls :: stmt where
  "assign_bcWalls ns =
     bindE (need (ns_botWalls ns) ''botWalls'') (\<lambda>bot.
     bindE (need (ns_topWalls ns) ''topWalls'') (\<lambda>top.
     Inr (ns\<lparr>ns_bcWalls := Some (index_union bot top)\<rparr>)))"

definition assign_tempBC :: stmt where
  "assign_tempBC ns =
     bindE (need_uw ns) (\<lambda>_.
     bindE (need (ns_temperatureField ns) ''temperatureField'') (\<lambda>r.
     bindE (need (ns_bcWalls ns) ''bcWalls'') (\<lambda>bc.
     bindE (DirichletCondition r (ns_store ns ! r) [bc]) (\<lambda>cond.
     Inr (ns\<lparr>ns_tempBC := Some cond\<rparr>)))))"

text \<open>Cell 5 (lines 87, 89): bottom wall to \<open>1.0\<close>, then top wall to \<open>0.0\<close>.\<close>

definition set_wall_values :: "(namespace \<Rightarrow> index_set option) \<Rightarrow> string \<Rightarrow> real \<Rightarrow> stmt" where
  "set_wall_values walls name v ns =
     bindE (need (ns_temperatureField ns) ''temperatureField'') (\<lambda>r.
     bindE (need (walls ns) name) (\<lambda>idx.
     bindE (set_rows (ns_store ns ! r) idx v) (\<lambda>f.
     Inr (ns\<lparr>ns_store := (ns_store ns)[r := f]\<rparr>))))"

text \<open>
  Cells 6 and 8 (lines 114--117, 166): cell 6 builds the figure, the mesh and a surface
  colouring the variable \<^verbatim>\<open>temperatureField\<close> refers to, binds it to \<^verbatim>\<open>fig\<close>
  and shows it; cell 8 shows it again. Each \<^verbatim>\<open>show()\<close> appends to the notebook's
  output the image rendered from the store at that moment.
\<close>

definition assign_fig :: stmt where
  "assign_fig ns = bindE (need_glucifer ns) (\<lambda>_. Inr (ns\<lparr>ns_fig := Some (Figure (800, 400))\<rparr>))"

definition append_mesh :: stmt where
  "append_mesh ns =
     bindE (need (ns_fig ns) ''fig'') (\<lambda>fig.
     bindE (need_glucifer ns) (\<lambda>_.
     bindE (need (ns_mesh ns) ''mesh'') (\<lambda>m.
     Inr (ns\<lparr>ns_fig := Some (fig_append fig (DrawMesh m))\<rparr>))))"

definition append_surface :: stmt where
  "append_surface ns =
     bindE (need (ns_fig ns) ''fig'') (\<lambda>fig.
     bindE (need_glucifer ns) (\<lambda>_.
     bindE (need (ns_mesh ns) ''mesh'') (\<lambda>m.
     bindE (need (ns_temperatureField ns) ''temperatureField'') (\<lambda>r.
     Inr (ns\<lparr>ns_fig := Some (fig_append fig (DrawSurface m r ''blue white red''))\<rparr>)))))"

definition show_fig :: stmt where
  "show_fig ns =
     bindE (need (ns_fig ns) ''fig'') (\<lambda>fig.
     Inr (ns\<lparr>ns_output := ns_output ns @ [fig_show (ns_store ns) fig]\<rparr>))"

text \<open>
  Cell 7 (lines 136--143): the heat system with diffusivity \<open>1.0\<close> on the variable
  \<^verbatim>\<open>temperatureField\<close> names now, its solver, and the solve, which writes the solution
  into the variable the system was built on.
\<close>

definition assign_heatequation :: stmt where
  "assign_heatequation ns =
     bindE (need_uw ns) (\<lambda>_.
     bindE (need (ns_temperatureField ns) ''temperatureField'') (\<lambda>r.
     bindE (need (ns_tempBC ns) ''tempBC'') (\<lambda>cond.
     bindE (SteadyStateHeat r (ns_store ns ! r) 1.0 0 cond) (\<lambda>eq.
     Inr (ns\<lparr>ns_heatequation := Some eq\<rparr>)))))"

definition assign_heatsolver :: stmt where
  "assign_heatsolver ns =
     bindE (need_uw ns) (\<lambda>_.
     bindE (need (ns_heatequation ns) ''heatequation'') (\<lambda>eq.
     Inr (ns\<lparr>ns_heatsolver := Some eq\<rparr>)))"

definition solve_heat :: "solver \<Rightarrow> stmt" where
  "solve_heat solver ns =
     bindE (need (ns_heatsolver ns) ''heatsolver'') (\<lambda>eq.
     let r = temperatureField eq; f = ns_store ns ! r;
         f' = f\<lparr>data := solver (var_mesh f) eq (data f)\<rparr>
     in Inr (ns\<lparr>ns_store := (ns_store ns)[r := f']\<rparr>))"

text \<open>
  Cell 9 (lines 176--180): \<^verbatim>\<open>import numpy as np\<close> (the name \<^verbatim>\<open>np\<close> is used only
  in this cell and is not modelled), the integral object, which refers to the variable, the
  average and its check.
\<close>

definition import_numpy :: stmt where
  "import_numpy ns = Inr ns"

definition assign_tottemp :: stmt where
  "assign_tottemp ns =
     bindE (need_uw ns) (\<lambda>_.
     bindE (need (ns_temperatureField ns) ''temperatureField'') (\<lambda>r.
     bindE (need (ns_mesh ns) ''mesh'') (\<lambda>m.
     Inr (ns\<lparr>ns_tottemp := Some (r, m)\<rparr>))))"

definition assign_avtemp :: stmt where
  "assign_avtemp ns =
     bindE (need (ns_tottemp ns) ''tottemp'') (\<lambda>(r, m).
     bindE (need (ns_params ns) ''boxHeight'') (\<lambda>p.
     bindE (average p m (data (ns_store ns ! r))) (\<lambda>av.
     Inr (ns\<lparr>ns_avtemp := Some av\<rparr>))))"

definition check_avtemp :: stmt where
  "check_avtemp ns =
     bindE (need (ns_avtemp ns) ''avtemp'') (\<lambda>av.
     bindE (check_close av) (\<lambda>_. Inr ns))"

section \<open>Cells and runs\<close>

fun cell_stmts :: "(nat \<Rightarrow> real) \<Rightarrow> solver \<Rightarrow> cell \<Rightarrow> stmt list" where
  "cell_stmts g s Imports = [import_uw, import_glucifer]"
| "cell_stmts g s Setup_mesh = [assign_params, assign_mesh]"
| "cell_stmts g s Create_field = [assign_temperatureField g, zero_temperatureField]"
| "cell_stmts g s Make_bc = [assign_botWalls, assign_topWalls, assign_bcWalls, assign_tempBC]"
| "cell_stmts g s Set_bc_values =
     [set_wall_values ns_botWalls ''botWalls'' 1.0, set_wall_values ns_topWalls ''topWalls'' 0.0]"
| "cell_stmts g s Show_initial = [assign_fig, append_mesh, append_surface, show_fig]"
| "cell_stmts g s Solve = [assign_heatequation, assign_heatsolver, solve_heat s]"
| "cell_stmts g s Show_solution = [show_fig]"
| "cell_stmts g s Check_average = [import_numpy, assign_tottemp, assign_avtemp, check_avtemp]"

definition exec_cell :: "(nat \<Rightarrow> real) \<Rightarrow> solver \<Rightarrow> cell \<Rightarrow> namespace \<Rightarrow> namespace \<times> py_error option" where
  "exec_cell g s c ns = run_stmts (cell_stmts g s c) ns"

text \<open>Run All: the cells in order, stopping at the first that raises.\<close>

fun run_cells ::
  "(nat \<Rightarrow> real) \<Rightarrow> solver \<Rightarrow> cell list \<Rightarrow> namespace \<Rightarrow> namespace \<times> py_error option" where
  "run_cells g s [] ns = (ns, None)"
| "run_cells g s (c # cs) ns =
     (case exec_cell g s c ns of (ns', None) \<Rightarrow> run_cells g s cs ns' | r \<Rightarrow> r)"

definition notebook_cells :: "cell list" where
  "notebook_cells =
     [Imports, Setup_mesh, Create_field, Make_bc, Set_bc_values,
      Show_initial, Solve, Show_solution, Check_average]"

definition run_notebook :: "(nat \<Rightarrow> real) \<Rightarrow> solver \<Rightarrow> namespace \<times> py_error option" where
  "run_notebook g s = run_cells g s notebook_cells empty_ns"

section \<open>The run of the notebook\<close>

text \<open>The objects the notebook builds: the mesh of cell 2, the condition of cell 4, the
  system of cell 7 and the field the solver is handed.\<close>

abbreviation nb_mesh :: mesh where
  "nb_mesh \<equiv> \<lparr>elementType = ''Q1/dQ0'', elementRes = (16, 8), minCoord = (0, 0), maxCoord = (2, 1)\<rparr>"

abbreviation nb_bc_at :: "var_ref \<Rightarrow> dirichlet_condition" where
  "nb_bc_at r \<equiv> \<lparr>dc_variable = r,
     indexSetsPerDof = [index_union (Bottom_VertexSet nb_mesh) (Top_VertexSet nb_mesh)]\<rparr>"

abbreviation nb_heat_at :: "var_ref \<Rightarrow> steady_state_heat" where
  "nb_heat_at r \<equiv> \<lparr>temperatureField = r, fn_diffusivity = 1, fn_heating = 0, conditions = nb_bc_at r\<rparr>"

abbreviation nb_bc :: dirichlet_condition where
  "nb_bc \<equiv> nb_bc_at 0"

abbreviation nb_heat :: steady_state_heat where
  "nb_heat \<equiv> nb_heat_at 0"

abbreviation nb_field0 :: "real list" where
  "nb_field0 \<equiv> grid_field nb_mesh (\<lambda>i j. if j = 8 then 0 else if j = 0 then 1 else 0)"

abbreviation nb_var :: "real list \<Rightarrow> mesh_variable" where
  "nb_var xs \<equiv> \<lparr>var_mesh = nb_mesh, nodeDofCount = 1, data = xs\<rparr>"

abbreviation nb_rerun_cells :: "cell list" where
  "nb_rerun_cells \<equiv> [Imports, Setup_mesh, Create_field, Make_bc, Create_field, Set_bc_values,
                      Show_initial, Solve, Show_solution, Check_average]"

abbreviation nb_fig :: "var_ref \<Rightarrow> figure" where
  "nb_fig r \<equiv> fig_append (fig_append (Figure (800, 400)) (DrawMesh nb_mesh))
                (DrawSurface nb_mesh r ''blue white red'')"

abbreviation nb_detached :: steady_state_heat where
  "nb_detached \<equiv> \<lparr>temperatureField = 1, fn_diffusivity = 1, fn_heating = 0, conditions = nb_bc\<rparr>"

section \<open>Executions in any order\<close>

text \<open>
  In Jupyter the cells can be run in any order and any number of times. The namespaces a
  kernel can reach are those built from the fresh one by executing cells one at a time, a
  cell that raises keeping what its earlier statements did; \<open>ns_wf\<close> is the
  well-formedness every such namespace keeps: the parameters and the mesh are those of cell 2,
  every allocated variable is a scalar field on the mesh with one value per vertex, and every
  name that refers to a variable refers to an allocated one, so that every read of the store
  in the cells is in range.
\<close>

inductive reachable :: "(nat \<Rightarrow> real) \<Rightarrow> solver \<Rightarrow> namespace \<Rightarrow> bool"
  for g :: "nat \<Rightarrow> real" and s :: solver where
  start: "reachable g s empty_ns"
| step: "reachable g s ns \<Longrightarrow> reachable g s (fst (exec_cell g s c ns))"

definition ns_wf :: "namespace \<Rightarrow> bool" where
  "ns_wf ns \<longleftrightarrow>
     pred_option (\<lambda>p. p = notebook_params) (ns_params ns) \<and>
     pred_option (\<lambda>m. m = nb_mesh) (ns_mesh ns) \<and>
     list_all (\<lambda>f. var_mesh f = nb_mesh \<and> nodeDofCount f = 1 \<and> length (data f) = nnodes nb_mesh)
       (ns_store ns) \<and>
     pred_option (\<lambda>r. r < length (ns_store ns)) (ns_temperatureField ns) \<and>
     pred_option (\<lambda>c. dc_variable c < length (ns_store ns)) (ns_tempBC ns) \<and>
     pred_option (\<lambda>f. list_all (drawing_ok (length (ns_store ns))) (fig_objects f)) (ns_fig ns) \<and>
     pred_option (\<lambda>eq. temperatureField eq < length (ns_store ns)) (ns_heatequation ns) \<and>
     pred_option (\<lambda>eq. temperatureField eq < length (ns_store ns)) (ns_heatsolver ns) \<and>
     pred_option (\<lambda>(r, m). r < length (ns_store ns) \<and> m = nb_mesh) (ns_tottemp ns) \<and>
     pred_option (\<lambda>b. b = Bottom_VertexSet nb_mesh) (ns_botWalls ns) \<and>
     pred_option (\<lambda>t. t = Top_VertexSet nb_mesh) (ns_topWalls ns) \<and>
     pred_option (\<lambda>bc. bc = index_union (Bottom_VertexSet nb_mesh) (Top_VertexSet nb_mesh))
       (ns_bcWalls ns)"

section \<open>Errors and definite initialisation\<close>

text \<open>
  The exceptions a cell can raise on a well-formed namespace: a \<^verbatim>\<open>NameError\<close> for a
  name no earlier cell has bound, and the \<^verbatim>\<open>RuntimeError\<close> of the check of cell 9.
  No \<^verbatim>\<open>IndexError\<close>, \<^verbatim>\<open>KeyError\<close>, \<^verbatim>\<open>ValueError\<close> or
  \<^verbatim>\<open>ZeroDivisionError\<close> of the library calls is among them.
\<close>

fun notebook_error :: "py_error \<Rightarrow> bool" where
  "notebook_error (NameError n) = True"
| "notebook_error (RuntimeError msg) = (msg = ''Incorrect average temperature produced by model. '')"
| "notebook_error _ = False"

text \<open>
  The names of the notebook's namespace, which of them a namespace binds, and for each cell
  the names it reads before binding them itself and the names it binds, read off the cell's
  statements. \<open>definit A cs\<close> holds when every cell of \<open>cs\<close>, run in order from a
  namespace that binds the names \<open>A\<close>, reads only names bound before it (the analysis of
  definite initialisation).
\<close>

datatype name =
    N_uw | N_glucifer | N_params | N_mesh | N_temperatureField | N_botWalls | N_topWalls
  | N_bcWalls | N_tempBC | N_fig | N_heatequation | N_heatsolver | N_tottemp | N_avtemp

fun is_bound :: "namespace \<Rightarrow> name \<Rightarrow> bool" where
  "is_bound ns N_uw = uw_imported ns"
| "is_bound ns N_glucifer = glucifer_imported ns"
| "is_bound ns N_params = (ns_params ns \<noteq> None)"
| "is_bound ns N_mesh = (ns_mesh ns \<noteq> None)"
| "is_bound ns N_temperatureField = (ns_temperatureField ns \<noteq> None)"
| "is_bound ns N_botWalls = (ns_botWalls ns \<noteq> None)"
| "is_bound ns N_topWalls = (ns_topWalls ns \<noteq> None)"
| "is_bound ns N_bcWalls = (ns_bcWalls ns \<noteq> None)"
| "is_bound ns N_tempBC = (ns_tempBC ns \<noteq> None)"
| "is_bound ns N_fig = (ns_fig ns \<noteq> None)"
| "is_bound ns N_heatequation = (ns_heatequation ns \<noteq> None)"
| "is_bound ns N_heatsolver = (ns_heatsolver ns \<noteq> None)"
| "is_bound ns N_tottemp = (ns_tottemp ns \<noteq> None)"
| "is_bound ns N_avtemp = (ns_avtemp ns \<noteq> None)"

fun cell_reads :: "cell \<Rightarrow> name list" where
  "cell_reads Imports = []"
| "cell_reads Setup_mesh = [N_uw]"
| "cell_reads Create_field = [N_mesh]"
| "cell_reads Make_bc = [N_mesh, N_uw, N_temperatureField]"
| "cell_reads Set_bc_values = [N_temperatureField, N_botWalls, N_topWalls]"
| "cell_reads Show_initial = [N_glucifer, N_mesh, N_temperatureField]"
| "cell_reads Solve = [N_uw, N_temperatureField, N_tempBC]"
| "cell_reads Show_solution = [N_fig]"
| "cell_reads Check_average = [N_uw, N_temperatureField, N_mesh, N_params]"

fun cell_binds :: "cell \<Rightarrow> name list" where
  "cell_binds Imports = [N_uw, N_glucifer]"
| "cell_binds Setup_mesh = [N_params, N_mesh]"
| "cell_binds Create_field = [N_temperatureField]"
| "cell_binds Make_bc = [N_botWalls, N_topWalls, N_bcWalls, N_tempBC]"
| "cell_binds Set_bc_values = []"
| "cell_binds Show_initial = [N_fig]"
| "cell_binds Solve = [N_heatequation, N_heatsolver]"
| "cell_binds Show_solution = []"
| "cell_binds Check_average = [N_tottemp, N_avtemp]"

fun definit :: "name list \<Rightarrow> cell list \<Rightarrow> bool" where
  "definit A [] = True"
| "definit A (c # cs) = (list_all (\<lambda>n. n \<in> set A) (cell_reads c) \<and> definit (A @ cell_binds c) cs)"

section \<open>Lemmas on runs\<close>

lemma nb_mesh_geometry [simp]:
  "nelx nb_mesh = 16" "nely nb_mesh = 8" "hx nb_mesh = 1 / 8" "hy nb_mesh = 1 / 8"
  by (simp_all add: nelx_def nely_def hx_def hy_def)

lemmas stmt_defs = import_uw_def import_glucifer_def assign_params_def assign_mesh_def
  assign_temperatureField_def zero_temperatureField_def assign_botWalls_def assign_topWalls_def
  assign_bcWalls_def assign_tempBC_def set_wall_values_def assign_fig_def append_mesh_def
  append_surface_def show_fig_def assign_heatequation_def assign_heatsolver_def solve_heat_def
  import_numpy_def assign_tottemp_def assign_avtemp_def check_avtemp_def

lemma run_cells_append:
  "run_cells g s (xs @ ys) ns =
     (case run_cells g s xs ns of (ns', None) \<Rightarrow> run_cells g s ys ns' | r \<Rightarrow> r)"
  by (induction xs arbitrary: ns) (simp_all split: prod.split option.split)

lemma nb_field0_written:
  "map (\<lambda>p. if p \<in> set (Top_VertexSet nb_mesh) then 0
          else map (\<lambda>p. if p \<in> set (Bottom_VertexSet nb_mesh) then 1
                         else replicate (nnodes nb_mesh) 0 ! p)
                 [0..<nnodes nb_mesh] ! p) [0..<nnodes nb_mesh] = nb_field0"
proof -
  have "map (\<lambda>p. if p \<in> set (Top_VertexSet nb_mesh) then 0
          else map (\<lambda>p. if p \<in> set (Bottom_VertexSet nb_mesh) then 1
                         else replicate (nnodes nb_mesh) 0 ! p)
                 [0..<nnodes nb_mesh] ! p) [0..<nnodes nb_mesh] =
        grid_field nb_mesh (\<lambda>i j. if j = 8 then 0 else if j = 0 then 1
                                   else gval nb_mesh (replicate (nnodes nb_mesh) 0) i j)"
    by (simp add: walls_written_in_order)
  also have "\<dots> = nb_field0" by (rule grid_field_cong) simp
  finally show ?thesis .
qed

lemma average_nb:
  "average notebook_params nb_mesh xs = Inr (integral nb_mesh xs / 2)"
  by (simp add: average_def Integral_evaluate_def notebook_params_def)

lemma run_first_four:
  "run_cells g s [Imports, Setup_mesh, Create_field, Make_bc] empty_ns =
     (empty_ns\<lparr>uw_imported := True, glucifer_imported := True, ns_params := Some notebook_params,
        ns_mesh := Some nb_mesh, ns_store := [nb_var (replicate (nnodes nb_mesh) 0)],
        ns_temperatureField := Some 0,
        ns_botWalls := Some (Bottom_VertexSet nb_mesh), ns_topWalls := Some (Top_VertexSet nb_mesh),
        ns_bcWalls := Some (index_union (Bottom_VertexSet nb_mesh) (Top_VertexSet nb_mesh)),
        ns_tempBC := Some nb_bc\<rparr>, None)"
  by (simp add: empty_ns_def exec_cell_def stmt_defs need_uw_def need_def make_mesh_notebook
      specialSets_def DirichletCondition_def walls_in_range set_all_add_variable)

lemma run_all_from:
  assumes r: "r = length (ns_store ns)"
  shows "run_cells g s notebook_cells ns =
     (ns\<lparr>uw_imported := True, glucifer_imported := True, ns_params := Some notebook_params,
        ns_mesh := Some nb_mesh,
        ns_store := ns_store ns @ [nb_var (s nb_mesh (nb_heat_at r) nb_field0)],
        ns_temperatureField := Some r,
        ns_botWalls := Some (Bottom_VertexSet nb_mesh), ns_topWalls := Some (Top_VertexSet nb_mesh),
        ns_bcWalls := Some (index_union (Bottom_VertexSet nb_mesh) (Top_VertexSet nb_mesh)),
        ns_tempBC := Some (nb_bc_at r), ns_fig := Some (nb_fig r),
        ns_heatequation := Some (nb_heat_at r), ns_heatsolver := Some (nb_heat_at r),
        ns_tottemp := Some (r, nb_mesh),
        ns_avtemp := Some (integral nb_mesh (s nb_mesh (nb_heat_at r) nb_field0) / 2),
        ns_output := ns_output ns @ [fig_show (ns_store ns @ [nb_var nb_field0]) (nb_fig r),
           fig_show (ns_store ns @ [nb_var (s nb_mesh (nb_heat_at r) nb_field0)]) (nb_fig r)]\<rparr>,
      err_of (check_close (integral nb_mesh (s nb_mesh (nb_heat_at r) nb_field0) / 2)))"
  unfolding r
  by (simp add: notebook_cells_def exec_cell_def stmt_defs need_uw_def need_glucifer_def need_def
      make_mesh_notebook specialSets_def DirichletCondition_def walls_in_range set_all_add_variable
      nth_append set_rows_dof1 nb_field0_written SteadyStateHeat_def average_nb
      bindE_def err_of_def Let_def split: sum.split cong: if_cong)

lemma run_notebook_result:
  "run_notebook g s =
     (empty_ns\<lparr>uw_imported := True, glucifer_imported := True, ns_params := Some notebook_params,
        ns_mesh := Some nb_mesh, ns_store := [nb_var (s nb_mesh nb_heat nb_field0)],
        ns_temperatureField := Some 0,
        ns_botWalls := Some (Bottom_VertexSet nb_mesh), ns_topWalls := Some (Top_VertexSet nb_mesh),
        ns_bcWalls := Some (index_union (Bottom_VertexSet nb_mesh) (Top_VertexSet nb_mesh)),
        ns_tempBC := Some nb_bc, ns_fig := Some (nb_fig 0),
        ns_heatequation := Some nb_heat, ns_heatsolver := Some nb_heat,
        ns_tottemp := Some (0, nb_mesh),
        ns_avtemp := Some (integral nb_mesh (s nb_mesh nb_heat nb_field0) / 2),
        ns_output := [fig_show [nb_var nb_field0] (nb_fig 0),
                      fig_show [nb_var (s nb_mesh nb_heat nb_field0)] (nb_fig 0)]\<rparr>,
      err_of (check_close (integral nb_mesh (s nb_mesh nb_heat nb_field0) / 2)))"
  using run_all_from [of 0 empty_ns g s]
  by (simp add: run_notebook_def empty_ns_def)

lemma nb_dirichlet_nodes:
  "set (dirichlet_nodes nb_heat) = set (Bottom_VertexSet nb_mesh) \<union> set (Top_VertexSet nb_mesh)"
  by (simp add: dirichlet_nodes_def)

lemma nb_mesh_shape:
  "0 < nelx nb_mesh \<and> 0 < nely nb_mesh \<and> 0 < hx nb_mesh \<and> 0 < hy nb_mesh \<and>
   (hx nb_mesh)\<^sup>2 \<le> 2 * (hy nb_mesh)\<^sup>2 \<and> (hy nb_mesh)\<^sup>2 \<le> 2 * (hx nb_mesh)\<^sup>2"
  by (simp add: power2_eq_square)

lemma nb_field0_values: "n < nnodes nb_mesh \<Longrightarrow> nb_field0 ! n = 0 \<or> nb_field0 ! n = 1"
  by (simp add: grid_field_def)

lemma nb_linear_solves:
  "is_solution nb_mesh nb_heat nb_field0 (grid_field nb_mesh (\<lambda>i j. 1 - real j / 8))"
proof -
  have prof: "grid_field nb_mesh (\<lambda>i j. 1 + (0 - 1) / real (nely nb_mesh) * real j) =
              grid_field nb_mesh (\<lambda>i j. 1 - real j / 8)"
    by simp
  have "is_solution nb_mesh nb_heat nb_field0
          (grid_field nb_mesh (\<lambda>i j. 1 + (0 - 1) / real (nely nb_mesh) * real j))"
    by (rule linear_profile_solution) (simp_all add: nb_dirichlet_nodes gval_grid_field)
  then show ?thesis by (simp only: prof)
qed

lemma nb_heat_at_solution:
  "is_solution nb_mesh (nb_heat_at r) xs0 xs \<longleftrightarrow> is_solution nb_mesh nb_heat xs0 xs"
  by (simp add: is_solution_def dirichlet_nodes_def heat_residual_def)

lemma nb_solution_linear:
  assumes "is_solution nb_mesh nb_heat nb_field0 xs"
  shows "xs = grid_field nb_mesh (\<lambda>i j. 1 - real j / 8)"
proof -
  have "length xs = nnodes nb_mesh \<and>
        length (grid_field nb_mesh (\<lambda>i j. 1 - real j / 8)) = nnodes nb_mesh \<and>
        (\<forall>i \<le> nelx nb_mesh. \<forall>j \<le> nely nb_mesh.
           gval nb_mesh xs i j = gval nb_mesh (grid_field nb_mesh (\<lambda>i j. 1 - real j / 8)) i j)"
    by (rule solutions_agree [OF _ _ _ _ _ _ _ _ assms nb_linear_solves])
       (simp_all add: nb_dirichlet_nodes power2_eq_square)
  then show ?thesis by (blast intro: grid_field_eqI)
qed

lemma nb_profile_average:
  "integral nb_mesh (grid_field nb_mesh (\<lambda>i j. 1 - real j / 8)) / 2 = 1 / 2"
proof -
  have "integral nb_mesh (grid_field nb_mesh (\<lambda>i j. 1 + (0 - 1) / real (nely nb_mesh) * real j)) =
        (2 - 0) * (1 - 0) * (1 + 0) / 2"
    using integral_linear_profile [of nb_mesh 1 0] by simp
  then show ?thesis by simp
qed

lemma check_close_half [simp]: "check_close (1 / 2) = Inr ()"
  by (simp add: check_close_def isclose_def)

lemma wf_import_uw:
  "ns_wf ns \<Longrightarrow> import_uw ns = Inr ns' \<Longrightarrow> ns_wf ns'"
  by (auto simp: ns_wf_def option.pred_set need_def need_uw_def need_glucifer_def bindE_eq_Inr import_uw_def )

lemma wf_import_glucifer:
  "ns_wf ns \<Longrightarrow> import_glucifer ns = Inr ns' \<Longrightarrow> ns_wf ns'"
  by (auto simp: ns_wf_def option.pred_set need_def need_uw_def need_glucifer_def bindE_eq_Inr import_glucifer_def )

lemma wf_assign_params:
  "ns_wf ns \<Longrightarrow> assign_params ns = Inr ns' \<Longrightarrow> ns_wf ns'"
  by (auto simp: ns_wf_def option.pred_set need_def need_uw_def need_glucifer_def bindE_eq_Inr assign_params_def )

lemma wf_assign_mesh:
  "ns_wf ns \<Longrightarrow> assign_mesh ns = Inr ns' \<Longrightarrow> ns_wf ns'"
  by (auto simp: ns_wf_def option.pred_set need_def need_uw_def need_glucifer_def bindE_eq_Inr assign_mesh_def make_mesh_notebook split: if_splits option.splits)

lemma wf_assign_temperatureField:
  "ns_wf ns \<Longrightarrow> assign_temperatureField garbage ns = Inr ns' \<Longrightarrow> ns_wf ns'"
  by (auto simp: ns_wf_def option.pred_set need_def need_uw_def need_glucifer_def bindE_eq_Inr assign_temperatureField_def intro: drawings_ok_Suc split: option.splits)

lemma wf_zero_temperatureField:
  "ns_wf ns \<Longrightarrow> zero_temperatureField ns = Inr ns' \<Longrightarrow> ns_wf ns'"
  by (auto simp: ns_wf_def option.pred_set need_def need_uw_def need_glucifer_def bindE_eq_Inr zero_temperatureField_def list_all_iff dest!: set_update_subset_insert [THEN subsetD] split: option.splits)

lemma wf_assign_botWalls:
  "ns_wf ns \<Longrightarrow> assign_botWalls ns = Inr ns' \<Longrightarrow> ns_wf ns'"
  by (auto simp: ns_wf_def option.pred_set need_def need_uw_def need_glucifer_def bindE_eq_Inr assign_botWalls_def specialSets_def split: option.splits)

lemma wf_assign_topWalls:
  "ns_wf ns \<Longrightarrow> assign_topWalls ns = Inr ns' \<Longrightarrow> ns_wf ns'"
  by (auto simp: ns_wf_def option.pred_set need_def need_uw_def need_glucifer_def bindE_eq_Inr assign_topWalls_def specialSets_def split: option.splits)

lemma wf_assign_bcWalls:
  "ns_wf ns \<Longrightarrow> assign_bcWalls ns = Inr ns' \<Longrightarrow> ns_wf ns'"
  by (auto simp: ns_wf_def option.pred_set need_def need_uw_def need_glucifer_def bindE_eq_Inr assign_bcWalls_def split: option.splits)

lemma wf_assign_tempBC:
  "ns_wf ns \<Longrightarrow> assign_tempBC ns = Inr ns' \<Longrightarrow> ns_wf ns'"
  by (auto simp: ns_wf_def option.pred_set need_def need_uw_def need_glucifer_def bindE_eq_Inr assign_tempBC_def DirichletCondition_def split: option.splits if_splits)

lemma wf_set_wall_values:
  "ns_wf ns \<Longrightarrow> set_wall_values walls name v ns = Inr ns' \<Longrightarrow> ns_wf ns'"
  by (auto simp: ns_wf_def option.pred_set need_def need_uw_def need_glucifer_def bindE_eq_Inr set_wall_values_def list_all_iff dest!: set_rows_Inr_fields set_update_subset_insert [THEN subsetD] split: option.splits)

lemma wf_assign_fig:
  "ns_wf ns \<Longrightarrow> assign_fig ns = Inr ns' \<Longrightarrow> ns_wf ns'"
  by (auto simp: ns_wf_def option.pred_set need_def need_uw_def need_glucifer_def bindE_eq_Inr assign_fig_def split: if_splits)

lemma wf_append_mesh:
  "ns_wf ns \<Longrightarrow> append_mesh ns = Inr ns' \<Longrightarrow> ns_wf ns'"
  by (auto simp: ns_wf_def option.pred_set need_def need_uw_def need_glucifer_def bindE_eq_Inr append_mesh_def split: if_splits option.splits)

lemma wf_append_surface:
  "ns_wf ns \<Longrightarrow> append_surface ns = Inr ns' \<Longrightarrow> ns_wf ns'"
  by (auto simp: ns_wf_def option.pred_set need_def need_uw_def need_glucifer_def bindE_eq_Inr append_surface_def split: if_splits option.splits)

lemma wf_show_fig:
  "ns_wf ns \<Longrightarrow> show_fig ns = Inr ns' \<Longrightarrow> ns_wf ns'"
  by (auto simp: ns_wf_def option.pred_set need_def need_uw_def need_glucifer_def bindE_eq_Inr show_fig_def split: option.splits)

lemma wf_assign_heatequation:
  "ns_wf ns \<Longrightarrow> assign_heatequation ns = Inr ns' \<Longrightarrow> ns_wf ns'"
  by (auto simp: ns_wf_def option.pred_set need_def need_uw_def need_glucifer_def bindE_eq_Inr assign_heatequation_def SteadyStateHeat_def split: if_splits option.splits)

lemma wf_assign_heatsolver:
  "ns_wf ns \<Longrightarrow> assign_heatsolver ns = Inr ns' \<Longrightarrow> ns_wf ns'"
  by (auto simp: ns_wf_def option.pred_set need_def need_uw_def need_glucifer_def bindE_eq_Inr assign_heatsolver_def split: if_splits option.splits)

lemma wf_import_numpy:
  "ns_wf ns \<Longrightarrow> import_numpy ns = Inr ns' \<Longrightarrow> ns_wf ns'"
  by (auto simp: ns_wf_def option.pred_set need_def need_uw_def need_glucifer_def bindE_eq_Inr import_numpy_def )

lemma wf_assign_tottemp:
  "ns_wf ns \<Longrightarrow> assign_tottemp ns = Inr ns' \<Longrightarrow> ns_wf ns'"
  by (auto simp: ns_wf_def option.pred_set need_def need_uw_def need_glucifer_def bindE_eq_Inr assign_tottemp_def split: if_splits option.splits)

lemma wf_assign_avtemp:
  "ns_wf ns \<Longrightarrow> assign_avtemp ns = Inr ns' \<Longrightarrow> ns_wf ns'"
  by (auto simp: ns_wf_def option.pred_set need_def need_uw_def need_glucifer_def bindE_eq_Inr assign_avtemp_def split: option.splits prod.splits)

lemma wf_check_avtemp:
  "ns_wf ns \<Longrightarrow> check_avtemp ns = Inr ns' \<Longrightarrow> ns_wf ns'"
  by (auto simp: ns_wf_def option.pred_set need_def need_uw_def need_glucifer_def bindE_eq_Inr check_avtemp_def split: option.splits)


lemma wf_solve_heat:
  assumes len: "\<And>m eq xs. length (s m eq xs) = length xs"
  shows "ns_wf ns \<Longrightarrow> solve_heat s ns = Inr ns' \<Longrightarrow> ns_wf ns'"
  using len by (auto simp: ns_wf_def option.pred_set need_def bindE_eq_Inr solve_heat_def Let_def list_all_iff
    dest!: set_update_subset_insert [THEN subsetD] split: option.splits)

lemma stmt_wf:
  assumes wf: "ns_wf ns" and len: "\<And>m eq xs. length (s m eq xs) = length xs"
    and st: "st \<in> set (cell_stmts g s c)" and ex: "st ns = Inr ns'"
  shows "ns_wf ns'"
proof (cases c)
  case Imports
  with st ex show ?thesis by (auto intro: wf_import_uw [OF wf] wf_import_glucifer [OF wf])
next
  case Setup_mesh
  with st ex show ?thesis by (auto intro: wf_assign_params [OF wf] wf_assign_mesh [OF wf])
next
  case Create_field
  with st ex show ?thesis by (auto intro: wf_assign_temperatureField [OF wf] wf_zero_temperatureField [OF wf])
next
  case Make_bc
  with st ex show ?thesis by (auto intro: wf_assign_botWalls [OF wf] wf_assign_topWalls [OF wf] wf_assign_bcWalls [OF wf] wf_assign_tempBC [OF wf])
next
  case Set_bc_values
  with st ex show ?thesis by (auto intro: wf_set_wall_values [OF wf])
next
  case Show_initial
  with st ex show ?thesis by (auto intro: wf_assign_fig [OF wf] wf_append_mesh [OF wf] wf_append_surface [OF wf] wf_show_fig [OF wf])
next
  case Solve
  with st ex show ?thesis by (auto intro: wf_assign_heatequation [OF wf] wf_assign_heatsolver [OF wf] wf_solve_heat [OF len wf])
next
  case Show_solution
  with st ex show ?thesis by (auto intro: wf_show_fig [OF wf])
next
  case Check_average
  with st ex show ?thesis by (auto intro: wf_import_numpy [OF wf] wf_assign_tottemp [OF wf] wf_assign_avtemp [OF wf] wf_check_avtemp [OF wf])
qed

lemma run_stmts_wf:
  assumes "\<And>st ns ns'. st \<in> set sts \<Longrightarrow> ns_wf ns \<Longrightarrow> st ns = Inr ns' \<Longrightarrow> ns_wf ns'"
  shows "ns_wf ns \<Longrightarrow> ns_wf (fst (run_stmts sts ns))"
  using assms by (induction sts arbitrary: ns) (auto split: sum.split)

lemma exec_cell_wf:
  assumes "ns_wf ns" "\<And>m eq xs. length (s m eq xs) = length xs"
  shows "ns_wf (fst (exec_cell g s c ns))"
  unfolding exec_cell_def
  by (rule run_stmts_wf [OF stmt_wf [OF _ assms(2)] assms(1)])

lemma run_cells_reachable:
  "reachable g s ns \<Longrightarrow> reachable g s (fst (run_cells g s cs ns))"
proof (induction cs arbitrary: ns)
  case Nil
  then show ?case by simp
next
  case (Cons c cs)
  have "reachable g s (fst (exec_cell g s c ns))" using Cons.prems by (rule reachable.step)
  then show ?case using Cons.IH by (auto split: prod.split option.split)
qed

lemma wf_of_reachable:
  assumes len: "\<And>m eq xs. length (s m eq xs) = length xs"
    and r: "reachable g s ns"
  shows "ns_wf ns"
  using r
proof induction
  case start
  show ?case by (simp add: ns_wf_def empty_ns_def)
next
  case (step ns c)
  from step.IH show ?case by (rule exec_cell_wf [OF _ len])
qed

lemmas need_defs = need_def need_uw_def need_glucifer_def

lemma wf_store_var:
  "ns_wf ns \<Longrightarrow> r < length (ns_store ns) \<Longrightarrow>
     var_mesh (ns_store ns ! r) = nb_mesh \<and> nodeDofCount (ns_store ns ! r) = 1 \<and>
     length (data (ns_store ns ! r)) = nnodes nb_mesh"
  by (simp add: ns_wf_def list_all_length)

lemma set_wall_values_error:
  assumes wf: "ns_wf ns" and walls: "pred_option (list_all (\<lambda>n. n < nnodes nb_mesh)) (walls ns)"
    and ex: "set_wall_values walls name v ns = Inl e"
  shows "notebook_error e"
proof (cases "ns_temperatureField ns")
  case (Some r)
  with wf have r: "r < length (ns_store ns)" by (simp add: ns_wf_def)
  from wf_store_var [OF wf r] walls
  have "pred_option (\<lambda>idx. set_rows (ns_store ns ! r) idx v \<noteq> Inl e) (walls ns)"
    by (auto simp: set_rows_dof1 option.pred_set)
  with Some ex show ?thesis by (auto simp: set_wall_values_def need_def bindE_eq_Inl split: option.splits)
qed (use ex in \<open>auto simp: set_wall_values_def need_def\<close>)


lemma wf_walls:
  "ns_wf ns \<Longrightarrow>
     pred_option (list_all (\<lambda>n. n < nnodes nb_mesh)) (ns_botWalls ns) \<and>
     pred_option (list_all (\<lambda>n. n < nnodes nb_mesh)) (ns_topWalls ns) \<and>
     pred_option (list_all (\<lambda>n. n < nnodes nb_mesh)) (ns_bcWalls ns)"
  using walls_in_range [of nb_mesh]
  by (auto simp: ns_wf_def option.pred_set simp del: nb_mesh_geometry)

lemma stmt_progress:
  assumes wf: "ns_wf ns" and st: "st \<in> set (cell_stmts g s c)" and ex: "st ns = Inl e"
  shows "notebook_error e"
proof -
  have p: "pred_option (\<lambda>p. p = notebook_params) (ns_params ns)"
    and tf: "pred_option (\<lambda>r. r < length (ns_store ns)) (ns_temperatureField ns)"
    and tt: "pred_option (\<lambda>(r, m). r < length (ns_store ns) \<and> m = nb_mesh) (ns_tottemp ns)"
    using wf by (simp_all add: ns_wf_def)
  note w = wf_walls [OF wf]
  show ?thesis
  proof (cases c)
    case Imports
    with st ex show ?thesis by (auto simp: import_uw_def import_glucifer_def)
  next
    case Setup_mesh
    with st ex p show ?thesis
      by (auto simp: assign_params_def assign_mesh_def need_defs bindE_eq_Inl make_mesh_notebook
          split: option.splits if_splits)
  next
    case Create_field
    with st ex show ?thesis
      by (auto simp: assign_temperatureField_def zero_temperatureField_def need_defs bindE_eq_Inl
          split: option.splits)
  next
    case Make_bc
    with st ex tf w wf_store_var [OF wf] show ?thesis
      by (auto simp: assign_botWalls_def assign_topWalls_def assign_bcWalls_def assign_tempBC_def
          specialSets_def DirichletCondition_def need_defs bindE_eq_Inl
          split: option.splits if_splits simp del: nb_mesh_geometry)
  next
    case Set_bc_values
    with st ex w show ?thesis by (auto intro: set_wall_values_error [OF wf])
  next
    case Show_initial
    with st ex show ?thesis
      by (auto simp: assign_fig_def append_mesh_def append_surface_def show_fig_def need_defs
          bindE_eq_Inl split: option.splits if_splits)
  next
    case Solve
    with st ex tf wf_store_var [OF wf] show ?thesis
      by (auto simp: assign_heatequation_def assign_heatsolver_def solve_heat_def SteadyStateHeat_def
          need_defs bindE_eq_Inl Let_def split: option.splits if_splits)
  next
    case Show_solution
    with st ex show ?thesis by (auto simp: show_fig_def need_defs bindE_eq_Inl split: option.splits)
  next
    case Check_average
    with st ex p tt show ?thesis
      by (auto simp: import_numpy_def assign_tottemp_def assign_avtemp_def check_avtemp_def
          check_close_def average_nb need_defs bindE_eq_Inl split: option.splits if_splits)
  qed
qed

lemma run_stmts_error:
  assumes err: "\<And>st ns e. st \<in> T \<Longrightarrow> ns_wf ns \<Longrightarrow> st ns = Inl e \<Longrightarrow> notebook_error e"
    and wf: "\<And>st ns ns'. st \<in> T \<Longrightarrow> ns_wf ns \<Longrightarrow> st ns = Inr ns' \<Longrightarrow> ns_wf ns'"
  shows "set sts \<subseteq> T \<Longrightarrow> ns_wf ns \<Longrightarrow> snd (run_stmts sts ns) = Some e \<Longrightarrow> notebook_error e"
proof (induction sts arbitrary: ns)
  case (Cons st sts)
  then show ?case by (cases "st ns") (auto intro: err wf)
qed simp

lemma exec_cell_error:
  assumes wf: "ns_wf ns" and len: "\<And>m eq xs. length (s m eq xs) = length xs"
    and err: "snd (exec_cell g s c ns) = Some e"
  shows "notebook_error e"
proof (rule run_stmts_error [where T = "set (cell_stmts g s c)"])
  show "snd (run_stmts (cell_stmts g s c) ns) = Some e" using err by (simp add: exec_cell_def)
qed (auto intro: wf stmt_progress stmt_wf [OF _ len])

lemma stmt_bound_mono:
  assumes st: "st \<in> set (cell_stmts g s c)" and ex: "st ns = Inr ns'" and b: "is_bound ns n"
  shows "is_bound ns' n"
proof (cases c)
  case Imports
  with st ex b show ?thesis by (cases n) (auto simp: import_uw_def import_glucifer_def)
next
  case Setup_mesh
  with st ex b show ?thesis
    by (cases n) (auto simp: assign_params_def assign_mesh_def bindE_eq_Inr)
next
  case Create_field
  with st ex b show ?thesis
    by (cases n) (auto simp: assign_temperatureField_def zero_temperatureField_def bindE_eq_Inr)
next
  case Make_bc
  with st ex b show ?thesis
    by (cases n) (auto simp: assign_botWalls_def assign_topWalls_def assign_bcWalls_def
        assign_tempBC_def bindE_eq_Inr)
next
  case Set_bc_values
  with st ex b show ?thesis by (cases n) (auto simp: set_wall_values_def bindE_eq_Inr)
next
  case Show_initial
  with st ex b show ?thesis
    by (cases n) (auto simp: assign_fig_def append_mesh_def append_surface_def show_fig_def bindE_eq_Inr)
next
  case Solve
  with st ex b show ?thesis
    by (cases n) (auto simp: assign_heatequation_def assign_heatsolver_def solve_heat_def
        bindE_eq_Inr Let_def)
next
  case Show_solution
  with st ex b show ?thesis by (cases n) (auto simp: show_fig_def bindE_eq_Inr)
next
  case Check_average
  with st ex b show ?thesis
    by (cases n) (auto simp: import_numpy_def assign_tottemp_def assign_avtemp_def check_avtemp_def
        bindE_eq_Inr split: prod.splits)
qed

lemma run_stmts_bound_mono:
  assumes "\<And>st ns ns'. st \<in> T \<Longrightarrow> st ns = Inr ns' \<Longrightarrow> is_bound ns n \<Longrightarrow> is_bound ns' n"
  shows "set sts \<subseteq> T \<Longrightarrow> is_bound ns n \<Longrightarrow> is_bound (fst (run_stmts sts ns)) n"
  by (induction sts arbitrary: ns) (auto split: sum.splits intro: assms)

lemma exec_cell_bound_mono:
  "is_bound ns n \<Longrightarrow> is_bound (fst (exec_cell g s c ns)) n"
  unfolding exec_cell_def
  by (rule run_stmts_bound_mono [where T = "set (cell_stmts g s c)"]) (auto intro: stmt_bound_mono)


lemma exec_cell_definit:
  assumes wf: "ns_wf ns" and reads: "list_all (is_bound ns) (cell_reads c)"
  shows "(snd (exec_cell g s c ns) = None \<or>
          snd (exec_cell g s c ns) = Some (RuntimeError ''Incorrect average temperature produced by model. '')) \<and>
         list_all (is_bound (fst (exec_cell g s c ns))) (cell_binds c)"
proof -
  have p: "pred_option (\<lambda>p. p = notebook_params) (ns_params ns)"
    and m: "pred_option (\<lambda>m. m = nb_mesh) (ns_mesh ns)"
    and tf: "pred_option (\<lambda>r. r < length (ns_store ns)) (ns_temperatureField ns)"
    and bw: "pred_option (\<lambda>b. b = Bottom_VertexSet nb_mesh) (ns_botWalls ns)"
    and tw: "pred_option (\<lambda>t. t = Top_VertexSet nb_mesh) (ns_topWalls ns)"
    using wf by (simp_all add: ns_wf_def)
  note st = wf_store_var [OF wf]
  show ?thesis
  proof (cases c)
    case Imports
    then show ?thesis by (simp add: exec_cell_def import_uw_def import_glucifer_def)
  next
    case Setup_mesh
    with reads show ?thesis
      by (simp add: exec_cell_def assign_params_def assign_mesh_def need_defs make_mesh_notebook)
  next
    case Create_field
    with reads show ?thesis
      by (auto simp: exec_cell_def assign_temperatureField_def zero_temperatureField_def need_defs)
  next
    case Make_bc
    with reads m tf st walls_in_range [of nb_mesh] show ?thesis
      by (auto simp: exec_cell_def assign_botWalls_def assign_topWalls_def assign_bcWalls_def
          assign_tempBC_def specialSets_def DirichletCondition_def need_defs
          simp del: nb_mesh_geometry)
  next
    case Set_bc_values
    with reads tf bw tw st walls_in_range [of nb_mesh] show ?thesis
      by (auto simp: exec_cell_def set_wall_values_def set_rows_dof1 need_defs
          simp del: nb_mesh_geometry)
  next
    case Show_initial
    with reads show ?thesis
      by (auto simp: exec_cell_def assign_fig_def append_mesh_def append_surface_def show_fig_def
          need_defs)
  next
    case Solve
    with reads tf st show ?thesis
      by (auto simp: exec_cell_def assign_heatequation_def assign_heatsolver_def solve_heat_def
          SteadyStateHeat_def need_defs Let_def)
  next
    case Show_solution
    with reads show ?thesis by (auto simp: exec_cell_def show_fig_def need_defs)
  next
    case Check_average
    have half: "\<exists>y. a = y * 2" for a :: real by (rule exI [of _ "a / 2"]) simp
    with Check_average reads p m tf show ?thesis
      by (auto simp: half exec_cell_def import_numpy_def assign_tottemp_def assign_avtemp_def
          check_avtemp_def check_close_def average_nb need_defs split: if_splits)
  qed
qed


lemma run_cells_definit:
  assumes len: "\<And>m eq xs. length (s m eq xs) = length xs"
  shows "ns_wf ns \<Longrightarrow> list_all (is_bound ns) A \<Longrightarrow> definit A cs \<Longrightarrow>
    snd (run_cells g s cs ns) = None \<or>
    snd (run_cells g s cs ns) = Some (RuntimeError ''Incorrect average temperature produced by model. '')"
proof (induction cs arbitrary: ns A)
  case (Cons c cs)
  have reads: "list_all (is_bound ns) (cell_reads c)"
    using Cons.prems(2,3) by (auto simp: list_all_iff)
  note cell = exec_cell_definit [OF Cons.prems(1) reads, where g = g and s = s]
  show ?case
  proof (cases "snd (exec_cell g s c ns)")
    case None
    let ?ns' = "fst (exec_cell g s c ns)"
    have "ns_wf ?ns'" by (rule exec_cell_wf [OF Cons.prems(1) len])
    moreover have "list_all (is_bound ?ns') (A @ cell_binds c)"
      using Cons.prems(2) cell by (auto simp: list_all_iff intro: exec_cell_bound_mono)
    moreover have "definit (A @ cell_binds c) cs" using Cons.prems(3) by simp
    ultimately have "snd (run_cells g s cs ?ns') = None \<or>
        snd (run_cells g s cs ?ns') = Some (RuntimeError ''Incorrect average temperature produced by model. '')"
      by (rule Cons.IH)
    moreover from None obtain ns' where "exec_cell g s c ns = (ns', None)"
      by (cases "exec_cell g s c ns") auto
    ultimately show ?thesis by simp
  next
    case (Some e)
    with cell show ?thesis by (auto split: prod.splits)
  qed
qed simp

lemma set_wall_values_Inr:
  assumes "ns_temperatureField ns = Some r" "walls ns = Some idx" "r < length (ns_store ns)"
    "nodeDofCount (ns_store ns ! r) = 1" "list_all (\<lambda>n. n < length (data (ns_store ns ! r))) idx"
  shows "set_wall_values walls name v ns =
    Inr (ns\<lparr>ns_store := (ns_store ns)[r := (ns_store ns ! r)\<lparr>data :=
       map (\<lambda>p. if p \<in> set idx then v else data (ns_store ns ! r) ! p) [0..<length (data (ns_store ns ! r))]\<rparr>]\<rparr>)"
  using assms by (simp add: set_wall_values_def need_def set_rows_dof1)

text \<open>
  C7. Cell 5 on any namespace in which \<^verbatim>\<open>temperatureField\<close> names a scalar variable
  of the mesh and \<^verbatim>\<open>botWalls\<close>, \<^verbatim>\<open>topWalls\<close> are the mesh's bottom and top
  walls: it raises nothing, writes \<open>1\<close> on the bottom row and then \<open>0\<close> on the top row,
  keeps every other value, and changes nothing else; where the two walls share a vertex the
  later write, \<open>0\<close>, wins.
\<close>

theorem set_bc_values_effect:
  assumes r: "ns_temperatureField ns = Some r" "r < length (ns_store ns)"
    and f: "ns_store ns ! r = \<lparr>var_mesh = m, nodeDofCount = 1, data = xs\<rparr>" "length xs = nnodes m"
    and walls: "ns_botWalls ns = Some (Bottom_VertexSet m)" "ns_topWalls ns = Some (Top_VertexSet m)"
  shows "exec_cell g s Set_bc_values ns =
    (ns\<lparr>ns_store := (ns_store ns)[r := \<lparr>var_mesh = m, nodeDofCount = 1,
      data = grid_field m (\<lambda>i j. if j = nely m then 0 else if j = 0 then 1 else gval m xs i j)\<rparr>]\<rparr>, None)"
proof -
  have bot: "list_all (\<lambda>n. n < length xs) (Bottom_VertexSet m)"
    and top: "list_all (\<lambda>n. n < length xs) (Top_VertexSet m)"
    using walls_in_range [of m] f(2) by simp_all
  have data: "map (\<lambda>p. if p \<in> set (Top_VertexSet m) then 0
                 else map (\<lambda>p. if p \<in> set (Bottom_VertexSet m) then 1 else xs ! p)
                        [0..<length xs] ! p) [0..<length xs] =
    grid_field m (\<lambda>i j. if j = nely m then 0 else if j = 0 then 1 else gval m xs i j)"
    unfolding f(2) by (rule walls_written_in_order [OF f(2)])
  show ?thesis
    using r f(1) walls bot top
    by (simp add: exec_cell_def set_wall_values_Inr data cong: if_cong)
qed

text \<open>
  C8. Skipping cell 5 (running every other cell in order) makes the check of cell 9 raise
  for every solver that meets the contract: with all Dirichlet values still \<open>0\<close>, the
  only solution is the zero field, whose average is \<open>0\<close>.
\<close>

theorem skipping_bc_values_fails:
  assumes sol: "is_solution nb_mesh nb_heat (replicate (nnodes nb_mesh) 0)
                  (s nb_mesh nb_heat (replicate (nnodes nb_mesh) 0))"
  shows "snd (run_cells g s [Imports, Setup_mesh, Create_field, Make_bc,
                             Show_initial, Solve, Show_solution, Check_average] empty_ns) =
         Some (RuntimeError ''Incorrect average temperature produced by model. '')"
proof -
  have bottom: "set (Bottom_VertexSet nb_mesh) \<subseteq> set (dirichlet_nodes nb_heat)"
    by (simp add: nb_dirichlet_nodes)
  have zero_sol: "is_solution nb_mesh nb_heat (replicate (nnodes nb_mesh) 0) (replicate (nnodes nb_mesh) 0)"
    by (rule constant_solution) simp_all
  have "length (s nb_mesh nb_heat (replicate (nnodes nb_mesh) 0)) = nnodes nb_mesh \<and>
        length (replicate (nnodes nb_mesh) (0::real)) = nnodes nb_mesh \<and>
        (\<forall>i \<le> nelx nb_mesh. \<forall>j \<le> nely nb_mesh.
           gval nb_mesh (s nb_mesh nb_heat (replicate (nnodes nb_mesh) 0)) i j =
           gval nb_mesh (replicate (nnodes nb_mesh) 0) i j)"
    by (rule solutions_agree [OF _ _ _ _ _ _ bottom _ sol zero_sol])
       (simp_all add: power2_eq_square del: nb_mesh_geometry, simp_all)
  then have zero: "s nb_mesh nb_heat (replicate (nnodes nb_mesh) 0) = replicate (nnodes nb_mesh) 0"
    by (blast intro: grid_field_eqI)
  have cells: "[Imports, Setup_mesh, Create_field, Make_bc, Show_initial, Solve, Show_solution, Check_average] =
               [Imports, Setup_mesh, Create_field, Make_bc] @ [Show_initial, Solve, Show_solution, Check_average]"
    by simp
  show ?thesis
    unfolding cells run_cells_append run_first_four
    by (simp add: exec_cell_def stmt_defs need_uw_def need_glucifer_def need_def empty_ns_def
      SteadyStateHeat_def average_nb integral_const zero check_close_def isclose_def Let_def)
qed

text \<open>
  C9. The notebook uses the solver only through its output on the one problem it poses:
  two solvers (and any two initial contents of the allocated array) that agree on that
  problem give the same run.
\<close>

theorem run_depends_on_solver_output:
  assumes "s nb_mesh nb_heat nb_field0 = s' nb_mesh nb_heat nb_field0"
  shows "run_notebook g s = run_notebook g' s'"
  by (simp add: run_notebook_result assms)

lemma run_rerun_cells:
  "run_cells g s nb_rerun_cells empty_ns =
     (empty_ns\<lparr>uw_imported := True, glucifer_imported := True, ns_params := Some notebook_params,
        ns_mesh := Some nb_mesh,
        ns_store := [nb_var (replicate (nnodes nb_mesh) 0), nb_var (s nb_mesh nb_detached nb_field0)],
        ns_temperatureField := Some 1,
        ns_botWalls := Some (Bottom_VertexSet nb_mesh), ns_topWalls := Some (Top_VertexSet nb_mesh),
        ns_bcWalls := Some (index_union (Bottom_VertexSet nb_mesh) (Top_VertexSet nb_mesh)),
        ns_tempBC := Some nb_bc, ns_fig := Some (nb_fig 1),
        ns_heatequation := Some nb_detached, ns_heatsolver := Some nb_detached,
        ns_tottemp := Some (1, nb_mesh),
        ns_avtemp := Some (integral nb_mesh (s nb_mesh nb_detached nb_field0) / 2),
        ns_output := [fig_show [nb_var (replicate (nnodes nb_mesh) 0), nb_var nb_field0] (nb_fig 1),
                      fig_show [nb_var (replicate (nnodes nb_mesh) 0),
                                nb_var (s nb_mesh nb_detached nb_field0)] (nb_fig 1)]\<rparr>,
      err_of (check_close (integral nb_mesh (s nb_mesh nb_detached nb_field0) / 2)))"
proof -
  have cells: "nb_rerun_cells = [Imports, Setup_mesh, Create_field, Make_bc] @
                 [Create_field, Set_bc_values, Show_initial, Solve, Show_solution, Check_average]"
    by simp
  show ?thesis
    unfolding cells run_cells_append run_first_four
    by (simp add: exec_cell_def stmt_defs need_uw_def need_glucifer_def need_def empty_ns_def
      set_all_add_variable set_rows_dof1 walls_in_range nb_field0_written SteadyStateHeat_def
      average_nb bindE_def err_of_def Let_def split: sum.split cong: if_cong)
qed

text \<open>
  C10. Re-executing cell 3 after cell 4 and then running on detaches the boundary condition.
  For every solver and every initial content of new variables: cell 3 binds
  \<^verbatim>\<open>temperatureField\<close> to a new variable (address 1), but \<^verbatim>\<open>tempBC\<close> still refers to
  the old one (address 0), so the system cell 7 builds and hands to the solver is
  \<open>nb_detached\<close>, which installs no Dirichlet vertex, while the in-order run hands it
  \<open>nb_heat\<close>, whose Dirichlet vertices are both walls. Every constant field then meets the
  solver's contract for the detached system, and whether cell 9 raises depends on which one
  the solver returns.
\<close>

theorem rerun_field_detaches_condition:
  "ns_temperatureField (fst (run_cells g s nb_rerun_cells empty_ns)) = Some 1 \<and>
   ns_tempBC (fst (run_cells g s nb_rerun_cells empty_ns)) = Some (nb_bc_at 0) \<and>
   ns_heatsolver (fst (run_cells g s nb_rerun_cells empty_ns)) = Some nb_detached \<and>
   data (ns_store (fst (run_cells g s nb_rerun_cells empty_ns)) ! 1) = s nb_mesh nb_detached nb_field0 \<and>
   dirichlet_nodes nb_detached = [] \<and>
   ns_heatsolver (fst (run_notebook g s)) = Some nb_heat \<and>
   set (dirichlet_nodes nb_heat) = set (Bottom_VertexSet nb_mesh) \<union> set (Top_VertexSet nb_mesh) \<and>
   (\<forall>c. is_solution nb_mesh nb_detached nb_field0 (replicate (nnodes nb_mesh) c)) \<and>
   snd (run_cells g (\<lambda>_ _ _. replicate (nnodes nb_mesh) (1 / 2)) nb_rerun_cells empty_ns) = None \<and>
   snd (run_cells g (\<lambda>_ _ _. replicate (nnodes nb_mesh) 0) nb_rerun_cells empty_ns) =
     Some (RuntimeError ''Incorrect average temperature produced by model. '')"
proof (intro conjI allI)
  show "ns_temperatureField (fst (run_cells g s nb_rerun_cells empty_ns)) = Some 1"
    "ns_tempBC (fst (run_cells g s nb_rerun_cells empty_ns)) = Some (nb_bc_at 0)"
    "ns_heatsolver (fst (run_cells g s nb_rerun_cells empty_ns)) = Some nb_detached"
    "data (ns_store (fst (run_cells g s nb_rerun_cells empty_ns)) ! 1) = s nb_mesh nb_detached nb_field0"
    unfolding run_rerun_cells by (simp_all add: empty_ns_def)
  show "ns_heatsolver (fst (run_notebook g s)) = Some nb_heat"
    unfolding run_notebook_result by simp
  show "set (dirichlet_nodes nb_heat) = set (Bottom_VertexSet nb_mesh) \<union> set (Top_VertexSet nb_mesh)"
    by (rule nb_dirichlet_nodes)
  show dn: "dirichlet_nodes nb_detached = []" by (simp add: dirichlet_nodes_def)
  fix c
  show "is_solution nb_mesh nb_detached nb_field0 (replicate (nnodes nb_mesh) c)"
    by (rule constant_solution) (simp_all add: dirichlet_nodes_def)
next
  show "snd (run_cells g (\<lambda>_ _ _. replicate (nnodes nb_mesh) (1 / 2)) nb_rerun_cells empty_ns) = None"
    unfolding run_rerun_cells by (simp add: integral_const)
  show "snd (run_cells g (\<lambda>_ _ _. replicate (nnodes nb_mesh) 0) nb_rerun_cells empty_ns) =
     Some (RuntimeError ''Incorrect average temperature produced by model. '')"
    unfolding run_rerun_cells by (simp add: integral_const check_close_def isclose_def)
qed

text \<open>
  C11. Whatever order the cells are executed in, each as often as the user likes, and
  whether or not a cell raises part-way (keeping what its earlier statements did), every
  namespace the kernel reaches is well formed, provided the solver returns a field of the
  length it was given: the parameters and the mesh are the notebook's, every stored variable
  is a scalar field on the mesh, and every name that refers to a variable
  (\<^verbatim>\<open>temperatureField\<close>, \<^verbatim>\<open>tempBC\<close>, the figure's surface, the systems, the
  integral) refers to a stored one.
\<close>

theorem reachable_wf:
  assumes len: "\<And>m eq xs. length (s m eq xs) = length xs"
    and r: "reachable g s ns"
  shows "ns_wf ns"
  using wf_of_reachable [OF len r] .

text \<open>
  C14. The figure cell 6 builds refers to the temperature variable, not to a copy of its
  values: in a run of the notebook that raises nothing, cell 6 shows the mesh with the field
  as cell 5 left it, and cell 8, which shows the same figure object again without rebuilding
  it, shows the mesh with the field the solver returned.
\<close>

theorem figure_shows_solution:
  assumes "run_notebook g s = (ns, None)"
  shows "map img_objects (ns_output ns) =
    [[RMesh nb_mesh, RSurface nb_mesh nb_field0 ''blue white red''],
     [RMesh nb_mesh, RSurface nb_mesh (s nb_mesh nb_heat nb_field0) ''blue white red'']]"
proof -
  have "ns_output ns = [fig_show [nb_var nb_field0] (nb_fig 0),
                        fig_show [nb_var (s nb_mesh nb_heat nb_field0)] (nb_fig 0)]"
    using assms unfolding run_notebook_result by auto
  then show ?thesis by (simp add: fig_show_def)
qed

text \<open>
  C15. Run All recovers from any state of the kernel: whatever cells were executed before,
  in whatever order, however often and whether they raised, executing all cells in order
  again raises nothing, with a solver that meets the contract on the problem this run poses,
  and leaves the average temperature \<open>1/2\<close> and the linear profile in the variable
  \<^verbatim>\<open>temperatureField\<close> now names. Every name the cells read is rebound by an earlier
  statement of the same run.
\<close>

theorem run_all_recovers:
  assumes sol: "is_solution nb_mesh (nb_heat_at (length (ns_store ns))) nb_field0
                  (s nb_mesh (nb_heat_at (length (ns_store ns))) nb_field0)"
  shows "\<exists>ns'. run_cells g s notebook_cells ns = (ns', None) \<and> ns_avtemp ns' = Some (1 / 2) \<and>
              ns_temperatureField ns' = Some (length (ns_store ns)) \<and>
              data (ns_store ns' ! length (ns_store ns)) = grid_field nb_mesh (\<lambda>i j. 1 - real j / 8)"
proof -
  have eq: "s nb_mesh (nb_heat_at (length (ns_store ns))) nb_field0 = grid_field nb_mesh (\<lambda>i j. 1 - real j / 8)"
    using sol [THEN nb_heat_at_solution [THEN iffD1]] by (rule nb_solution_linear)
  show ?thesis
    unfolding run_all_from [OF refl] eq nb_profile_average
    by simp
qed

text \<open>
  C16. Type soundness of the notebook: in every namespace a kernel can reach, whatever cell
  is executed, the only exceptions it can raise are a \<^verbatim>\<open>NameError\<close> (a name no
  earlier cell bound) and the \<^verbatim>\<open>RuntimeError\<close> of the check of cell 9; the library
  calls (\<^verbatim>\<open>FeMesh_Cartesian\<close>, \<^verbatim>\<open>specialSets\<close>, \<^verbatim>\<open>DirichletCondition\<close>, the
  indexed assignments, \<^verbatim>\<open>SteadyStateHeat\<close>, the integral) never raise.
\<close>

theorem reachable_errors:
  assumes len: "\<And>m eq xs. length (s m eq xs) = length xs"
    and r: "reachable g s ns" and err: "snd (exec_cell g s c ns) = Some e"
  shows "notebook_error e"
  using exec_cell_error [OF wf_of_reachable [OF len r] len err] .


text \<open>
  C17. Definite initialisation: a sequence of cells each of which reads only names bound
  before it (by the namespace or by an earlier cell of the sequence), run from any reachable
  namespace, raises no \<^verbatim>\<open>NameError\<close>; it ends without exception or with the check's
  \<^verbatim>\<open>RuntimeError\<close>.
\<close>

theorem definit_run_errors:
  assumes len: "\<And>m eq xs. length (s m eq xs) = length xs"
    and r: "reachable g s ns" and A: "list_all (is_bound ns) A" and d: "definit A cs"
  shows "snd (run_cells g s cs ns) = None \<or>
    snd (run_cells g s cs ns) = Some (RuntimeError ''Incorrect average temperature produced by model. '')"
  using run_cells_definit [OF len wf_of_reachable [OF len r] A d] .

end
