(* ===== verification/Assembly.thy ===== *)
theory Assembly
  imports Heat
begin

text \<open>
  How underworld computes what the contract of \<^verbatim>\<open>solve()\<close> (\<open>Heat.is_solution\<close>)
  asks for, when cell 7 (\<^verbatim>\<open>src/newmodel.ipynb\<close>, lines 136--143) builds
  \<^verbatim>\<open>SteadyStateHeat\<close> and calls \<^verbatim>\<open>Solver(heatequation).solve()\<close>: the global
  stiffness matrix and load vector are assembled by a loop over the elements that adds each
  element's contribution into the entries of its corner vertices (\<open>scatter_add\<close>, a fold
  of indexed updates \<open>K[k := K ! k + v]\<close>); the matrix is stored flat, row-major, as
  PETSc's dense view of it. The Dirichlet vertices get identity rows with the field's current
  value on the right-hand side, which has the same solutions as underworld's removal of those
  unknowns from the system; the linear algebra is a parameter \<open>lin\<close> of
  \<open>uw_solve\<close>. The lemmas show that the scatter loop computes the per-vertex rows of
  \<open>Heat\<close> (\<open>assemble_matrix_row\<close>, \<open>assemble_load_entry\<close>) and that the linear
  system is equivalent to the contract (\<open>linear_system_iff_solution\<close>).
\<close>

section \<open>Global assembly\<close>

definition scatter_add :: "real list \<Rightarrow> (nat \<times> real) list \<Rightarrow> real list" where
  "scatter_add K ups = foldl (\<lambda>K (k, v). K[k := K ! k + v]) K ups"

definition mat_row :: "nat \<Rightarrow> real list \<Rightarrow> nat \<Rightarrow> real list \<Rightarrow> real" where
  "mat_row N A p x = (\<Sum>q<N. A ! (p * N + q) * x ! q)"

definition elements :: "mesh \<Rightarrow> (nat \<times> nat) list" where
  "elements m = concat (map (\<lambda>ey. map (\<lambda>ex. (ex, ey)) [0..<nelx m]) [0..<nely m])"

definition local_nodes :: "(nat \<times> nat) list" where
  "local_nodes = [(0, 0), (1, 0), (0, 1), (1, 1)]"

definition elem_node :: "mesh \<Rightarrow> nat \<Rightarrow> nat \<Rightarrow> nat \<times> nat \<Rightarrow> nat" where
  "elem_node m ex ey a = node_index m (ex + fst a) (ey + snd a)"

definition elem_matrix_updates :: "mesh \<Rightarrow> nat \<Rightarrow> nat \<Rightarrow> (nat \<times> real) list" where
  "elem_matrix_updates m ex ey =
     concat (map (\<lambda>a. map (\<lambda>b.
       (elem_node m ex ey a * nnodes m + elem_node m ex ey b,
        kloc (hx m) (hy m) (fst a) (snd a) (fst b) (snd b))) local_nodes) local_nodes)"

definition add_element :: "mesh \<Rightarrow> real list \<Rightarrow> nat \<times> nat \<Rightarrow> real list" where
  "add_element m K e = scatter_add K (elem_matrix_updates m (fst e) (snd e))"

definition assemble_matrix :: "mesh \<Rightarrow> real list" where
  "assemble_matrix m = foldl (add_element m) (replicate (nnodes m * nnodes m) 0) (elements m)"

definition elem_load_updates :: "mesh \<Rightarrow> real \<Rightarrow> nat \<Rightarrow> nat \<Rightarrow> (nat \<times> real) list" where
  "elem_load_updates m h ex ey = map (\<lambda>a. (elem_node m ex ey a, h * hx m * hy m / 4)) local_nodes"

definition assemble_load :: "mesh \<Rightarrow> real \<Rightarrow> real list" where
  "assemble_load m h =
     foldl (\<lambda>F e. scatter_add F (elem_load_updates m h (fst e) (snd e))) (replicate (nnodes m) 0) (elements m)"

definition sys_matrix :: "mesh \<Rightarrow> steady_state_heat \<Rightarrow> real list" where
  "sys_matrix m eq =
     (let K = assemble_matrix m; N = nnodes m in
      map (\<lambda>k. if k div N \<in> set (dirichlet_nodes eq) then (if k div N = k mod N then 1 else 0)
                else fn_diffusivity eq * K ! k) [0..<N * N])"

definition sys_rhs :: "mesh \<Rightarrow> steady_state_heat \<Rightarrow> real list \<Rightarrow> real list" where
  "sys_rhs m eq xs0 =
     (let F = assemble_load m (fn_heating eq) in
      map (\<lambda>p. if p \<in> set (dirichlet_nodes eq) then xs0 ! p else F ! p) [0..<nnodes m])"

definition mat_vec :: "nat \<Rightarrow> real list \<Rightarrow> real list \<Rightarrow> real list" where
  "mat_vec N A x = map (\<lambda>p. mat_row N A p x) [0..<N]"

type_synonym linear_solver = "real list \<Rightarrow> real list \<Rightarrow> real list"

definition uw_solve :: "linear_solver \<Rightarrow> solver" where
  "uw_solve lin m eq xs0 = lin (sys_matrix m eq) (sys_rhs m eq xs0)"

section \<open>Lemmas\<close>

lemma length_scatter_add [simp]: "length (scatter_add K ups) = length K"
  unfolding scatter_add_def by (induction ups arbitrary: K) auto

lemma nth_scatter_add:
  "k < length K \<Longrightarrow> scatter_add K ups ! k = K ! k + (\<Sum>(k', v)\<leftarrow>ups. if k' = k then v else 0)"
  unfolding scatter_add_def
  by (induction ups arbitrary: K) (auto simp: nth_list_update)

lemma flat_index_iff:
  fixes k p q N :: nat
  assumes "q < N"
  shows "k = p * N + q \<longleftrightarrow> k div N = p \<and> q = k mod N"
proof
  assume "k = p * N + q" then show "k div N = p \<and> q = k mod N" using assms by simp
next
  assume "k div N = p \<and> q = k mod N" then show "k = p * N + q" by (metis div_mult_mod_eq add.commute)
qed

lemma flat_index_bound:
  fixes p q N :: nat
  assumes "p < N" "q < N"
  shows "p * N + q < N * N"
proof -
  have "p * N + q < Suc p * N" using assms(2) by simp
  also have "\<dots> \<le> N * N" using assms(1) by (intro mult_le_mono1) simp
  finally show ?thesis .
qed

lemma row_sum_single:
  fixes x :: "real list"
  assumes "p < N"
  shows "(\<Sum>q<N. (if k = p * N + q then v else 0) * x ! q) =
         (if k div N = p then v * x ! (k mod N) else 0)"
proof -
  have "(\<Sum>q<N. (if k = p * N + q then v else 0) * x ! q) =
        (\<Sum>q<N. if q = k mod N then (if k div N = p then v * x ! q else 0) else 0)"
    by (intro sum.cong refl) (auto simp: flat_index_iff)
  also have "\<dots> = (if k div N = p then v * x ! (k mod N) else 0)"
    using assms by (simp add: sum.delta')
  finally show ?thesis .
qed

lemma mat_row_scatter_add:
  assumes "p < N" "length K = N * N"
  shows "mat_row N (scatter_add K ups) p x =
         mat_row N K p x + (\<Sum>(k, v)\<leftarrow>ups. if k div N = p then v * x ! (k mod N) else 0)"
  using assms
proof (induction ups arbitrary: K)
  case Nil
  then show ?case by (simp add: scatter_add_def)
next
  case (Cons u ups)
  obtain k v where u: "u = (k, v)" by fastforce
  have "mat_row N (K[k := K ! k + v]) p x =
        mat_row N K p x + (if k div N = p then v * x ! (k mod N) else 0)"
  proof -
    have "(K[k := K ! k + v]) ! (p * N + q) = K ! (p * N + q) + (if k = p * N + q then v else 0)"
      if "q < N" for q
    proof -
      have "p * N + q < N * N" using flat_index_bound [OF Cons.prems(1) that] .
      then show ?thesis using Cons.prems(2) by (auto simp: nth_list_update)
    qed
    then have "mat_row N (K[k := K ! k + v]) p x =
               (\<Sum>q<N. K ! (p * N + q) * x ! q + (if k = p * N + q then v else 0) * x ! q)"
      unfolding mat_row_def by (intro sum.cong refl) (simp add: distrib_right)
    then show ?thesis
      using row_sum_single [OF Cons.prems(1)] by (simp add: sum.distrib mat_row_def)
  qed
  moreover have "scatter_add K (u # ups) = scatter_add (K[k := K ! k + v]) ups"
    by (simp add: scatter_add_def u)
  ultimately show ?case
    using Cons.IH [of "K[k := K ! k + v]"] Cons.prems by (simp add: u)
qed

lemma sum_list_map_concat:
  "(\<Sum>u\<leftarrow>concat xss. h u) = (\<Sum>xs\<leftarrow>xss. \<Sum>u\<leftarrow>xs. h u)"
  by (induction xss) simp_all

lemma scatter_rows_pairs:
  fixes x :: "real list"
  assumes "\<forall>b\<in>set L. G b < N"
  shows "(\<Sum>(k, v)\<leftarrow>concat (map (\<lambda>a. map (\<lambda>b. (G a * N + G b, f a b)) L) L).
            if k div N = P then v * x ! (k mod N) else 0) =
         (\<Sum>a\<leftarrow>L. if G a = P then (\<Sum>b\<leftarrow>L. f a b * x ! G b) else 0)"
proof -
  have "(\<Sum>(k, v)\<leftarrow>map (\<lambda>b. (G a * N + G b, f a b)) L. if k div N = P then v * x ! (k mod N) else 0) =
        (if G a = P then (\<Sum>b\<leftarrow>L. f a b * x ! G b) else 0)" for a
    using assms by (induction L) auto
  then show ?thesis
    by (simp add: sum_list_map_concat comp_def)
qed

lemma elem_node_bound:
  "ex < nelx m \<Longrightarrow> ey < nely m \<Longrightarrow> a \<in> set local_nodes \<Longrightarrow> elem_node m ex ey a < nnodes m"
  unfolding local_nodes_def elem_node_def by (auto intro!: node_index_bound)

lemma elem_node_window:
  assumes e: "ex < nelx m" "ey < nely m" and ij: "i \<le> nelx m" "j \<le> nely m"
  shows "(\<Sum>a\<leftarrow>local_nodes. if elem_node m ex ey a = node_index m i j then R a else 0) =
         (if ex \<le> i \<and> i \<le> Suc ex \<and> ey \<le> j \<and> j \<le> Suc ey then R (i - ex, j - ey) else 0)"
proof -
  have inj: "elem_node m ex ey (a1, a2) = node_index m i j \<longleftrightarrow> ex + a1 = i \<and> ey + a2 = j"
    if "a1 \<le> 1" for a1 a2
  proof -
    have "ex + a1 \<le> nelx m" using that e by simp
    then show ?thesis unfolding elem_node_def fst_conv snd_conv using ij(1) by (rule node_index_inj)
  qed
  show ?thesis
    unfolding local_nodes_def
    by (simp add: inj) (auto simp: le_Suc_eq)
qed

lemma elem_row_local:
  "(\<Sum>b\<leftarrow>local_nodes. kloc dx dy (fst a) (snd a) (fst b) (snd b) * x ! elem_node m ex ey b) =
   elem_row dx dy (gval m x) ex ey (fst a) (snd a)"
  by (simp add: local_nodes_def elem_row_def gval_def elem_node_def)

lemma mat_row_foldl_add_element:
  assumes "p < nnodes m" "length K = nnodes m * nnodes m"
  shows "mat_row (nnodes m) (foldl (add_element m) K es) p x =
         mat_row (nnodes m) K p x +
         (\<Sum>e\<leftarrow>es. \<Sum>(k, v)\<leftarrow>elem_matrix_updates m (fst e) (snd e).
            if k div nnodes m = p then v * x ! (k mod nnodes m) else 0)"
  using assms(2)
proof (induction es arbitrary: K)
  case Nil
  then show ?case by simp
next
  case (Cons e es)
  then show ?case
    by (simp add: add_element_def mat_row_scatter_add [OF assms(1)])
qed

lemma mat_row_zero [simp]: "p < N \<Longrightarrow> mat_row N (replicate (N * N) 0) p x = 0"
proof -
  assume p: "p < N"
  have "p * N + q < N * N" if "q < N" for q using flat_index_bound [OF p that] .
  then show ?thesis by (simp add: mat_row_def)
qed

lemma mem_elements: "e \<in> set (elements m) \<longleftrightarrow> fst e < nelx m \<and> snd e < nely m"
  by (cases e) (force simp: elements_def)

lemma sum_list_elements:
  "(\<Sum>e\<leftarrow>elements m. f e) = (\<Sum>ey<nely m. \<Sum>ex<nelx m. f (ex, ey))"
  by (simp add: elements_def sum_list_map_concat comp_def interv_sum_list_conv_sum_set_nat
      atLeast0LessThan)

lemma assemble_row_swap:
  "assemble_row m c i j =
     (\<Sum>ey<nely m. \<Sum>ex<nelx m.
        if ex \<le> i \<and> i \<le> Suc ex \<and> ey \<le> j \<and> j \<le> Suc ey then c ex ey (i - ex) (j - ey) else 0)"
proof -
  have "assemble_row m c i j =
     (\<Sum>ex<nelx m. \<Sum>ey<nely m.
        if ex \<le> i \<and> i \<le> Suc ex \<and> ey \<le> j \<and> j \<le> Suc ey then c ex ey (i - ex) (j - ey) else 0)"
    unfolding assemble_row_def by (intro sum.cong refl) auto
  then show ?thesis by (simp only: sum.swap [of _ "{..<nelx m}"])
qed

lemma assemble_matrix_row:
  assumes ij: "i \<le> nelx m" "j \<le> nely m"
  shows "mat_row (nnodes m) (assemble_matrix m) (node_index m i j) x = stiffness_row m (gval m x) i j"
proof -
  let ?p = "node_index m i j"
  have p: "?p < nnodes m" using ij by (rule node_index_bound)
  have elem: "(\<Sum>(k, v)\<leftarrow>elem_matrix_updates m ex ey.
                 if k div nnodes m = ?p then v * x ! (k mod nnodes m) else 0) =
              (if ex \<le> i \<and> i \<le> Suc ex \<and> ey \<le> j \<and> j \<le> Suc ey
               then elem_row (hx m) (hy m) (gval m x) ex ey (i - ex) (j - ey) else 0)"
    if e: "ex < nelx m" "ey < nely m" for ex ey
  proof -
    have "\<forall>b\<in>set local_nodes. elem_node m ex ey b < nnodes m"
      using elem_node_bound [OF e] by blast
    from scatter_rows_pairs [OF this, where P = ?p and x = x and
        f = "\<lambda>a b. kloc (hx m) (hy m) (fst a) (snd a) (fst b) (snd b)"]
    show ?thesis
      unfolding elem_matrix_updates_def elem_row_local
      by (simp add: elem_node_window [OF e ij, where R = "\<lambda>a. elem_row (hx m) (hy m) (gval m x) ex ey (fst a) (snd a)"])
  qed
  have "mat_row (nnodes m) (assemble_matrix m) ?p x =
        (\<Sum>e\<leftarrow>elements m. \<Sum>(k, v)\<leftarrow>elem_matrix_updates m (fst e) (snd e).
            if k div nnodes m = ?p then v * x ! (k mod nnodes m) else 0)"
    unfolding assemble_matrix_def using p by (simp add: mat_row_foldl_add_element)
  also have "\<dots> = (\<Sum>ey<nely m. \<Sum>ex<nelx m.
        if ex \<le> i \<and> i \<le> Suc ex \<and> ey \<le> j \<and> j \<le> Suc ey
        then elem_row (hx m) (hy m) (gval m x) ex ey (i - ex) (j - ey) else 0)"
    unfolding sum_list_elements by (intro sum.cong refl) (simp add: elem)
  also have "\<dots> = stiffness_row m (gval m x) i j"
    unfolding stiffness_row_def assemble_row_swap ..
  finally show ?thesis .
qed

lemma nth_foldl_scatter_add:
  "k < length F \<Longrightarrow>
   foldl (\<lambda>F e. scatter_add F (U e)) F es ! k =
     F ! k + (\<Sum>e\<leftarrow>es. \<Sum>(k', v)\<leftarrow>U e. if k' = k then v else 0)"
  by (induction es arbitrary: F) (simp_all add: nth_scatter_add)

lemma assemble_load_entry:
  assumes ij: "i \<le> nelx m" "j \<le> nely m"
  shows "assemble_load m h ! node_index m i j = load_row m h i j"
proof -
  have p: "node_index m i j < nnodes m" using ij by (rule node_index_bound)
  have elem: "(\<Sum>(k', v)\<leftarrow>elem_load_updates m h ex ey. if k' = node_index m i j then v else 0) =
              (if ex \<le> i \<and> i \<le> Suc ex \<and> ey \<le> j \<and> j \<le> Suc ey
               then h * hx m * hy m / 4 else 0)"
    if e: "ex < nelx m" "ey < nely m" for ex ey
    using elem_node_window [OF e ij, where R = "\<lambda>_. h * hx m * hy m / 4"]
    by (simp add: elem_load_updates_def comp_def)
  have "assemble_load m h ! node_index m i j =
        (\<Sum>ey<nely m. \<Sum>ex<nelx m. if ex \<le> i \<and> i \<le> Suc ex \<and> ey \<le> j \<and> j \<le> Suc ey
           then h * hx m * hy m / 4 else 0)"
    unfolding assemble_load_def using p
    by (simp add: nth_foldl_scatter_add sum_list_elements elem)
  also have "\<dots> = load_row m h i j"
    unfolding load_row_def assemble_row_swap ..
  finally show ?thesis .
qed

lemma mat_row_sys_matrix:
  assumes p: "p < nnodes m"
  shows "mat_row (nnodes m) (sys_matrix m eq) p x =
         (if p \<in> set (dirichlet_nodes eq) then x ! p
          else fn_diffusivity eq * mat_row (nnodes m) (assemble_matrix m) p x)"
proof -
  have entry: "sys_matrix m eq ! (p * nnodes m + q) =
      (if p \<in> set (dirichlet_nodes eq) then (if p = q then 1 else 0)
       else fn_diffusivity eq * assemble_matrix m ! (p * nnodes m + q))" if q: "q < nnodes m" for q
    using flat_index_bound [OF p q] q by (simp add: sys_matrix_def Let_def)
  show ?thesis
    unfolding mat_row_def using p
    by (simp add: entry if_distrib [of "\<lambda>v. v * _"] sum_distrib_left mult.assoc sum.If_cases
        cong: if_cong)
qed

lemma nth_sys_rhs:
  "p < nnodes m \<Longrightarrow> sys_rhs m eq xs0 ! p =
     (if p \<in> set (dirichlet_nodes eq) then xs0 ! p else assemble_load m (fn_heating eq) ! p)"
  by (simp add: sys_rhs_def Let_def)

lemma heat_residual_matrix:
  assumes "p < nnodes m"
  shows "heat_residual m k h x (p mod Suc (nelx m)) (p div Suc (nelx m)) =
         k * mat_row (nnodes m) (assemble_matrix m) p x - assemble_load m h ! p"
proof -
  from node_index_surj [OF assms]
  have p: "p = node_index m (p mod Suc (nelx m)) (p div Suc (nelx m))"
    and ij: "p mod Suc (nelx m) \<le> nelx m" "p div Suc (nelx m) \<le> nely m" by auto
  show ?thesis
    unfolding heat_residual_def
    by (subst (3 4) p) (simp only: assemble_matrix_row [OF ij] assemble_load_entry [OF ij])
qed

lemma linear_system_iff_solution:
  assumes len: "length xs0 = nnodes m" "length x = nnodes m"
  shows "mat_vec (nnodes m) (sys_matrix m eq) x = sys_rhs m eq xs0 \<longleftrightarrow> is_solution m eq xs0 x"
proof -
  have "mat_vec (nnodes m) (sys_matrix m eq) x = sys_rhs m eq xs0 \<longleftrightarrow>
        (\<forall>p < nnodes m. mat_row (nnodes m) (sys_matrix m eq) p x = sys_rhs m eq xs0 ! p)"
    by (simp add: mat_vec_def list_eq_iff_nth_eq sys_rhs_def)
  also have "\<dots> \<longleftrightarrow> (\<forall>p < nnodes m.
      if p \<in> set (dirichlet_nodes eq) then x ! p = xs0 ! p
      else heat_residual m (fn_diffusivity eq) (fn_heating eq) x (p mod (nelx m + 1)) (p div (nelx m + 1)) = 0)"
    by (intro all_cong) (simp add: mat_row_sys_matrix nth_sys_rhs heat_residual_matrix)
  also have "\<dots> \<longleftrightarrow> is_solution m eq xs0 x"
    using len by (auto simp: is_solution_def list_all_iff)
  finally show ?thesis .
qed

text \<open>
  C12. The global stiffness matrix built by the element loop, scattering each element
  matrix into the rows and columns of its corners, applied to a field gives at every vertex
  the assembled stiffness row of that field: the scatter (underworld's assembly) and the
  gather (the row-wise form of the equations) compute the same operator.
\<close>

theorem assemble_matrix_mat_vec:
  assumes "length x = nnodes m"
  shows "mat_vec (nnodes m) (assemble_matrix m) x = grid_field m (stiffness_row m (gval m x))"
proof (rule nth_equalityI)
  show "length (mat_vec (nnodes m) (assemble_matrix m) x) = length (grid_field m (stiffness_row m (gval m x)))"
    by (simp add: mat_vec_def)
next
  fix p assume "p < length (mat_vec (nnodes m) (assemble_matrix m) x)"
  then have p: "p < nnodes m" by (simp add: mat_vec_def)
  from node_index_surj [OF p]
  have "p = node_index m (p mod Suc (nelx m)) (p div Suc (nelx m))"
    and ij: "p mod Suc (nelx m) \<le> nelx m" "p div Suc (nelx m) \<le> nely m" by auto
  then have "mat_row (nnodes m) (assemble_matrix m) p x =
             stiffness_row m (gval m x) (p mod Suc (nelx m)) (p div Suc (nelx m))"
    using assemble_matrix_row [OF ij, of x] by simp
  then show "mat_vec (nnodes m) (assemble_matrix m) x ! p = grid_field m (stiffness_row m (gval m x)) ! p"
    using p by (simp add: mat_vec_def grid_field_def)
qed

text \<open>
  C13. Underworld's solve refines the contract of \<^verbatim>\<open>solve()\<close>: for any linear solver
  handed the assembled system (stiffness rows times the diffusivity, identity rows with the
  field's current value at the Dirichlet vertices, the assembled load), the field it returns
  meets the contract exactly when it solves that linear system.
\<close>

theorem uw_solve_refines:
  assumes "length xs0 = nnodes m" "length (lin (sys_matrix m eq) (sys_rhs m eq xs0)) = nnodes m"
  shows "is_solution m eq xs0 (uw_solve lin m eq xs0) \<longleftrightarrow>
         mat_vec (nnodes m) (sys_matrix m eq) (lin (sys_matrix m eq) (sys_rhs m eq xs0)) = sys_rhs m eq xs0"
  using linear_system_iff_solution [OF assms] by (simp add: uw_solve_def)

end
