(* ===== verification/Spec2Isabelle.thy ===== *)
theory Spec2Isabelle
  imports Notebook Assembly
begin

text \<open>
  \<^bold>\<open>A verification development of \<^verbatim>\<open>src/newmodel.ipynb\<close>.\<close>
  The repository's program is one Jupyter notebook that uses underworld to solve the
  steady-state heat equation on a 2 x 1 box with a 16 x 8 mesh of bilinear (Q1) elements,
  with temperature 1 on the bottom and 0 on the top wall, and then checks that the average
  temperature is 0.5 (numpy's \<^verbatim>\<open>isclose\<close>), raising \<^verbatim>\<open>RuntimeError\<close> otherwise.
  Its nine code cells are: 1 imports, 2 parameters and mesh, 3 the temperature field,
  4 the wall vertex sets and the Dirichlet condition, 5 the wall values, 6 a figure,
  7 the heat system and its solve, 8 the figure again, 9 the check.

  \<^medskip>\<^bold>\<open>Theories.\<close>
  \<^item> \<open>Prelude\<close>: Python exceptions as the datatype \<open>py_error\<close>, the result type
    \<open>'a result = py_error + 'a\<close> with its bind \<open>bindE\<close>, index sets, and shared
    lemmas on windows of sums (the scatter step of assembly) and on lists.
  \<^item> \<open>Mesh\<close> (cell 2, lines 41--51; cell 4, lines 74--76): the record \<open>params\<close>,
    \<open>FeMesh_Cartesian\<close> with its \<^verbatim>\<open>ValueError\<close> guards, the Q1 vertex numbering
    \<open>node_index\<close>, element sizes \<open>hx\<close>, \<open>hy\<close>, the special vertex sets and their union.
  \<^item> \<open>Field\<close> (cells 3, 4, 5): \<^verbatim>\<open>MeshVariable\<close> as the record \<open>mesh_variable\<close>
    with a flat \<open>data\<close> array; \<open>add_variable\<close>, whole assignment \<open>set_all\<close>, indexed
    assignment \<open>set_rows\<close> (raising \<^verbatim>\<open>IndexError\<close>), \<open>DirichletCondition\<close>.
  \<^item> \<open>Heat\<close> (cell 7, lines 136--143): the Q1 element stiffness \<open>kloc\<close>, the assembly
    loop \<open>assemble_row\<close>, the system record \<open>steady_state_heat\<close> and the contract
    \<open>is_solution\<close> of \<^verbatim>\<open>solve()\<close>: at every non-Dirichlet vertex the assembled
    equation holds, at every Dirichlet vertex the field keeps its value from before the call.
  \<^item> \<open>Assembly\<close> (cell 7, how \<^verbatim>\<open>solve()\<close> works): the element loop
    \<open>assemble_matrix\<close> scattering each element matrix into a flat global matrix
    (\<open>scatter_add\<close>, a fold of indexed updates), the load vector \<open>assemble_load\<close>, the
    system \<open>sys_matrix\<close>/\<open>sys_rhs\<close> with identity rows at the Dirichlet vertices, and
    \<open>uw_solve\<close>, which hands that system to a linear solver \<open>lin\<close>.
  \<^item> \<open>Figure\<close> (cells 6 and 8): \<^verbatim>\<open>glucifer.Figure\<close> as a record of drawings, a
    \<^verbatim>\<open>Surface\<close> holding the address of the variable it colours, and
    \<^verbatim>\<open>fig.show()\<close> rendering from the store at the time of the call.
  \<^item> \<open>Integral\<close> (cell 9, lines 175--180): the integral of the Q1 interpolant,
    \<open>isclose\<close> with numpy's default tolerances, the average \<open>average\<close> of line 178
    and the check \<open>check_close\<close> of lines 179--180.
  \<^item> \<open>Notebook\<close>: the kernel namespace as the record \<open>namespace\<close> (names as options,
    unbound names raise \<^verbatim>\<open>NameError\<close>; a store of variables addressed by \<open>var_ref\<close>,
    since the condition, the system and the notebook share one object), one definition per
    statement of the source (\<open>import_uw\<close> \<dots> \<open>check_avtemp\<close>),
    the cells as lists of statements (\<open>cell_stmts\<close>), \<open>run_stmts\<close> stopping at the first
    exception and keeping the effects before it, \<open>exec_cell\<close>, \<open>run_cells\<close>,
    \<open>run_notebook\<close>, the output list of rendered images, and the step relation
    \<open>reachable\<close> of executions in any order. For the analysis of errors it adds the
    classification \<open>notebook_error\<close> of exceptions, the names of the namespace
    (\<open>name\<close>, \<open>is_bound\<close>), the names each cell reads before binding them and the names
    it binds (\<open>cell_reads\<close>, \<open>cell_binds\<close>, read off its statements), and the check
    \<open>definit\<close> of definite initialisation of a sequence of cells.
  \<^item> \<open>Heat\<close> also holds the closed form \<open>parabola\<close> of the heated problem (an analysis
    definition), and the row formulas for fields that depend on the vertical coordinate only.

  \<^medskip>\<^bold>\<open>Results.\<close>
  C1 and C2 (this theory): with any solver meeting the contract, the notebook runs to the
  end with average exactly \<open>1/2\<close> and field \<open>1 - y\<close>; a solver that skips the work is
  caught by cell 9. C3--C5 (\<open>Heat\<close>): the discrete problem has at most one solution when
  the bottom wall is fixed and the elements' aspect ratio lies within \<open>\<surd>2\<close> (a discrete
  maximum principle, by induction down the rows of the mesh), with walls \<open>a\<close> and \<open>b\<close>
  and no heating it is exactly the linear profile, and solutions are bounded by the Dirichlet
  values. C6 (\<open>Integral\<close>): line 178 computes \<open>(a + b) / 2\<close> on the linear profile for
  any mesh of cell 2. C7--C11 (\<open>Notebook\<close>): the effect of cell 5, the failure when it is
  skipped, that a run depends on the solver only through its output on the one problem posed,
  that re-running cell 3 after cell 4 hands the solver a system with no Dirichlet condition
  (where the in-order run hands it both walls), and that the namespace stays well formed under
  any order of execution. C12 and C13 (\<open>Assembly\<close>): the global matrix of the scatter loop
  is the operator of the per-vertex rows (equivalence of the two assembly orders), and
  \<open>uw_solve\<close> meets the contract of \<^verbatim>\<open>solve()\<close> exactly when its linear solver solves
  the system (refinement of the contract). C14 and C15 (\<open>Notebook\<close>): cell 8 shows the
  solved field although the figure was built before the solve, and Run All succeeds again from
  any kernel state. C16 (\<open>Notebook\<close>, type soundness in the style of progress and
  preservation): in every reachable namespace a cell raises only \<open>NameError\<close> or the
  check's \<open>RuntimeError\<close>, never an error of the library calls; it rests on the invariant
  \<open>ns_wf\<close>, which records that the wall sets are the mesh's, and on one progress lemma per
  cell. C17 (\<open>Notebook\<close>): a definitely initialised sequence of cells raises no
  \<open>NameError\<close> from any reachable namespace; the notebook's own order is one.
  Each theorem with hypotheses has a witness below that applies it to the notebook's data.
  Beside the claims, \<open>Heat.heated_well_posed\<close> records the sign of the heating term: with
  heating \<open>h\<close> and walls at 0 the solution is \<open>h / (2 k) * y * (H - y)\<close>, so the system
  solves \<open>-div (k grad T) = h\<close>, while the notebook's markdown (line 13) writes
  \<open>div (k grad T) = h\<close>; the notebook passes no heating, so its check is unaffected.

  \<^medskip>\<^bold>\<open>Choices and limits.\<close>
  Floats are modelled as reals: rounding in assembly and solve is not modelled; the check's
  tolerance is. The linear algebra (PETSc, inside underworld) is not in the repository: it is
  the parameter \<open>lin\<close> of \<open>uw_solve\<close>, or, where only the contract matters, the solver is a
  parameter constrained by \<open>is_solution\<close>. The Dirichlet vertices are modelled by identity
  rows, which has the same solutions as underworld's removal of those unknowns; the element matrices
  are the exact Q1 Galerkin ones, which underworld's Gauss rule computes on rectangles. The
  behaviour of library calls (\<^verbatim>\<open>FeMesh_Cartesian\<close>, \<^verbatim>\<open>specialSets\<close>,
  \<^verbatim>\<open>DirichletCondition\<close>, \<^verbatim>\<open>Integral\<close>) is taken from underworld's
  documentation. The initial contents of a new variable are a parameter \<open>g\<close>. Rendering
  (glucifer, cells 6 and 8) is modelled by what an image depicts (the mesh, the values coloured
  and the colour map), not by its pixels. No loop of the notebook is unbounded, so no fuel is
  needed; sums over the mesh are
  finite and the runs of cells are structural recursion, so every definition is total and no
  termination argument beyond HOL's structural recursion arises.

  \<^medskip>\<^bold>\<open>Not modelled.\<close> The linear algebra of the solve (PETSc) and floating-point
  rounding, for the reasons above; the pixels of rendered images; the module \<^verbatim>\<open>np\<close>,
  which is used only inside cell 9's check and whose \<^verbatim>\<open>isclose\<close> is modelled. The
  markdown cells hold no code.
\<close>

section \<open>End-to-end properties of the notebook\<close>

text \<open>
  C1. With any solver that meets the contract of \<^verbatim>\<open>solve()\<close> on the problem the
  notebook poses, running all cells in order succeeds: the check of cell 9 does not raise,
  the average temperature it computes is exactly \<open>1/2\<close>, and the field left in the
  notebook is the linear profile \<open>T = 1 - y\<close> at every vertex.
\<close>

theorem notebook_passes:
  assumes "is_solution nb_mesh nb_heat nb_field0 (s nb_mesh nb_heat nb_field0)"
  shows "\<exists>ns. run_notebook g s = (ns, None) \<and> ns_avtemp ns = Some (1 / 2) \<and>
              ns_store ns = [nb_var (grid_field nb_mesh (\<lambda>i j. 1 - real j / 8))]"
proof -
  have "s nb_mesh nb_heat nb_field0 = grid_field nb_mesh (\<lambda>i j. 1 - real j / 8)"
    using nb_solution_linear [OF assms] .
  then show ?thesis by (simp add: run_notebook_result nb_profile_average)
qed

text \<open>
  C2. A solver that skips the work and leaves the field as cell 5 set it (bottom row
  \<open>1\<close>, everything else \<open>0\<close>) makes the notebook raise the \<open>RuntimeError\<close> of
  cell 9: the average is then \<open>1/16\<close>, far outside numpy's tolerance around \<open>0.5\<close>.
\<close>

theorem skipped_solve_raises:
  "snd (run_notebook g (\<lambda>m eq xs. xs)) =
     Some (RuntimeError ''Incorrect average temperature produced by model. '')"
proof -
  let ?f = "\<lambda>j::nat. if j = 8 then 0 else if j = 0 then 1 else (0::real)"
  have "(\<Sum>ey<8. ?f ey + ?f (Suc ey)) = 1"
    by (simp add: eval_nat_numeral)
  then have "integral nb_mesh nb_field0 = 1 / 8"
    using integral_rows [of nb_mesh ?f] by simp
  then show ?thesis
    by (simp add: run_notebook_result check_close_def isclose_def)
qed

theorem notebook_passes_witness:
  "is_solution nb_mesh nb_heat nb_field0 (grid_field nb_mesh (\<lambda>i j. 1 - real j / 8)) \<and>
   (\<exists>ns. run_notebook (\<lambda>_. 0) (\<lambda>_ _ _. grid_field nb_mesh (\<lambda>i j. 1 - real j / 8)) = (ns, None) \<and>
     ns_avtemp ns = Some (1 / 2) \<and>
     ns_store ns = [nb_var (grid_field nb_mesh (\<lambda>i j. 1 - real j / 8))])"
  using nb_linear_solves
    notebook_passes [of "\<lambda>_ _ _. grid_field nb_mesh (\<lambda>i j. 1 - real j / 8)" "\<lambda>_. 0"]
  by simp

theorem solution_unique_witness:
  "0 < nelx nb_mesh \<and> 0 < hx nb_mesh \<and> 0 < hy nb_mesh \<and>
   (hx nb_mesh)\<^sup>2 \<le> 2 * (hy nb_mesh)\<^sup>2 \<and> (hy nb_mesh)\<^sup>2 \<le> 2 * (hx nb_mesh)\<^sup>2 \<and>
   fn_diffusivity nb_heat \<noteq> 0 \<and>
   set (Bottom_VertexSet nb_mesh) \<subseteq> set (dirichlet_nodes nb_heat) \<and>
   length nb_field0 = nnodes nb_mesh \<and>
   is_solution nb_mesh nb_heat nb_field0 (grid_field nb_mesh (\<lambda>i j. 1 - real j / 8)) \<and>
   is_solution nb_mesh nb_heat nb_field0 (grid_field nb_mesh (\<lambda>i j. (8 - real j) / 8)) \<and>
   grid_field nb_mesh (\<lambda>i j. 1 - real j / 8) = grid_field nb_mesh (\<lambda>i j. (8 - real j) / 8)"
proof -
  have other: "grid_field nb_mesh (\<lambda>i j. (8 - real j) / 8) = grid_field nb_mesh (\<lambda>i j. 1 - real j / 8)"
    by (simp add: diff_divide_distrib)
  have sol2: "is_solution nb_mesh nb_heat nb_field0 (grid_field nb_mesh (\<lambda>i j. (8 - real j) / 8))"
    using nb_linear_solves by (simp only: other)
  have bottom: "set (Bottom_VertexSet nb_mesh) \<subseteq> set (dirichlet_nodes nb_heat)"
    by (simp add: nb_dirichlet_nodes)
  show ?thesis
    using nb_mesh_shape bottom nb_linear_solves sol2
      solution_unique [OF _ _ _ _ _ _ bottom _ nb_linear_solves sol2]
    by simp
qed

theorem heat_well_posed_witness:
  "0 < nelx nb_mesh \<and> 0 < nely nb_mesh \<and> 0 < hx nb_mesh \<and> 0 < hy nb_mesh \<and>
   (hx nb_mesh)\<^sup>2 \<le> 2 * (hy nb_mesh)\<^sup>2 \<and> (hy nb_mesh)\<^sup>2 \<le> 2 * (hx nb_mesh)\<^sup>2 \<and>
   fn_diffusivity nb_heat \<noteq> 0 \<and> fn_heating nb_heat = 0 \<and>
   set (dirichlet_nodes nb_heat) = set (Bottom_VertexSet nb_mesh) \<union> set (Top_VertexSet nb_mesh) \<and>
   length nb_field0 = nnodes nb_mesh \<and>
   list_all (\<lambda>i. gval nb_mesh nb_field0 i 0 = 1) [0..<nelx nb_mesh + 1] \<and>
   list_all (\<lambda>i. gval nb_mesh nb_field0 i (nely nb_mesh) = 0) [0..<nelx nb_mesh + 1] \<and>
   (is_solution nb_mesh nb_heat nb_field0
      (grid_field nb_mesh (\<lambda>i j. 1 + (0 - 1) / real (nely nb_mesh) * real j)) \<longleftrightarrow>
    grid_field nb_mesh (\<lambda>i j. 1 + (0 - 1) / real (nely nb_mesh) * real j) =
    grid_field nb_mesh (\<lambda>i j. 1 + (0 - 1) / real (nely nb_mesh) * real j))"
proof -
  have bot: "\<And>i. i \<le> nelx nb_mesh \<Longrightarrow> gval nb_mesh nb_field0 i 0 = 1"
    by (simp add: gval_grid_field)
  have top: "\<And>i. i \<le> nelx nb_mesh \<Longrightarrow> gval nb_mesh nb_field0 i (nely nb_mesh) = 0"
    by (simp add: gval_grid_field)
  have "list_all (\<lambda>i. gval nb_mesh nb_field0 i 0 = 1) [0..<nelx nb_mesh + 1]"
       "list_all (\<lambda>i. gval nb_mesh nb_field0 i (nely nb_mesh) = 0) [0..<nelx nb_mesh + 1]"
    using bot top by (simp_all add: list_all_iff del: nb_mesh_geometry)
  then show ?thesis
    using nb_mesh_shape nb_dirichlet_nodes
      heat_well_posed [OF _ _ _ _ _ _ _ _ nb_dirichlet_nodes _ bot top,
        of "grid_field nb_mesh (\<lambda>i j. 1 + (0 - 1) / real (nely nb_mesh) * real j)"]
    by simp
qed

theorem solution_bounded_witness:
  "0 < nelx nb_mesh \<and> 0 < hx nb_mesh \<and> 0 < hy nb_mesh \<and>
   (hx nb_mesh)\<^sup>2 \<le> 2 * (hy nb_mesh)\<^sup>2 \<and> (hy nb_mesh)\<^sup>2 \<le> 2 * (hx nb_mesh)\<^sup>2 \<and>
   fn_diffusivity nb_heat \<noteq> 0 \<and> fn_heating nb_heat = 0 \<and>
   set (Bottom_VertexSet nb_mesh) \<subseteq> set (dirichlet_nodes nb_heat) \<and>
   length nb_field0 = nnodes nb_mesh \<and>
   list_all (\<lambda>n. 0 \<le> nb_field0 ! n \<and> nb_field0 ! n \<le> 1) (dirichlet_nodes nb_heat) \<and>
   is_solution nb_mesh nb_heat nb_field0 (grid_field nb_mesh (\<lambda>i j. 1 - real j / 8)) \<and>
   list_all (\<lambda>v. 0 \<le> v \<and> v \<le> 1) (grid_field nb_mesh (\<lambda>i j. 1 - real j / 8))"
proof -
  have bottom: "set (Bottom_VertexSet nb_mesh) \<subseteq> set (dirichlet_nodes nb_heat)"
    by (simp add: nb_dirichlet_nodes)
  have bounds: "list_all (\<lambda>n. 0 \<le> nb_field0 ! n \<and> nb_field0 ! n \<le> 1) (dirichlet_nodes nb_heat)"
  proof -
    have "n \<in> set (dirichlet_nodes nb_heat) \<Longrightarrow> n < nnodes nb_mesh" for n
      using walls_in_range [of nb_mesh] by (auto simp: dirichlet_nodes_def list_all_iff)
    then show ?thesis using nb_field0_values by (fastforce simp: list_all_iff)
  qed
  show ?thesis
    using nb_mesh_shape bottom bounds nb_linear_solves
      solution_bounded [OF _ _ _ _ _ _ _ bottom _ bounds nb_linear_solves]
    by simp
qed

theorem average_profile_witness:
  "make_mesh notebook_params = Inr nb_mesh \<and>
   average notebook_params nb_mesh
     (grid_field nb_mesh (\<lambda>i j. 1 + (0 - 1) / real (nely nb_mesh) * real j)) = Inr (1 / 2)"
  using make_mesh_notebook average_profile [of notebook_params nb_mesh 1 0]
  by simp

theorem set_bc_values_effect_witness:
  "ns_temperatureField (empty_ns\<lparr>ns_store := [nb_var (replicate (nnodes nb_mesh) 0)],
      ns_temperatureField := Some 0, ns_botWalls := Some (Bottom_VertexSet nb_mesh),
      ns_topWalls := Some (Top_VertexSet nb_mesh)\<rparr>) = Some 0 \<and>
   exec_cell (\<lambda>_. 0) (\<lambda>m eq xs. xs) Set_bc_values (empty_ns\<lparr>ns_store := [nb_var (replicate (nnodes nb_mesh) 0)],
      ns_temperatureField := Some 0, ns_botWalls := Some (Bottom_VertexSet nb_mesh),
      ns_topWalls := Some (Top_VertexSet nb_mesh)\<rparr>) =
   (empty_ns\<lparr>ns_store := [nb_var (grid_field nb_mesh (\<lambda>i j. if j = nely nb_mesh then 0
        else if j = 0 then 1 else gval nb_mesh (replicate (nnodes nb_mesh) 0) i j))],
      ns_temperatureField := Some 0, ns_botWalls := Some (Bottom_VertexSet nb_mesh),
      ns_topWalls := Some (Top_VertexSet nb_mesh)\<rparr>, None)"
  using set_bc_values_effect [of "empty_ns\<lparr>ns_store := [nb_var (replicate (nnodes nb_mesh) 0)],
      ns_temperatureField := Some 0, ns_botWalls := Some (Bottom_VertexSet nb_mesh),
      ns_topWalls := Some (Top_VertexSet nb_mesh)\<rparr>" 0 nb_mesh "replicate (nnodes nb_mesh) 0" "\<lambda>_. 0" "\<lambda>m eq xs. xs"]
  by (simp add: empty_ns_def del: nb_mesh_geometry)

theorem skipping_bc_values_fails_witness:
  "is_solution nb_mesh nb_heat (replicate (nnodes nb_mesh) 0) (replicate (nnodes nb_mesh) 0) \<and>
   snd (run_cells (\<lambda>_. 0) (\<lambda>m eq xs. xs) [Imports, Setup_mesh, Create_field, Make_bc,
     Show_initial, Solve, Show_solution, Check_average] empty_ns) =
   Some (RuntimeError ''Incorrect average temperature produced by model. '')"
proof -
  have sol: "is_solution nb_mesh nb_heat (replicate (nnodes nb_mesh) 0) (replicate (nnodes nb_mesh) 0)"
    by (rule constant_solution) simp_all
  show ?thesis
    using sol skipping_bc_values_fails [of "\<lambda>m eq xs. xs" "\<lambda>_. 0"] by simp
qed

theorem run_depends_on_solver_output_witness:
  "(\<lambda>m eq xs. xs) nb_mesh nb_heat nb_field0 = (\<lambda>_ _ _. nb_field0) nb_mesh nb_heat nb_field0 \<and>
   run_notebook (\<lambda>_. 0) (\<lambda>m eq xs. xs) = run_notebook (\<lambda>_. 1) (\<lambda>_ _ _. nb_field0)"
  using run_depends_on_solver_output [of "\<lambda>m eq xs. xs" "\<lambda>_ _ _. nb_field0" "\<lambda>_. 0" "\<lambda>_. 1"]
  by simp

theorem reachable_wf_witness:
  "(\<forall>m eq xs. length ((\<lambda>m eq xs. xs) m eq (xs::real list)) = length xs) \<and>
   reachable (\<lambda>_. 0) (\<lambda>m eq xs. xs)
     (empty_ns\<lparr>uw_imported := True, glucifer_imported := True, ns_params := Some notebook_params,
        ns_mesh := Some nb_mesh, ns_store := [nb_var (replicate (nnodes nb_mesh) 0)],
        ns_temperatureField := Some 0,
        ns_botWalls := Some (Bottom_VertexSet nb_mesh), ns_topWalls := Some (Top_VertexSet nb_mesh),
        ns_bcWalls := Some (index_union (Bottom_VertexSet nb_mesh) (Top_VertexSet nb_mesh)),
        ns_tempBC := Some nb_bc\<rparr>) \<and>
   ns_wf (empty_ns\<lparr>uw_imported := True, glucifer_imported := True, ns_params := Some notebook_params,
        ns_mesh := Some nb_mesh, ns_store := [nb_var (replicate (nnodes nb_mesh) 0)],
        ns_temperatureField := Some 0,
        ns_botWalls := Some (Bottom_VertexSet nb_mesh), ns_topWalls := Some (Top_VertexSet nb_mesh),
        ns_bcWalls := Some (index_union (Bottom_VertexSet nb_mesh) (Top_VertexSet nb_mesh)),
        ns_tempBC := Some nb_bc\<rparr>)"
proof -
  have r: "reachable (\<lambda>_. 0) (\<lambda>m eq xs. xs)
     (empty_ns\<lparr>uw_imported := True, glucifer_imported := True, ns_params := Some notebook_params,
        ns_mesh := Some nb_mesh, ns_store := [nb_var (replicate (nnodes nb_mesh) 0)],
        ns_temperatureField := Some 0,
        ns_botWalls := Some (Bottom_VertexSet nb_mesh), ns_topWalls := Some (Top_VertexSet nb_mesh),
        ns_bcWalls := Some (index_union (Bottom_VertexSet nb_mesh) (Top_VertexSet nb_mesh)),
        ns_tempBC := Some nb_bc\<rparr>)"
    using run_cells_reachable [OF reachable.start, of "\<lambda>_. 0" "\<lambda>m eq xs. xs"
      "[Imports, Setup_mesh, Create_field, Make_bc]"]
    by (simp only: run_first_four fst_conv)
  show ?thesis
    using r reachable_wf [of "\<lambda>m eq xs. xs", OF _ r] by simp
qed

theorem assemble_matrix_mat_vec_witness:
  "length (grid_field nb_mesh (\<lambda>i j. 1 - real j / 8)) = nnodes nb_mesh \<and>
   mat_vec (nnodes nb_mesh) (assemble_matrix nb_mesh) (grid_field nb_mesh (\<lambda>i j. 1 - real j / 8)) =
   grid_field nb_mesh (stiffness_row nb_mesh (gval nb_mesh (grid_field nb_mesh (\<lambda>i j. 1 - real j / 8))))"
  using assemble_matrix_mat_vec [of "grid_field nb_mesh (\<lambda>i j. 1 - real j / 8)" nb_mesh]
  by (simp only: length_grid_field simp_thms)

theorem uw_solve_refines_witness:
  "length nb_field0 = nnodes nb_mesh \<and>
   length ((\<lambda>_ _. grid_field nb_mesh (\<lambda>i j. 1 - real j / 8))
     (sys_matrix nb_mesh nb_heat) (sys_rhs nb_mesh nb_heat nb_field0)) = nnodes nb_mesh \<and>
   (is_solution nb_mesh nb_heat nb_field0
      (uw_solve (\<lambda>_ _. grid_field nb_mesh (\<lambda>i j. 1 - real j / 8)) nb_mesh nb_heat nb_field0) \<longleftrightarrow>
    mat_vec (nnodes nb_mesh) (sys_matrix nb_mesh nb_heat) (grid_field nb_mesh (\<lambda>i j. 1 - real j / 8)) =
      sys_rhs nb_mesh nb_heat nb_field0)"
  using uw_solve_refines [of nb_field0 nb_mesh "\<lambda>_ _. grid_field nb_mesh (\<lambda>i j. 1 - real j / 8)" nb_heat]
  by (simp only: length_grid_field simp_thms)

theorem figure_shows_solution_witness:
  "\<exists>ns. run_notebook (\<lambda>_. 0) (\<lambda>_ _ _. grid_field nb_mesh (\<lambda>i j. 1 - real j / 8)) = (ns, None) \<and>
     map img_objects (ns_output ns) =
       [[RMesh nb_mesh, RSurface nb_mesh nb_field0 ''blue white red''],
        [RMesh nb_mesh, RSurface nb_mesh (grid_field nb_mesh (\<lambda>i j. 1 - real j / 8)) ''blue white red'']]"
proof -
  obtain ns where run: "run_notebook (\<lambda>_. 0) (\<lambda>_ _ _. grid_field nb_mesh (\<lambda>i j. 1 - real j / 8)) = (ns, None)"
    by (simp add: run_notebook_result nb_profile_average)
  show ?thesis
    using run figure_shows_solution [OF run] by simp
qed

theorem run_all_recovers_witness:
  "is_solution nb_mesh (nb_heat_at (length (ns_store (empty_ns\<lparr>ns_store := [nb_var nb_field0, nb_var nb_field0]\<rparr>))))
     nb_field0 (grid_field nb_mesh (\<lambda>i j. 1 - real j / 8)) \<and>
   (\<exists>ns'. run_cells (\<lambda>_. 0) (\<lambda>_ _ _. grid_field nb_mesh (\<lambda>i j. 1 - real j / 8)) notebook_cells
       (empty_ns\<lparr>ns_store := [nb_var nb_field0, nb_var nb_field0]\<rparr>) = (ns', None) \<and>
     ns_avtemp ns' = Some (1 / 2) \<and> ns_temperatureField ns' = Some 2 \<and>
     data (ns_store ns' ! 2) = grid_field nb_mesh (\<lambda>i j. 1 - real j / 8))"
proof -
  have sol: "is_solution nb_mesh (nb_heat_at (length (ns_store (empty_ns\<lparr>ns_store := [nb_var nb_field0, nb_var nb_field0]\<rparr>))))
     nb_field0 (grid_field nb_mesh (\<lambda>i j. 1 - real j / 8))"
    by (rule nb_heat_at_solution [THEN iffD2, OF nb_linear_solves])
  show ?thesis
    using sol run_all_recovers [where s = "\<lambda>_ _ _. grid_field nb_mesh (\<lambda>i j. 1 - real j / 8)" and
      ns = "empty_ns\<lparr>ns_store := [nb_var nb_field0, nb_var nb_field0]\<rparr>" and g = "\<lambda>_. 0"]
    by (simp add: numeral_2_eq_2)
qed

theorem heated_well_posed_witness:
  "0 < nelx nb_mesh \<and> 0 < nely nb_mesh \<and> 0 < hx nb_mesh \<and> 0 < hy nb_mesh \<and>
   (hx nb_mesh)\<^sup>2 \<le> 2 * (hy nb_mesh)\<^sup>2 \<and> (hy nb_mesh)\<^sup>2 \<le> 2 * (hx nb_mesh)\<^sup>2 \<and>
   fn_diffusivity (nb_heat\<lparr>fn_heating := 1\<rparr>) \<noteq> 0 \<and>
   set (dirichlet_nodes (nb_heat\<lparr>fn_heating := 1\<rparr>)) =
     set (Bottom_VertexSet nb_mesh) \<union> set (Top_VertexSet nb_mesh) \<and>
   length (replicate (nnodes nb_mesh) (0::real)) = nnodes nb_mesh \<and>
   list_all (\<lambda>i. gval nb_mesh (replicate (nnodes nb_mesh) 0) i 0 = 0) [0..<nelx nb_mesh + 1] \<and>
   list_all (\<lambda>i. gval nb_mesh (replicate (nnodes nb_mesh) 0) i (nely nb_mesh) = 0)
     [0..<nelx nb_mesh + 1] \<and>
   is_solution nb_mesh (nb_heat\<lparr>fn_heating := 1\<rparr>) (replicate (nnodes nb_mesh) 0)
     (grid_field nb_mesh (\<lambda>i j. parabola nb_mesh 1 1 j)) \<and>
   parabola nb_mesh 1 1 4 = 1 / 8"
proof -
  have dn: "set (dirichlet_nodes (nb_heat\<lparr>fn_heating := 1\<rparr>)) =
            set (Bottom_VertexSet nb_mesh) \<union> set (Top_VertexSet nb_mesh)"
    by (simp add: dirichlet_nodes_def)
  have wall: "\<And>i j. i \<le> nelx nb_mesh \<Longrightarrow> j \<le> nely nb_mesh \<Longrightarrow>
                gval nb_mesh (replicate (nnodes nb_mesh) 0) i j = 0"
    by (simp add: gval_def node_index_bound del: nb_mesh_geometry)
  have "is_solution nb_mesh (nb_heat\<lparr>fn_heating := 1\<rparr>) (replicate (nnodes nb_mesh) 0)
          (grid_field nb_mesh (\<lambda>i j. parabola nb_mesh 1 1 j))"
    using heated_well_posed [OF _ _ _ _ _ _ _ dn _ wall wall] nb_mesh_shape by simp
  moreover have "list_all (\<lambda>i. gval nb_mesh (replicate (nnodes nb_mesh) 0) i 0 = 0) [0..<nelx nb_mesh + 1]"
       "list_all (\<lambda>i. gval nb_mesh (replicate (nnodes nb_mesh) 0) i (nely nb_mesh) = 0)
          [0..<nelx nb_mesh + 1]"
    using wall by (simp_all add: list_all_iff del: nb_mesh_geometry)
  ultimately show ?thesis using nb_mesh_shape dn by (simp add: parabola_def power2_eq_square)
qed

theorem definit_run_errors_witness:
  "(\<forall>m eq (xs :: real list). length ((\<lambda>m eq xs. xs) m eq xs) = length xs) \<and>
   reachable (\<lambda>_. 0) (\<lambda>m eq xs. xs) empty_ns \<and> list_all (is_bound empty_ns) [] \<and>
   definit [] notebook_cells \<and>
   (snd (run_cells (\<lambda>_. 0) (\<lambda>m eq xs. xs) notebook_cells empty_ns) = None \<or>
    snd (run_cells (\<lambda>_. 0) (\<lambda>m eq xs. xs) notebook_cells empty_ns) =
      Some (RuntimeError ''Incorrect average temperature produced by model. ''))"
proof -
  have r: "reachable (\<lambda>_. 0) (\<lambda>m eq xs. xs) empty_ns" by (rule reachable.start)
  have d: "definit [] notebook_cells" by (simp add: notebook_cells_def)
  show ?thesis
    using r d definit_run_errors [where s = "\<lambda>m eq xs. xs" and g = "\<lambda>_. 0" and A = "[]", OF _ r _ d]
    by simp
qed

theorem reachable_errors_witness:
  "(\<forall>m eq (xs :: real list). length ((\<lambda>m eq xs. xs) m eq xs) = length xs) \<and>
   reachable (\<lambda>_. 0) (\<lambda>m eq xs. xs) empty_ns \<and>
   snd (exec_cell (\<lambda>_. 0) (\<lambda>m eq xs. xs) Setup_mesh empty_ns) = Some (NameError ''uw'') \<and>
   notebook_error (NameError ''uw'')"
proof -
  have r: "reachable (\<lambda>_. 0) (\<lambda>m eq xs. xs) empty_ns" by (rule reachable.start)
  have e: "snd (exec_cell (\<lambda>_. 0) (\<lambda>m eq xs. xs) Setup_mesh empty_ns) = Some (NameError ''uw'')"
    by (simp add: exec_cell_def assign_params_def assign_mesh_def need_defs empty_ns_def)
  show ?thesis using r e reachable_errors [OF _ r e] by simp
qed

end
